theory Spec2Isabelle
  imports Main
begin

section \<open>Common ground: machine values, reverts, the outside world\<close>

text \<open>
  The three contracts (\<^verbatim>\<open>RoyaltyEngine.sol\<close>, \<^verbatim>\<open>ERC721Marketplace.sol\<close>,
  \<^verbatim>\<open>ERC721Escrow.sol\<close>) are embedded function by function. An \<^verbatim>\<open>address\<close> is a number
  with \<^verbatim>\<open>address(0)\<close> being \<open>0\<close>; a \<^verbatim>\<open>uint256\<close> is a natural number and every
  arithmetic operation of the source is checked as Solidity 0.8 checks it: a result
  outside \<open>0 .. 2^256 - 1\<close> aborts the call. A \<^verbatim>\<open>bytes32\<close> identifier is the number it
  encodes, \<^verbatim>\<open>bytes32(0)\<close> being \<open>0\<close>.
\<close>

type_synonym address = nat
type_synonym uint256 = nat
type_synonym bytes32 = nat

definition MAX_UINT256 :: nat where
  "MAX_UINT256 = 2 ^ 256 - 1"

text \<open>
  A call that aborts returns an error and no state: the execution environment discards
  every effect of a reverted call. \<open>Revert\<close> carries the message of the failing
  \<^verbatim>\<open>require\<close>. The two arithmetic panics are one error code (0x11) on chain; they are
  kept apart here so that a theorem can say which operation failed. \<open>Callee_reverted\<close>
  is the failure of a call to another contract or of an ether transfer, which the
  caller propagates. \<open>Bad_return_data\<close> is the abort of the caller's own decoder on
  return data that is not an encoding of the declared return types.
\<close>

datatype error =
  Revert string | Panic_overflow | Panic_underflow | Callee_reverted | Bad_return_data

definition checked_add :: "uint256 \<Rightarrow> uint256 \<Rightarrow> error + uint256" where
  "checked_add a b = (if a + b \<le> MAX_UINT256 then Inr (a + b) else Inl Panic_overflow)"

definition checked_sub :: "uint256 \<Rightarrow> uint256 \<Rightarrow> error + uint256" where
  "checked_sub a b = (if b \<le> a then Inr (a - b) else Inl Panic_underflow)"

definition checked_mul :: "uint256 \<Rightarrow> uint256 \<Rightarrow> error + uint256" where
  "checked_mul a b = (if a * b \<le> MAX_UINT256 then Inr (a * b) else Inl Panic_overflow)"

text \<open>
  \<open>succeeded\<close> tells a completed call from an aborted one, and \<open>state_after\<close> is the
  storage the next call sees: the new state of a completed call, the old one otherwise.
\<close>

definition succeeded :: "error + 'a \<Rightarrow> bool" where
  "succeeded r = (case r of Inl _ \<Rightarrow> False | Inr _ \<Rightarrow> True)"

definition state_after :: "'s \<Rightarrow> error + ('s \<times> 'e) \<Rightarrow> 's" where
  "state_after s r = (case r of Inl _ \<Rightarrow> s | Inr (s', _) \<Rightarrow> s')"

text \<open>
  Everything a contract does to the outside is returned as a list of effects in program
  order: asset transfers (\<^verbatim>\<open>safeTransferFrom\<close> on the asset registry) and ether
  transfers (\<^verbatim>\<open>payable(x).transfer(v)\<close>). The purpose names the statement of the
  source that made the transfer. Events are not modelled.
\<close>

datatype purpose = Proceeds | Fee | Royalty | Refund | Sweep

datatype effect =
    Nft_transfer address address address uint256
  | Eth_transfer purpose address uint256

fun paid :: "purpose \<Rightarrow> effect list \<Rightarrow> (address \<times> uint256) list" where
  "paid p [] = []"
| "paid p (Nft_transfer c f t i # es) = paid p es"
| "paid p (Eth_transfer q a v # es) = (if q = p then (a, v) # paid p es else paid p es)"

definition amount_paid :: "purpose \<Rightarrow> effect list \<Rightarrow> nat" where
  "amount_paid p es = sum_list (map snd (paid p es))"

section \<open>RoyaltyEngine.sol\<close>

record RoyaltyInfo =
  recipient :: address
  percentage :: uint256

record royalty_engine =
  contractRoyalties :: "address \<Rightarrow> RoyaltyInfo"
  tokenRoyalties :: "address \<Rightarrow> uint256 \<Rightarrow> RoyaltyInfo"
  defaultRoyalty :: RoyaltyInfo
  owner :: address

text \<open>
  What a registry can do when the engine asks it \<^verbatim>\<open>royaltyInfo(tokenId, salePrice)\<close>:
  return an encoded \<^verbatim>\<open>(address, uint256)\<close> pair, revert, or return data that is
  not such a pair (no data at all, fewer than 64 bytes, a first word that is not an
  address). The three are kept apart because the \<^verbatim>\<open>try\<close> statement of \<^verbatim>\<open>getRoyalty\<close>
  treats them differently.
\<close>

datatype royalty_reply =
    Royalty_answer address uint256
  | Query_reverted
  | Undecodable_reply

text \<open>
  The behaviour of the other contracts at the moment of a call: the asset registry
  (\<^verbatim>\<open>IERC721\<close>), its optional EIP-2981 royalty query, its optional \<^verbatim>\<open>Ownable\<close> owner,
  whether an address takes a plain ether transfer, and the storage of the royalty
  engine deployed at an address. \<open>supportsInterface\<close> is the outcome of
  \<^verbatim>\<open>ERC165Checker.supportsInterface\<close> for the EIP-2981 interface id, which never
  reverts. An \<open>ownerOf\<close>, \<open>isApprovedForAll\<close>, \<open>getApproved\<close> or \<open>contract_owner\<close>
  query that does not answer is \<open>None\<close>; \<open>safeTransferFrom\<close> and \<open>accepts_ether\<close> say
  whether the transfer goes through. Calls are atomic: no callee calls back into the
  contract.
\<close>

record world =
  ownerOf :: "address \<Rightarrow> uint256 \<Rightarrow> address option"
  isApprovedForAll :: "address \<Rightarrow> address \<Rightarrow> address \<Rightarrow> bool option"
  getApproved :: "address \<Rightarrow> uint256 \<Rightarrow> address option"
  safeTransferFrom :: "address \<Rightarrow> address \<Rightarrow> address \<Rightarrow> uint256 \<Rightarrow> bool"
  supportsInterface :: "address \<Rightarrow> bool"
  royaltyInfo :: "address \<Rightarrow> uint256 \<Rightarrow> uint256 \<Rightarrow> royalty_reply"
  contract_owner :: "address \<Rightarrow> address option"
  accepts_ether :: "address \<Rightarrow> bool"
  engine_at :: "address \<Rightarrow> royalty_engine"

definition MAX_ROYALTY_PERCENTAGE :: uint256 where
  "MAX_ROYALTY_PERCENTAGE = 1000"

definition no_royalty :: RoyaltyInfo where
  "no_royalty = \<lparr>recipient = 0, percentage = 0\<rparr>"

text \<open>The constructor: no record anywhere, the deployer owns the engine.\<close>

definition royalty_constructor :: "address \<Rightarrow> royalty_engine" where
  "royalty_constructor deployer =
     \<lparr>contractRoyalties = (\<lambda>_. no_royalty), tokenRoyalties = (\<lambda>_ _. no_royalty),
      defaultRoyalty = no_royalty, owner = deployer\<rparr>"

text \<open>
  \<^verbatim>\<open>_isContractOwner\<close> and \<^verbatim>\<open>_isTokenOwner\<close>: a query that reverts is "no". For
  these two queries the world gives an address or no answer. A registry whose reply
  does not decode as an address, where the source aborts, is outside the worlds
  considered for the setters.
\<close>

definition isContractOwner :: "world \<Rightarrow> address \<Rightarrow> address \<Rightarrow> bool" where
  "isContractOwner w nftContract account =
     (case contract_owner w nftContract of Some contractOwner \<Rightarrow> contractOwner = account
      | None \<Rightarrow> False)"

definition isTokenOwner :: "world \<Rightarrow> address \<Rightarrow> uint256 \<Rightarrow> address \<Rightarrow> bool" where
  "isTokenOwner w nftContract tokenId account =
     (case ownerOf w nftContract tokenId of Some tokenOwner \<Rightarrow> tokenOwner = account
      | None \<Rightarrow> False)"

text \<open>The checks shared by every setter, in the source's order.\<close>

definition check_royalty :: "address \<Rightarrow> uint256 \<Rightarrow> error option" where
  "check_royalty rcp pct =
     (if \<not> pct \<le> MAX_ROYALTY_PERCENTAGE then Some (Revert ''Royalty too high'')
      else if pct > 0 \<and> \<not> rcp \<noteq> 0 then Some (Revert ''Invalid recipient'')
      else None)"

definition setDefaultRoyalty ::
  "address \<Rightarrow> address \<Rightarrow> uint256 \<Rightarrow> royalty_engine \<Rightarrow> error + royalty_engine" where
  "setDefaultRoyalty sender rcp pct s =
     (if owner s \<noteq> sender then Inl (Revert ''Ownable: caller is not the owner'')
      else case check_royalty rcp pct of Some e \<Rightarrow> Inl e
      | None \<Rightarrow> Inr (s\<lparr>defaultRoyalty := \<lparr>recipient = rcp, percentage = pct\<rparr>\<rparr>))"

definition setContractRoyalty ::
  "world \<Rightarrow> address \<Rightarrow> address \<Rightarrow> address \<Rightarrow> uint256 \<Rightarrow> royalty_engine
   \<Rightarrow> error + royalty_engine" where
  "setContractRoyalty w sender nftContract rcp pct s =
     (if \<not> (sender = owner s \<or> isContractOwner w nftContract sender)
      then Inl (Revert ''Not authorized'')
      else case check_royalty rcp pct of Some e \<Rightarrow> Inl e
      | None \<Rightarrow> Inr (s\<lparr>contractRoyalties :=
                 (contractRoyalties s)(nftContract := \<lparr>recipient = rcp, percentage = pct\<rparr>)\<rparr>))"

definition setTokenRoyalty ::
  "world \<Rightarrow> address \<Rightarrow> address \<Rightarrow> uint256 \<Rightarrow> address \<Rightarrow> uint256 \<Rightarrow> royalty_engine
   \<Rightarrow> error + royalty_engine" where
  "setTokenRoyalty w sender nftContract tokenId rcp pct s =
     (if \<not> (sender = owner s \<or> isTokenOwner w nftContract tokenId sender
             \<or> isContractOwner w nftContract sender)
      then Inl (Revert ''Not authorized'')
      else case check_royalty rcp pct of Some e \<Rightarrow> Inl e
      | None \<Rightarrow> Inr (s\<lparr>tokenRoyalties :=
                 (tokenRoyalties s)(nftContract := (tokenRoyalties s nftContract)
                    (tokenId := \<lparr>recipient = rcp, percentage = pct\<rparr>))\<rparr>))"

text \<open>The loop of \<^verbatim>\<open>batchSetContractRoyalties\<close> over the three arrays, index by index.\<close>

fun batch_loop ::
  "address list \<Rightarrow> address list \<Rightarrow> uint256 list \<Rightarrow> royalty_engine \<Rightarrow> error + royalty_engine" where
  "batch_loop (c # cs) (r # rs) (p # ps) s =
     (case check_royalty r p of Some e \<Rightarrow> Inl e
      | None \<Rightarrow> batch_loop cs rs ps
          (s\<lparr>contractRoyalties := (contractRoyalties s)(c := \<lparr>recipient = r, percentage = p\<rparr>)\<rparr>))"
| "batch_loop _ _ _ s = Inr s"

definition batchSetContractRoyalties ::
  "address \<Rightarrow> address list \<Rightarrow> address list \<Rightarrow> uint256 list \<Rightarrow> royalty_engine
   \<Rightarrow> error + royalty_engine" where
  "batchSetContractRoyalties sender nftContracts recipients percentages s =
     (if owner s \<noteq> sender then Inl (Revert ''Ownable: caller is not the owner'')
      else if \<not> (length nftContracts = length recipients
                  \<and> length recipients = length percentages)
      then Inl (Revert ''Array length mismatch'')
      else batch_loop nftContracts recipients percentages s)"

definition removeContractRoyalty ::
  "world \<Rightarrow> address \<Rightarrow> address \<Rightarrow> royalty_engine \<Rightarrow> error + royalty_engine" where
  "removeContractRoyalty w sender nftContract s =
     (if \<not> (sender = owner s \<or> isContractOwner w nftContract sender)
      then Inl (Revert ''Not authorized'')
      else Inr (s\<lparr>contractRoyalties := (contractRoyalties s)(nftContract := no_royalty)\<rparr>))"

definition removeTokenRoyalty ::
  "world \<Rightarrow> address \<Rightarrow> address \<Rightarrow> uint256 \<Rightarrow> royalty_engine \<Rightarrow> error + royalty_engine" where
  "removeTokenRoyalty w sender nftContract tokenId s =
     (if \<not> (sender = owner s \<or> isTokenOwner w nftContract tokenId sender
             \<or> isContractOwner w nftContract sender)
      then Inl (Revert ''Not authorized'')
      else Inr (s\<lparr>tokenRoyalties :=
                 (tokenRoyalties s)(nftContract := (tokenRoyalties s nftContract)
                    (tokenId := no_royalty))\<rparr>))"

subsection \<open>getRoyalty\<close>

text \<open>
  The EIP-2981 branch, lines 105 to 117 of the source. When the registry declares the
  interface the engine calls \<^verbatim>\<open>royaltyInfo\<close> in a \<^verbatim>\<open>try\<close> statement:
  \<^item> an answer that passes the validation is returned (\<open>Inr (Some answer)\<close>);
  \<^item> an answer that fails it leaves the \<^verbatim>\<open>try\<close> block without returning and the
    function goes on to the records (\<open>Inr None\<close>);
  \<^item> a revert of the registry is caught by the empty \<^verbatim>\<open>catch\<close> clause and the
    function goes on to the records as well;
  \<^item> return data that does not decode as \<^verbatim>\<open>(address, uint256)\<close> makes the decoder
    revert in the engine itself. That is not a failure of the external call, the
    \<^verbatim>\<open>catch\<close> clause does not apply to it, and \<^verbatim>\<open>getRoyalty\<close> aborts.

  A registry that does not declare the interface is not called.
\<close>

definition eip2981_royalty ::
  "world \<Rightarrow> address \<Rightarrow> uint256 \<Rightarrow> uint256 \<Rightarrow> error + (address \<times> uint256) option" where
  "eip2981_royalty w nftContract tokenId salePrice =
     (if supportsInterface w nftContract then
        (case royaltyInfo w nftContract tokenId salePrice of
           Royalty_answer eip2981Recipient eip2981Amount \<Rightarrow>
             if eip2981Recipient \<noteq> 0 \<and> eip2981Amount \<le> salePrice div 10
             then Inr (Some (eip2981Recipient, eip2981Amount)) else Inr None
         | Query_reverted \<Rightarrow> Inr None
         | Undecodable_reply \<Rightarrow> Inl Bad_return_data)
      else Inr None)"

text \<open>\<^verbatim>\<open>(salePrice * percentage) / 10000\<close>, paid to the record's recipient.\<close>

definition royalty_share ::
  "RoyaltyInfo \<Rightarrow> uint256 \<Rightarrow> error + (address \<times> uint256)" where
  "royalty_share info salePrice =
     (case checked_mul salePrice (percentage info) of Inl e \<Rightarrow> Inl e
      | Inr product \<Rightarrow> Inr (recipient info, product div 10000))"

definition getRoyalty ::
  "world \<Rightarrow> royalty_engine \<Rightarrow> address \<Rightarrow> uint256 \<Rightarrow> uint256 \<Rightarrow> error + (address \<times> uint256)" where
  "getRoyalty w s nftContract tokenId salePrice =
     (case eip2981_royalty w nftContract tokenId salePrice of
        Inl e \<Rightarrow> Inl e
      | Inr (Some answer) \<Rightarrow> Inr answer
      | Inr None \<Rightarrow>
          let tokenRoyalty = tokenRoyalties s nftContract tokenId;
              contractRoyalty = contractRoyalties s nftContract
          in if recipient tokenRoyalty \<noteq> 0 \<or> percentage tokenRoyalty > 0
             then royalty_share tokenRoyalty salePrice
             else if recipient contractRoyalty \<noteq> 0 \<or> percentage contractRoyalty > 0
             then royalty_share contractRoyalty salePrice
             else if recipient (defaultRoyalty s) \<noteq> 0 \<or> percentage (defaultRoyalty s) > 0
             then royalty_share (defaultRoyalty s) salePrice
             else Inr (0, 0))"

subsection \<open>The resolution order as the specification words it\<close>

text \<open>
  The specification names four layers, tried in order, and "no royalty" after them.
  A record layer is present when its record is not the empty one; the external layer
  is accepted when the registry declares the capability, the query answers, the
  recipient is non-empty and the amount is at most 10% of the sale price. Whatever
  else the registry does is, in the specification's words, ignored: the next layer
  decides.
\<close>

datatype royalty_layer = External_capability | Token_override | Contract_override | Global_default

fun layer_record :: "royalty_engine \<Rightarrow> address \<Rightarrow> uint256 \<Rightarrow> royalty_layer \<Rightarrow> RoyaltyInfo" where
  "layer_record s c t Token_override = tokenRoyalties s c t"
| "layer_record s c t Contract_override = contractRoyalties s c"
| "layer_record s c t Global_default = defaultRoyalty s"
| "layer_record s c t External_capability = no_royalty"

fun layer_applies ::
  "world \<Rightarrow> royalty_engine \<Rightarrow> address \<Rightarrow> uint256 \<Rightarrow> uint256 \<Rightarrow> royalty_layer \<Rightarrow> bool" where
  "layer_applies w s c t price External_capability =
     (supportsInterface w c \<and>
      (case royaltyInfo w c t price of
         Royalty_answer r a \<Rightarrow> r \<noteq> 0 \<and> 10 * a \<le> price
       | Query_reverted \<Rightarrow> False
       | Undecodable_reply \<Rightarrow> False))"
| "layer_applies w s c t price l = (layer_record s c t l \<noteq> no_royalty)"

definition deciding_layer ::
  "world \<Rightarrow> royalty_engine \<Rightarrow> address \<Rightarrow> uint256 \<Rightarrow> uint256 \<Rightarrow> royalty_layer option" where
  "deciding_layer w s c t price =
     List.find (layer_applies w s c t price)
       [External_capability, Token_override, Contract_override, Global_default]"

definition getRoyalty_spec ::
  "world \<Rightarrow> royalty_engine \<Rightarrow> address \<Rightarrow> uint256 \<Rightarrow> uint256 \<Rightarrow> address \<times> uint256" where
  "getRoyalty_spec w s c t price =
     (case deciding_layer w s c t price of
        None \<Rightarrow> (0, 0)
      | Some External_capability \<Rightarrow>
          (case royaltyInfo w c t price of
             Royalty_answer r a \<Rightarrow> (r, a)
           | Query_reverted \<Rightarrow> (0, 0)
           | Undecodable_reply \<Rightarrow> (0, 0))
      | Some l \<Rightarrow> (recipient (layer_record s c t l),
                   price * percentage (layer_record s c t l) div 10000))"

text \<open>The product a percentage layer forms; it must fit into 256 bits.\<close>

definition royalty_product ::
  "world \<Rightarrow> royalty_engine \<Rightarrow> address \<Rightarrow> uint256 \<Rightarrow> uint256 \<Rightarrow> nat" where
  "royalty_product w s c t price =
     (case deciding_layer w s c t price of
        None \<Rightarrow> 0
      | Some l \<Rightarrow> price * percentage (layer_record s c t l))"

text \<open>The invariant of the setters: no stored record is above 10%.\<close>

definition royalty_records_ok :: "royalty_engine \<Rightarrow> bool" where
  "royalty_records_ok s =
     (percentage (defaultRoyalty s) \<le> 1000
      \<and> (\<forall>c. percentage (contractRoyalties s c) \<le> 1000)
      \<and> (\<forall>c t. percentage (tokenRoyalties s c t) \<le> 1000))"

text \<open>The other invariant of the setters: a record with a share has a recipient.\<close>

definition royalty_recipients_ok :: "royalty_engine \<Rightarrow> bool" where
  "royalty_recipients_ok s =
     ((percentage (defaultRoyalty s) > 0 \<longrightarrow> recipient (defaultRoyalty s) \<noteq> 0)
      \<and> (\<forall>c. percentage (contractRoyalties s c) > 0
             \<longrightarrow> recipient (contractRoyalties s c) \<noteq> 0)
      \<and> (\<forall>c t. percentage (tokenRoyalties s c t) > 0
             \<longrightarrow> recipient (tokenRoyalties s c t) \<noteq> 0))"

section \<open>Calls, transfers and approvals\<close>

text \<open>
  What a caller supplies with a call: \<^verbatim>\<open>msg.sender\<close>, \<^verbatim>\<open>msg.value\<close> and the block's
  \<^verbatim>\<open>block.timestamp\<close>. The functions that are not \<^verbatim>\<open>payable\<close> take the sender and the
  time only; the dispatchers below reject a call that sends value to one of them, as
  the compiled contract does.
\<close>

record call =
  msg_sender :: address
  msg_value :: uint256
  block_timestamp :: uint256

definition and_then :: "error + 'a \<Rightarrow> ('a \<Rightarrow> error + 'b) \<Rightarrow> error + 'b" where
  "and_then m f = (case m of Inl e \<Rightarrow> Inl e | Inr x \<Rightarrow> f x)"

definition nonpayable :: "call \<Rightarrow> error + 'a \<Rightarrow> error + 'a" where
  "nonpayable c r = (if msg_value c = 0 then r else Inl (Revert []))"

text \<open>
  A running call carries the contract's ether balance and the effects so far.
  \<^verbatim>\<open>payable(x).transfer(v)\<close> fails when the balance is short or the receiver refuses;
  \<^verbatim>\<open>safeTransferFrom\<close> fails when the registry or the receiver refuses.
\<close>

definition transfer_ether ::
  "world \<Rightarrow> purpose \<Rightarrow> address \<Rightarrow> uint256 \<Rightarrow> uint256 \<times> effect list
   \<Rightarrow> error + (uint256 \<times> effect list)" where
  "transfer_ether w p receiver v be =
     (if v \<le> fst be \<and> accepts_ether w receiver
      then Inr (fst be - v, snd be @ [Eth_transfer p receiver v])
      else Inl Callee_reverted)"

definition transfer_nft ::
  "world \<Rightarrow> address \<Rightarrow> address \<Rightarrow> address \<Rightarrow> uint256 \<Rightarrow> uint256 \<times> effect list
   \<Rightarrow> error + (uint256 \<times> effect list)" where
  "transfer_nft w nft sender receiver tid be =
     (if safeTransferFrom w nft sender receiver tid
      then Inr (fst be, snd be @ [Nft_transfer nft sender receiver tid])
      else Inl Callee_reverted)"

text \<open>
  \<^verbatim>\<open>nft.isApprovedForAll(holder, address(this)) || nft.getApproved(tokenId) == address(this)\<close>:
  the second query is made only when the first answers no.
\<close>

definition approved_for ::
  "world \<Rightarrow> address \<Rightarrow> uint256 \<Rightarrow> address \<Rightarrow> address \<Rightarrow> error + bool" where
  "approved_for w nft tid holder operator =
     (case isApprovedForAll w nft holder operator of
        None \<Rightarrow> Inl Callee_reverted
      | Some True \<Rightarrow> Inr True
      | Some False \<Rightarrow>
          (case getApproved w nft tid of
             None \<Rightarrow> Inl Callee_reverted
           | Some a \<Rightarrow> Inr (a = operator)))"

section \<open>ERC721Marketplace.sol\<close>

record Listing =
  seller :: address
  nftContract :: address
  tokenId :: uint256
  price :: uint256
  createdAt :: uint256
  expiresAt :: uint256
  active :: bool

record Offer =
  buyer :: address
  nftContract :: address
  tokenId :: uint256
  amount :: uint256
  createdAt :: uint256
  expiresAt :: uint256
  active :: bool

text \<open>
  The storage of the contract, with what it inherits from \<^verbatim>\<open>Ownable\<close> (\<open>owner\<close>) and
  \<^verbatim>\<open>Pausable\<close> (\<open>paused\<close>), its own address and its ether balance. A mapping is a
  total function: a key never written holds the zero value.

  The inherited modifiers are written out where a function carries them:
  \<^verbatim>\<open>onlyOwner\<close> reverts with "Ownable: caller is not the owner", \<^verbatim>\<open>whenNotPaused\<close>
  with "Pausable: paused" and \<^verbatim>\<open>whenPaused\<close> with "Pausable: not paused", in the order
  of the function's header. \<^verbatim>\<open>nonReentrant\<close> never fires, calls being atomic.
\<close>

record marketplace =
  listings :: "bytes32 \<Rightarrow> Listing"
  offers :: "bytes32 \<Rightarrow> Offer"
  tokenToListingId :: "address \<Rightarrow> uint256 \<Rightarrow> bytes32"
  userListings :: "address \<Rightarrow> bytes32 list"
  userOffers :: "address \<Rightarrow> bytes32 list"
  whitelistedContracts :: "address \<Rightarrow> bool"
  royaltyEngine :: address
  marketplaceFeePercentage :: uint256
  feeRecipient :: address
  totalListings :: uint256
  totalSales :: uint256
  totalVolume :: uint256
  owner :: address
  paused :: bool
  self_address :: address
  balance :: uint256

definition MAX_FEE_PERCENTAGE :: uint256 where
  "MAX_FEE_PERCENTAGE = 1000"

definition no_listing :: Listing where
  "no_listing = \<lparr>Listing.seller = 0, Listing.nftContract = 0, Listing.tokenId = 0,
     Listing.price = 0, Listing.createdAt = 0, Listing.expiresAt = 0,
     Listing.active = False\<rparr>"

definition no_offer :: Offer where
  "no_offer = \<lparr>Offer.buyer = 0, Offer.nftContract = 0, Offer.tokenId = 0,
     Offer.amount = 0, Offer.createdAt = 0, Offer.expiresAt = 0, Offer.active = False\<rparr>"

definition marketplace_constructor ::
  "address \<Rightarrow> address \<Rightarrow> address \<Rightarrow> address \<Rightarrow> marketplace" where
  "marketplace_constructor self deployer fee_recipient royalty_engine_address =
     \<lparr>listings = (\<lambda>_. no_listing), offers = (\<lambda>_. no_offer),
      tokenToListingId = (\<lambda>_ _. 0), userListings = (\<lambda>_. []), userOffers = (\<lambda>_. []),
      whitelistedContracts = (\<lambda>_. False), royaltyEngine = royalty_engine_address,
      marketplaceFeePercentage = 250, feeRecipient = fee_recipient,
      totalListings = 0, totalSales = 0, totalVolume = 0,
      owner = deployer, paused = False, self_address = self, balance = 0\<rparr>"

text \<open>\<^verbatim>\<open>_cancelListing\<close>: deactivate, and delete the pointer of the listing's asset.\<close>

definition internal_cancelListing :: "bytes32 \<Rightarrow> marketplace \<Rightarrow> marketplace" where
  "internal_cancelListing lid st =
     (let listing = listings st lid in
      st\<lparr>listings := (listings st)(lid := listing\<lparr>Listing.active := False\<rparr>),
         tokenToListingId := (tokenToListingId st)
           (Listing.nftContract listing :=
              (tokenToListingId st (Listing.nftContract listing))
                (Listing.tokenId listing := 0))\<rparr>)"

text \<open>
  \<^verbatim>\<open>listItem\<close>. The identifier is \<^verbatim>\<open>keccak256(abi.encodePacked(nftContract, tokenId,
  block.timestamp))\<close>; the hash function is the parameter \<open>keccak_listing\<close>.
\<close>

definition listItem ::
  "(address \<Rightarrow> uint256 \<Rightarrow> uint256 \<Rightarrow> bytes32) \<Rightarrow> world \<Rightarrow> address \<Rightarrow> uint256
   \<Rightarrow> address \<Rightarrow> uint256 \<Rightarrow> uint256 \<Rightarrow> uint256 \<Rightarrow> marketplace
   \<Rightarrow> error + (marketplace \<times> effect list)" where
  "listItem keccak_listing w sender now nft tid pr duration st =
     (if paused st then Inl (Revert ''Pausable: paused'')
      else if \<not> whitelistedContracts st nft then Inl (Revert ''Contract not whitelisted'')
      else if \<not> pr > 0 then Inl (Revert ''Price must be greater than 0'')
      else if \<not> duration > 0 then Inl (Revert ''Duration must be greater than 0'')
      else case ownerOf w nft tid of
        None \<Rightarrow> Inl Callee_reverted
      | Some holder \<Rightarrow>
          if \<not> holder = sender then Inl (Revert ''Not token owner'')
          else and_then (approved_for w nft tid sender (self_address st)) (\<lambda>approved.
            if \<not> approved then Inl (Revert ''Contract not approved'')
            else let listingId = keccak_listing nft tid now in
              if \<not> \<not> Listing.active (listings st listingId) then Inl (Revert ''Already listed'')
              else let existingListingId = tokenToListingId st nft tid;
                       st1 = (if existingListingId \<noteq> 0
                                 \<and> Listing.active (listings st existingListingId)
                              then internal_cancelListing existingListingId st else st)
                in and_then (checked_add now duration) (\<lambda>expiry.
                   and_then (checked_add (totalListings st1) 1) (\<lambda>count.
                     Inr (st1\<lparr>listings := (listings st1)(listingId :=
                               \<lparr>Listing.seller = sender, Listing.nftContract = nft,
                                Listing.tokenId = tid, Listing.price = pr,
                                Listing.createdAt = now, Listing.expiresAt = expiry,
                                Listing.active = True\<rparr>),
                             tokenToListingId := (tokenToListingId st1)
                               (nft := (tokenToListingId st1 nft)(tid := listingId)),
                             userListings := (userListings st1)
                               (sender := userListings st1 sender @ [listingId]),
                             totalListings := count\<rparr>, [])))))"

text \<open>
  The split of a sale, shared word for word by \<^verbatim>\<open>buyItem\<close> and \<^verbatim>\<open>acceptOffer\<close>:
  \<^verbatim>\<open>marketplaceFee = (price * marketplaceFeePercentage) / 10000\<close> and
  \<^verbatim>\<open>sellerAmount = price - marketplaceFee - royaltyAmount\<close>. The result is the pair
  (marketplaceFee, sellerAmount).
\<close>

definition sale_split :: "uint256 \<Rightarrow> uint256 \<Rightarrow> uint256 \<Rightarrow> error + (uint256 \<times> uint256)" where
  "sale_split pr fee_percentage royaltyAmount =
     and_then (checked_mul pr fee_percentage) (\<lambda>product.
       let marketplaceFee = product div 10000 in
       and_then (checked_sub pr marketplaceFee) (\<lambda>rest.
       and_then (checked_sub rest royaltyAmount) (\<lambda>sellerAmount.
         Inr (marketplaceFee, sellerAmount))))"

text \<open>
  The royalty query and the split together: (royaltyRecipient, royaltyAmount,
  marketplaceFee, sellerAmount) of a sale of the asset at the given price.
\<close>

definition sale_amounts ::
  "world \<Rightarrow> marketplace \<Rightarrow> address \<Rightarrow> uint256 \<Rightarrow> uint256
   \<Rightarrow> error + (address \<times> uint256 \<times> uint256 \<times> uint256)" where
  "sale_amounts w st nft tid pr =
     and_then (getRoyalty w (engine_at w (royaltyEngine st)) nft tid pr) (\<lambda>(rr, ra).
     and_then (sale_split pr (marketplaceFeePercentage st) ra) (\<lambda>(fee, sellerAmount).
       Inr (rr, ra, fee, sellerAmount)))"

text \<open>
  The transfers of a sale, shared by both functions as well: the asset to the buyer,
  the proceeds to the seller, the fee when it is positive, the royalty when it is
  positive and has a recipient.
\<close>

definition settle_sale ::
  "world \<Rightarrow> marketplace \<Rightarrow> address \<Rightarrow> uint256 \<Rightarrow> address \<Rightarrow> address
   \<Rightarrow> address \<times> uint256 \<times> uint256 \<times> uint256 \<Rightarrow> uint256 \<times> effect list
   \<Rightarrow> error + (uint256 \<times> effect list)" where
  "settle_sale w st nft tid sale_seller sale_buyer amounts be =
     (case amounts of (royaltyRecipient, royaltyAmount, marketplaceFee, sellerAmount) \<Rightarrow>
      and_then (transfer_nft w nft sale_seller sale_buyer tid be) (\<lambda>be.
      and_then (transfer_ether w Proceeds sale_seller sellerAmount be) (\<lambda>be.
      and_then (if marketplaceFee > 0
                then transfer_ether w Fee (feeRecipient st) marketplaceFee be
                else Inr be) (\<lambda>be.
        if royaltyAmount > 0 \<and> royaltyRecipient \<noteq> 0
        then transfer_ether w Royalty royaltyRecipient royaltyAmount be
        else Inr be))))"

definition buyItem ::
  "world \<Rightarrow> call \<Rightarrow> bytes32 \<Rightarrow> marketplace \<Rightarrow> error + (marketplace \<times> effect list)" where
  "buyItem w c listingId st =
     (if paused st then Inl (Revert ''Pausable: paused'')
      else if \<not> Listing.active (listings st listingId)
      then Inl (Revert ''Listing not active'')
      else if \<not> Listing.expiresAt (listings st listingId) > block_timestamp c
      then Inl (Revert ''Listing expired'')
      else let listing = listings st listingId in
        if \<not> msg_value c \<ge> Listing.price listing then Inl (Revert ''Insufficient payment'')
        else if \<not> msg_sender c \<noteq> Listing.seller listing
        then Inl (Revert ''Cannot buy own item'')
        else case ownerOf w (Listing.nftContract listing) (Listing.tokenId listing) of
          None \<Rightarrow> Inl Callee_reverted
        | Some holder \<Rightarrow>
            if \<not> holder = Listing.seller listing
            then Inl (Revert ''Seller no longer owns NFT'')
            else let st1 = st\<lparr>listings := (listings st)
                                 (listingId := listing\<lparr>Listing.active := False\<rparr>),
                               tokenToListingId := (tokenToListingId st)
                                 (Listing.nftContract listing :=
                                    (tokenToListingId st (Listing.nftContract listing))
                                      (Listing.tokenId listing := 0))\<rparr>
              in and_then (sale_amounts w st1 (Listing.nftContract listing)
                             (Listing.tokenId listing) (Listing.price listing)) (\<lambda>amounts.
                 and_then (settle_sale w st1 (Listing.nftContract listing)
                             (Listing.tokenId listing) (Listing.seller listing) (msg_sender c)
                             amounts (balance st + msg_value c, [])) (\<lambda>be.
                 and_then (if msg_value c > Listing.price listing
                           then transfer_ether w Refund (msg_sender c)
                                  (msg_value c - Listing.price listing) be
                           else Inr be) (\<lambda>be.
                 and_then (checked_add (totalSales st1) 1) (\<lambda>sales.
                 and_then (checked_add (totalVolume st1) (Listing.price listing)) (\<lambda>volume.
                   Inr (st1\<lparr>totalSales := sales, totalVolume := volume,
                            balance := fst be\<rparr>, snd be)))))))"

definition cancelListing ::
  "address \<Rightarrow> bytes32 \<Rightarrow> marketplace \<Rightarrow> error + (marketplace \<times> effect list)" where
  "cancelListing sender listingId st =
     (let listing = listings st listingId in
      if \<not> (Listing.seller listing = sender \<or> sender = owner st)
      then Inl (Revert ''Not authorized'')
      else if \<not> Listing.active listing then Inl (Revert ''Listing not active'')
      else Inr (internal_cancelListing listingId st, []))"

definition updateListing ::
  "address \<Rightarrow> uint256 \<Rightarrow> bytes32 \<Rightarrow> uint256 \<Rightarrow> marketplace
   \<Rightarrow> error + (marketplace \<times> effect list)" where
  "updateListing sender now listingId newPrice st =
     (if \<not> Listing.active (listings st listingId) then Inl (Revert ''Listing not active'')
      else if \<not> Listing.expiresAt (listings st listingId) > now
      then Inl (Revert ''Listing expired'')
      else let listing = listings st listingId in
        if \<not> Listing.seller listing = sender then Inl (Revert ''Not listing owner'')
        else if \<not> newPrice > 0 then Inl (Revert ''Price must be greater than 0'')
        else Inr (st\<lparr>listings := (listings st)
                     (listingId := listing\<lparr>Listing.price := newPrice\<rparr>)\<rparr>, []))"

text \<open>
  \<^verbatim>\<open>createOffer\<close>. The identifier is \<^verbatim>\<open>keccak256(abi.encodePacked(msg.sender,
  nftContract, tokenId, block.timestamp))\<close>, the parameter \<open>keccak_offer\<close>; the payment
  stays in the contract's balance.
\<close>

definition createOffer ::
  "(address \<Rightarrow> address \<Rightarrow> uint256 \<Rightarrow> uint256 \<Rightarrow> bytes32) \<Rightarrow> call
   \<Rightarrow> address \<Rightarrow> uint256 \<Rightarrow> uint256 \<Rightarrow> marketplace
   \<Rightarrow> error + (marketplace \<times> effect list)" where
  "createOffer keccak_offer c nft tid duration st =
     (if paused st then Inl (Revert ''Pausable: paused'')
      else if \<not> whitelistedContracts st nft then Inl (Revert ''Contract not whitelisted'')
      else if \<not> msg_value c > 0 then Inl (Revert ''Offer must be greater than 0'')
      else if \<not> duration > 0 then Inl (Revert ''Duration must be greater than 0'')
      else let offerId = keccak_offer (msg_sender c) nft tid (block_timestamp c) in
        and_then (checked_add (block_timestamp c) duration) (\<lambda>expiry.
          Inr (st\<lparr>offers := (offers st)(offerId :=
                    \<lparr>Offer.buyer = msg_sender c, Offer.nftContract = nft,
                     Offer.tokenId = tid, Offer.amount = msg_value c,
                     Offer.createdAt = block_timestamp c, Offer.expiresAt = expiry,
                     Offer.active = True\<rparr>),
                  userOffers := (userOffers st)
                    (msg_sender c := userOffers st (msg_sender c) @ [offerId]),
                  balance := balance st + msg_value c\<rparr>, [])))"

definition acceptOffer ::
  "world \<Rightarrow> address \<Rightarrow> uint256 \<Rightarrow> bytes32 \<Rightarrow> marketplace
   \<Rightarrow> error + (marketplace \<times> effect list)" where
  "acceptOffer w sender now offerId st =
     (if paused st then Inl (Revert ''Pausable: paused'')
      else if \<not> Offer.active (offers st offerId) then Inl (Revert ''Offer not active'')
      else if \<not> Offer.expiresAt (offers st offerId) > now then Inl (Revert ''Offer expired'')
      else let offer = offers st offerId in
        case ownerOf w (Offer.nftContract offer) (Offer.tokenId offer) of
          None \<Rightarrow> Inl Callee_reverted
        | Some holder \<Rightarrow>
            if \<not> holder = sender then Inl (Revert ''Not token owner'')
            else and_then (approved_for w (Offer.nftContract offer) (Offer.tokenId offer)
                             sender (self_address st)) (\<lambda>approved.
              if \<not> approved then Inl (Revert ''Contract not approved'')
              else let st1 = st\<lparr>offers := (offers st)
                                   (offerId := offer\<lparr>Offer.active := False\<rparr>)\<rparr>
                in and_then (sale_amounts w st1 (Offer.nftContract offer)
                               (Offer.tokenId offer) (Offer.amount offer)) (\<lambda>amounts.
                   and_then (settle_sale w st1 (Offer.nftContract offer)
                               (Offer.tokenId offer) sender (Offer.buyer offer)
                               amounts (balance st, [])) (\<lambda>be.
                   let existingListingId =
                         tokenToListingId st1 (Offer.nftContract offer) (Offer.tokenId offer);
                       st2 = (if existingListingId \<noteq> 0
                                 \<and> Listing.active (listings st1 existingListingId)
                              then internal_cancelListing existingListingId st1 else st1)
                   in and_then (checked_add (totalSales st2) 1) (\<lambda>sales.
                      and_then (checked_add (totalVolume st2) (Offer.amount offer)) (\<lambda>volume.
                        Inr (st2\<lparr>totalSales := sales, totalVolume := volume,
                                 balance := fst be\<rparr>, snd be)))))))"

definition cancelOffer ::
  "world \<Rightarrow> address \<Rightarrow> uint256 \<Rightarrow> bytes32 \<Rightarrow> marketplace
   \<Rightarrow> error + (marketplace \<times> effect list)" where
  "cancelOffer w sender now offerId st =
     (if \<not> Offer.active (offers st offerId) then Inl (Revert ''Offer not active'')
      else if \<not> Offer.expiresAt (offers st offerId) > now then Inl (Revert ''Offer expired'')
      else let offer = offers st offerId in
        if \<not> (Offer.buyer offer = sender \<or> sender = owner st)
        then Inl (Revert ''Not authorized'')
        else and_then (transfer_ether w Refund (Offer.buyer offer) (Offer.amount offer)
                         (balance st, [])) (\<lambda>be.
               Inr (st\<lparr>offers := (offers st)(offerId := offer\<lparr>Offer.active := False\<rparr>),
                       balance := fst be\<rparr>, snd be)))"

subsection \<open>Administration and views\<close>

definition setContractWhitelist ::
  "address \<Rightarrow> address \<Rightarrow> bool \<Rightarrow> marketplace \<Rightarrow> error + (marketplace \<times> effect list)" where
  "setContractWhitelist sender nft whitelisted st =
     (if owner st \<noteq> sender then Inl (Revert ''Ownable: caller is not the owner'')
      else Inr (st\<lparr>whitelistedContracts := (whitelistedContracts st)(nft := whitelisted)\<rparr>, []))"

definition setMarketplaceFee ::
  "address \<Rightarrow> uint256 \<Rightarrow> marketplace \<Rightarrow> error + (marketplace \<times> effect list)" where
  "setMarketplaceFee sender newFeePercentage st =
     (if owner st \<noteq> sender then Inl (Revert ''Ownable: caller is not the owner'')
      else if \<not> newFeePercentage \<le> MAX_FEE_PERCENTAGE then Inl (Revert ''Fee too high'')
      else Inr (st\<lparr>marketplaceFeePercentage := newFeePercentage\<rparr>, []))"

definition setFeeRecipient ::
  "address \<Rightarrow> address \<Rightarrow> marketplace \<Rightarrow> error + (marketplace \<times> effect list)" where
  "setFeeRecipient sender newFeeRecipient st =
     (if owner st \<noteq> sender then Inl (Revert ''Ownable: caller is not the owner'')
      else if \<not> newFeeRecipient \<noteq> 0 then Inl (Revert ''Invalid address'')
      else Inr (st\<lparr>feeRecipient := newFeeRecipient\<rparr>, []))"

definition setRoyaltyEngine ::
  "address \<Rightarrow> address \<Rightarrow> marketplace \<Rightarrow> error + (marketplace \<times> effect list)" where
  "setRoyaltyEngine sender newRoyaltyEngine st =
     (if owner st \<noteq> sender then Inl (Revert ''Ownable: caller is not the owner'')
      else if \<not> newRoyaltyEngine \<noteq> 0 then Inl (Revert ''Invalid address'')
      else Inr (st\<lparr>royaltyEngine := newRoyaltyEngine\<rparr>, []))"

text \<open>
  \<^verbatim>\<open>pause\<close> and \<^verbatim>\<open>unpause\<close> call the inherited \<^verbatim>\<open>_pause\<close> and \<^verbatim>\<open>_unpause\<close>, which
  require the flag to be clear and set.
\<close>

definition pause :: "address \<Rightarrow> marketplace \<Rightarrow> error + (marketplace \<times> effect list)" where
  "pause sender st =
     (if owner st \<noteq> sender then Inl (Revert ''Ownable: caller is not the owner'')
      else if paused st then Inl (Revert ''Pausable: paused'')
      else Inr (st\<lparr>paused := True\<rparr>, []))"

definition unpause :: "address \<Rightarrow> marketplace \<Rightarrow> error + (marketplace \<times> effect list)" where
  "unpause sender st =
     (if owner st \<noteq> sender then Inl (Revert ''Ownable: caller is not the owner'')
      else if \<not> paused st then Inl (Revert ''Pausable: not paused'')
      else Inr (st\<lparr>paused := False\<rparr>, []))"

definition emergencyWithdraw ::
  "world \<Rightarrow> address \<Rightarrow> marketplace \<Rightarrow> error + (marketplace \<times> effect list)" where
  "emergencyWithdraw w sender st =
     (if owner st \<noteq> sender then Inl (Revert ''Ownable: caller is not the owner'')
      else if \<not> paused st then Inl (Revert ''Pausable: not paused'')
      else and_then (transfer_ether w Sweep (owner st) (balance st) (balance st, [])) (\<lambda>be.
             Inr (st\<lparr>balance := fst be\<rparr>, snd be)))"

text \<open>The inherited \<^verbatim>\<open>transferOwnership\<close> and \<^verbatim>\<open>renounceOwnership\<close> of \<^verbatim>\<open>Ownable\<close>.\<close>

definition transferOwnership ::
  "address \<Rightarrow> address \<Rightarrow> marketplace \<Rightarrow> error + (marketplace \<times> effect list)" where
  "transferOwnership sender newOwner st =
     (if owner st \<noteq> sender then Inl (Revert ''Ownable: caller is not the owner'')
      else if \<not> newOwner \<noteq> 0 then Inl (Revert ''Ownable: new owner is the zero address'')
      else Inr (st\<lparr>owner := newOwner\<rparr>, []))"

definition renounceOwnership ::
  "address \<Rightarrow> marketplace \<Rightarrow> error + (marketplace \<times> effect list)" where
  "renounceOwnership sender st =
     (if owner st \<noteq> sender then Inl (Revert ''Ownable: caller is not the owner'')
      else Inr (st\<lparr>owner := 0\<rparr>, []))"

definition getUserListings :: "marketplace \<Rightarrow> address \<Rightarrow> bytes32 list" where
  "getUserListings st user = userListings st user"

definition getUserOffers :: "marketplace \<Rightarrow> address \<Rightarrow> bytes32 list" where
  "getUserOffers st user = userOffers st user"

definition getListing :: "marketplace \<Rightarrow> bytes32 \<Rightarrow> Listing" where
  "getListing st listingId = listings st listingId"

definition getOffer :: "marketplace \<Rightarrow> bytes32 \<Rightarrow> Offer" where
  "getOffer st offerId = offers st offerId"

subsection \<open>The contract as a transition system\<close>

datatype marketplace_op =
    ListItem address uint256 uint256 uint256
  | BuyItem bytes32
  | CancelListing bytes32
  | UpdateListing bytes32 uint256
  | CreateOffer address uint256 uint256
  | AcceptOffer bytes32
  | CancelOffer bytes32
  | SetContractWhitelist address bool
  | SetMarketplaceFee uint256
  | SetFeeRecipient address
  | SetRoyaltyEngine address
  | Pause
  | Unpause
  | EmergencyWithdraw
  | TransferOwnership address
  | RenounceOwnership

fun marketplace_call ::
  "(address \<Rightarrow> uint256 \<Rightarrow> uint256 \<Rightarrow> bytes32)
   \<Rightarrow> (address \<Rightarrow> address \<Rightarrow> uint256 \<Rightarrow> uint256 \<Rightarrow> bytes32)
   \<Rightarrow> world \<Rightarrow> call \<Rightarrow> marketplace_op \<Rightarrow> marketplace
   \<Rightarrow> error + (marketplace \<times> effect list)" where
  "marketplace_call kl ko w c (ListItem nft tid pr duration) st =
     nonpayable c (listItem kl w (msg_sender c) (block_timestamp c) nft tid pr duration st)"
| "marketplace_call kl ko w c (BuyItem listingId) st = buyItem w c listingId st"
| "marketplace_call kl ko w c (CancelListing listingId) st =
     nonpayable c (cancelListing (msg_sender c) listingId st)"
| "marketplace_call kl ko w c (UpdateListing listingId newPrice) st =
     nonpayable c (updateListing (msg_sender c) (block_timestamp c) listingId newPrice st)"
| "marketplace_call kl ko w c (CreateOffer nft tid duration) st =
     createOffer ko c nft tid duration st"
| "marketplace_call kl ko w c (AcceptOffer offerId) st =
     nonpayable c (acceptOffer w (msg_sender c) (block_timestamp c) offerId st)"
| "marketplace_call kl ko w c (CancelOffer offerId) st =
     nonpayable c (cancelOffer w (msg_sender c) (block_timestamp c) offerId st)"
| "marketplace_call kl ko w c (SetContractWhitelist nft whitelisted) st =
     nonpayable c (setContractWhitelist (msg_sender c) nft whitelisted st)"
| "marketplace_call kl ko w c (SetMarketplaceFee newFeePercentage) st =
     nonpayable c (setMarketplaceFee (msg_sender c) newFeePercentage st)"
| "marketplace_call kl ko w c (SetFeeRecipient newFeeRecipient) st =
     nonpayable c (setFeeRecipient (msg_sender c) newFeeRecipient st)"
| "marketplace_call kl ko w c (SetRoyaltyEngine newRoyaltyEngine) st =
     nonpayable c (setRoyaltyEngine (msg_sender c) newRoyaltyEngine st)"
| "marketplace_call kl ko w c Pause st = nonpayable c (pause (msg_sender c) st)"
| "marketplace_call kl ko w c Unpause st = nonpayable c (unpause (msg_sender c) st)"
| "marketplace_call kl ko w c EmergencyWithdraw st =
     nonpayable c (emergencyWithdraw w (msg_sender c) st)"
| "marketplace_call kl ko w c (TransferOwnership newOwner) st =
     nonpayable c (transferOwnership (msg_sender c) newOwner st)"
| "marketplace_call kl ko w c RenounceOwnership st =
     nonpayable c (renounceOwnership (msg_sender c) st)"

text \<open>
  The reachable states: the deployed contract, every completed call with any caller,
  arguments and outside world, and ether credited to the contract without a call.
\<close>

inductive marketplace_reachable ::
  "(address \<Rightarrow> uint256 \<Rightarrow> uint256 \<Rightarrow> bytes32)
   \<Rightarrow> (address \<Rightarrow> address \<Rightarrow> uint256 \<Rightarrow> uint256 \<Rightarrow> bytes32) \<Rightarrow> marketplace \<Rightarrow> bool"
  for kl ko where
    deployed: "marketplace_reachable kl ko (marketplace_constructor self deployer fr re)"
  | called: "marketplace_reachable kl ko st
       \<Longrightarrow> marketplace_call kl ko w c opn st = Inr (st', es)
       \<Longrightarrow> marketplace_reachable kl ko st'"
  | credited: "marketplace_reachable kl ko st
       \<Longrightarrow> marketplace_reachable kl ko (st\<lparr>balance := balance st + v\<rparr>)"

text \<open>
  The invariant behind "one active listing per asset": an active listing has a
  non-zero identifier and is the one its asset points to, and a non-zero pointer of an
  asset leads to an active listing of that very asset.
\<close>

definition one_active_listing :: "marketplace \<Rightarrow> bool" where
  "one_active_listing st =
     (\<forall>i j. Listing.active (listings st i) \<and> Listing.active (listings st j)
            \<and> Listing.nftContract (listings st i) = Listing.nftContract (listings st j)
            \<and> Listing.tokenId (listings st i) = Listing.tokenId (listings st j)
        \<longrightarrow> i = j)"

definition consistent ::
  "(bytes32 \<Rightarrow> Listing) \<Rightarrow> (address \<Rightarrow> uint256 \<Rightarrow> bytes32) \<Rightarrow> bool" where
  "consistent L P =
     ((\<forall>i. Listing.active (L i) \<longrightarrow>
          i \<noteq> 0 \<and> P (Listing.nftContract (L i)) (Listing.tokenId (L i)) = i)
      \<and> (\<forall>nft tid. P nft tid \<noteq> 0 \<longrightarrow>
          Listing.active (L (P nft tid))
          \<and> Listing.nftContract (L (P nft tid)) = nft
          \<and> Listing.tokenId (L (P nft tid)) = tid))"

definition pointers_consistent :: "marketplace \<Rightarrow> bool" where
  "pointers_consistent st = consistent (listings st) (tokenToListingId st)"

section \<open>ERC721Escrow.sol\<close>

datatype EscrowStatus = Active | Completed | Cancelled | Disputed

record EscrowTransaction =
  seller :: address
  buyer :: address
  nftContract :: address
  tokenId :: uint256
  price :: uint256
  createdAt :: uint256
  deadline :: uint256
  status :: EscrowStatus
  sellerApproved :: bool
  buyerApproved :: bool

record escrow =
  escrowTransactions :: "uint256 \<Rightarrow> EscrowTransaction"
  whitelistedContracts :: "address \<Rightarrow> bool"
  userEscrows :: "address \<Rightarrow> uint256 list"
  nextEscrowId :: uint256
  escrowFeePercentage :: uint256
  disputeWindow :: uint256
  feeRecipient :: address
  disputeResolver :: address
  owner :: address
  paused :: bool
  self_address :: address
  balance :: uint256

definition no_escrow :: EscrowTransaction where
  "no_escrow = \<lparr>EscrowTransaction.seller = 0, EscrowTransaction.buyer = 0,
     EscrowTransaction.nftContract = 0, EscrowTransaction.tokenId = 0,
     EscrowTransaction.price = 0, EscrowTransaction.createdAt = 0,
     EscrowTransaction.deadline = 0, EscrowTransaction.status = Active,
     EscrowTransaction.sellerApproved = False, EscrowTransaction.buyerApproved = False\<rparr>"

text \<open>The constructor; \<^verbatim>\<open>7 days\<close> are 604800 seconds.\<close>

definition escrow_constructor ::
  "address \<Rightarrow> address \<Rightarrow> address \<Rightarrow> address \<Rightarrow> escrow" where
  "escrow_constructor self deployer fee_recipient dispute_resolver =
     \<lparr>escrowTransactions = (\<lambda>_. no_escrow), escrow.whitelistedContracts = (\<lambda>_. False),
      userEscrows = (\<lambda>_. []), nextEscrowId = 1, escrowFeePercentage = 250,
      disputeWindow = 604800, escrow.feeRecipient = fee_recipient,
      disputeResolver = dispute_resolver, escrow.owner = deployer, escrow.paused = False,
      escrow.self_address = self, escrow.balance = 0\<rparr>"

definition createEscrow ::
  "world \<Rightarrow> call \<Rightarrow> address \<Rightarrow> address \<Rightarrow> uint256 \<Rightarrow> uint256 \<Rightarrow> escrow
   \<Rightarrow> error + (escrow \<times> effect list)" where
  "createEscrow w c escrow_buyer nft tid escrow_deadline st =
     (if escrow.paused st then Inl (Revert ''Pausable: paused'')
      else if \<not> escrow_buyer \<noteq> 0 then Inl (Revert ''Invalid buyer address'')
      else if \<not> escrow_buyer \<noteq> msg_sender c then Inl (Revert ''Buyer cannot be seller'')
      else if \<not> escrow.whitelistedContracts st nft
      then Inl (Revert ''Contract not whitelisted'')
      else if \<not> msg_value c > 0 then Inl (Revert ''Price must be greater than 0'')
      else if \<not> escrow_deadline > block_timestamp c then Inl (Revert ''Invalid deadline'')
      else case ownerOf w nft tid of
        None \<Rightarrow> Inl Callee_reverted
      | Some holder \<Rightarrow>
          if \<not> holder = msg_sender c then Inl (Revert ''Seller doesn't own NFT'')
          else and_then (approved_for w nft tid (msg_sender c) (escrow.self_address st))
            (\<lambda>approved.
            if \<not> approved then Inl (Revert ''Contract not approved'')
            else let escrowId = nextEscrowId st in
              and_then (checked_add (nextEscrowId st) 1) (\<lambda>next.
              and_then (transfer_nft w nft (msg_sender c) (escrow.self_address st) tid
                          (escrow.balance st + msg_value c, [])) (\<lambda>be.
                Inr (st\<lparr>nextEscrowId := next,
                        escrowTransactions := (escrowTransactions st)(escrowId :=
                          \<lparr>EscrowTransaction.seller = msg_sender c,
                           EscrowTransaction.buyer = escrow_buyer,
                           EscrowTransaction.nftContract = nft,
                           EscrowTransaction.tokenId = tid,
                           EscrowTransaction.price = msg_value c,
                           EscrowTransaction.createdAt = block_timestamp c,
                           EscrowTransaction.deadline = escrow_deadline,
                           EscrowTransaction.status = Active,
                           EscrowTransaction.sellerApproved = False,
                           EscrowTransaction.buyerApproved = False\<rparr>),
                        userEscrows :=
                          ((userEscrows st)
                             (msg_sender c := userEscrows st (msg_sender c) @ [escrowId]))
                             (escrow_buyer :=
                                ((userEscrows st)
                                   (msg_sender c := userEscrows st (msg_sender c) @ [escrowId]))
                                  escrow_buyer @ [escrowId]),
                        escrow.balance := fst be\<rparr>, snd be)))))"

text \<open>The modifier \<^verbatim>\<open>validEscrow\<close>.\<close>

definition validEscrow :: "escrow \<Rightarrow> uint256 \<Rightarrow> bool" where
  "validEscrow st escrowId = (escrowId > 0 \<and> escrowId < nextEscrowId st)"

text \<open>
  The amounts of \<^verbatim>\<open>_completeEscrow\<close>: \<^verbatim>\<open>fee = (price * escrowFeePercentage) / 10000\<close>
  and \<^verbatim>\<open>sellerAmount = price - fee\<close>; the result is the pair (fee, sellerAmount).
\<close>

definition escrow_split :: "uint256 \<Rightarrow> uint256 \<Rightarrow> error + (uint256 \<times> uint256)" where
  "escrow_split pr fee_percentage =
     and_then (checked_mul pr fee_percentage) (\<lambda>product.
       let fee = product div 10000 in
       and_then (checked_sub pr fee) (\<lambda>sellerAmount. Inr (fee, sellerAmount)))"

text \<open>
  \<^verbatim>\<open>_completeEscrow\<close>: mark Completed, hand the asset to the buyer, pay the seller
  and, when positive, the fee.
\<close>

definition completeEscrow ::
  "world \<Rightarrow> uint256 \<Rightarrow> escrow \<Rightarrow> error + (escrow \<times> effect list)" where
  "completeEscrow w escrowId st =
     (let e = escrowTransactions st escrowId;
          st1 = st\<lparr>escrowTransactions := (escrowTransactions st)
                   (escrowId := e\<lparr>EscrowTransaction.status := Completed\<rparr>)\<rparr>
      in and_then (escrow_split (EscrowTransaction.price e) (escrowFeePercentage st1))
           (\<lambda>(fee, sellerAmount).
         and_then (transfer_nft w (EscrowTransaction.nftContract e) (escrow.self_address st1)
                     (EscrowTransaction.buyer e) (EscrowTransaction.tokenId e)
                     (escrow.balance st1, [])) (\<lambda>be.
         and_then (transfer_ether w Proceeds (EscrowTransaction.seller e) sellerAmount be)
           (\<lambda>be.
         and_then (if fee > 0 then transfer_ether w Fee (escrow.feeRecipient st1) fee be
                   else Inr be) (\<lambda>be.
           Inr (st1\<lparr>escrow.balance := fst be\<rparr>, snd be))))))"

definition approveEscrow ::
  "world \<Rightarrow> address \<Rightarrow> uint256 \<Rightarrow> escrow \<Rightarrow> error + (escrow \<times> effect list)" where
  "approveEscrow w sender escrowId st =
     (if \<not> validEscrow st escrowId then Inl (Revert ''Invalid escrow ID'')
      else let e = escrowTransactions st escrowId in
        if \<not> EscrowTransaction.status e = Active then Inl (Revert ''Escrow not active'')
        else if \<not> (sender = EscrowTransaction.seller e \<or> sender = EscrowTransaction.buyer e)
        then Inl (Revert ''Not authorized'')
        else let e1 = (if sender = EscrowTransaction.seller e
                       then e\<lparr>sellerApproved := True\<rparr>
                       else e\<lparr>buyerApproved := True\<rparr>);
                 st1 = st\<lparr>escrowTransactions := (escrowTransactions st)(escrowId := e1)\<rparr>
          in if sellerApproved e1 \<and> buyerApproved e1
             then completeEscrow w escrowId st1
             else Inr (st1, []))"

text \<open>The cancellation payout: the asset back to the seller, the price back to the buyer.\<close>

definition unwind_escrow ::
  "world \<Rightarrow> uint256 \<Rightarrow> escrow \<Rightarrow> error + (escrow \<times> effect list)" where
  "unwind_escrow w escrowId st =
     (let e = escrowTransactions st escrowId;
          st1 = st\<lparr>escrowTransactions := (escrowTransactions st)
                   (escrowId := e\<lparr>EscrowTransaction.status := Cancelled\<rparr>)\<rparr>
      in and_then (transfer_nft w (EscrowTransaction.nftContract e) (escrow.self_address st1)
                     (EscrowTransaction.seller e) (EscrowTransaction.tokenId e)
                     (escrow.balance st1, [])) (\<lambda>be.
         and_then (transfer_ether w Refund (EscrowTransaction.buyer e)
                     (EscrowTransaction.price e) be) (\<lambda>be.
           Inr (st1\<lparr>escrow.balance := fst be\<rparr>, snd be))))"

definition cancelEscrow ::
  "world \<Rightarrow> address \<Rightarrow> uint256 \<Rightarrow> uint256 \<Rightarrow> escrow \<Rightarrow> error + (escrow \<times> effect list)" where
  "cancelEscrow w sender now escrowId st =
     (if \<not> validEscrow st escrowId then Inl (Revert ''Invalid escrow ID'')
      else let e = escrowTransactions st escrowId in
        if \<not> EscrowTransaction.status e = Active then Inl (Revert ''Escrow not active'')
        else if \<not> (sender = EscrowTransaction.seller e \<or> sender = EscrowTransaction.buyer e
                    \<or> now > EscrowTransaction.deadline e)
        then Inl (Revert ''Not authorized to cancel'')
        else unwind_escrow w escrowId st)"

definition initiateDispute ::
  "address \<Rightarrow> uint256 \<Rightarrow> uint256 \<Rightarrow> escrow \<Rightarrow> error + (escrow \<times> effect list)" where
  "initiateDispute sender now escrowId st =
     (if \<not> validEscrow st escrowId then Inl (Revert ''Invalid escrow ID'')
      else let e = escrowTransactions st escrowId in
        if \<not> EscrowTransaction.status e = Active then Inl (Revert ''Escrow not active'')
        else if \<not> (sender = EscrowTransaction.seller e \<or> sender = EscrowTransaction.buyer e)
        then Inl (Revert ''Not authorized'')
        else and_then (checked_add (EscrowTransaction.deadline e) (disputeWindow st))
          (\<lambda>closing.
            if \<not> now \<le> closing then Inl (Revert ''Dispute window closed'')
            else Inr (st\<lparr>escrowTransactions := (escrowTransactions st)
                         (escrowId := e\<lparr>EscrowTransaction.status := Disputed\<rparr>)\<rparr>, [])))"

definition resolveDispute ::
  "world \<Rightarrow> address \<Rightarrow> uint256 \<Rightarrow> bool \<Rightarrow> escrow \<Rightarrow> error + (escrow \<times> effect list)" where
  "resolveDispute w sender escrowId favorBuyer st =
     (if \<not> sender = disputeResolver st then Inl (Revert ''Only dispute resolver'')
      else if \<not> validEscrow st escrowId then Inl (Revert ''Invalid escrow ID'')
      else let e = escrowTransactions st escrowId in
        if \<not> EscrowTransaction.status e = Disputed then Inl (Revert ''Escrow not disputed'')
        else if favorBuyer then completeEscrow w escrowId st
        else unwind_escrow w escrowId st)"

subsection \<open>Administration and views\<close>

definition escrow_setContractWhitelist ::
  "address \<Rightarrow> address \<Rightarrow> bool \<Rightarrow> escrow \<Rightarrow> error + (escrow \<times> effect list)" where
  "escrow_setContractWhitelist sender nft whitelisted st =
     (if escrow.owner st \<noteq> sender then Inl (Revert ''Ownable: caller is not the owner'')
      else Inr (st\<lparr>escrow.whitelistedContracts :=
                     (escrow.whitelistedContracts st)(nft := whitelisted)\<rparr>, []))"

definition setEscrowFee ::
  "address \<Rightarrow> uint256 \<Rightarrow> escrow \<Rightarrow> error + (escrow \<times> effect list)" where
  "setEscrowFee sender newFeePercentage st =
     (if escrow.owner st \<noteq> sender then Inl (Revert ''Ownable: caller is not the owner'')
      else if \<not> newFeePercentage \<le> MAX_FEE_PERCENTAGE then Inl (Revert ''Fee too high'')
      else Inr (st\<lparr>escrowFeePercentage := newFeePercentage\<rparr>, []))"

definition escrow_setFeeRecipient ::
  "address \<Rightarrow> address \<Rightarrow> escrow \<Rightarrow> error + (escrow \<times> effect list)" where
  "escrow_setFeeRecipient sender newFeeRecipient st =
     (if escrow.owner st \<noteq> sender then Inl (Revert ''Ownable: caller is not the owner'')
      else if \<not> newFeeRecipient \<noteq> 0 then Inl (Revert ''Invalid address'')
      else Inr (st\<lparr>escrow.feeRecipient := newFeeRecipient\<rparr>, []))"

definition setDisputeResolver ::
  "address \<Rightarrow> address \<Rightarrow> escrow \<Rightarrow> error + (escrow \<times> effect list)" where
  "setDisputeResolver sender newDisputeResolver st =
     (if escrow.owner st \<noteq> sender then Inl (Revert ''Ownable: caller is not the owner'')
      else if \<not> newDisputeResolver \<noteq> 0 then Inl (Revert ''Invalid address'')
      else Inr (st\<lparr>disputeResolver := newDisputeResolver\<rparr>, []))"

definition escrow_pause :: "address \<Rightarrow> escrow \<Rightarrow> error + (escrow \<times> effect list)" where
  "escrow_pause sender st =
     (if escrow.owner st \<noteq> sender then Inl (Revert ''Ownable: caller is not the owner'')
      else if escrow.paused st then Inl (Revert ''Pausable: paused'')
      else Inr (st\<lparr>escrow.paused := True\<rparr>, []))"

definition escrow_unpause :: "address \<Rightarrow> escrow \<Rightarrow> error + (escrow \<times> effect list)" where
  "escrow_unpause sender st =
     (if escrow.owner st \<noteq> sender then Inl (Revert ''Ownable: caller is not the owner'')
      else if \<not> escrow.paused st then Inl (Revert ''Pausable: not paused'')
      else Inr (st\<lparr>escrow.paused := False\<rparr>, []))"

definition escrow_emergencyWithdraw ::
  "world \<Rightarrow> address \<Rightarrow> escrow \<Rightarrow> error + (escrow \<times> effect list)" where
  "escrow_emergencyWithdraw w sender st =
     (if escrow.owner st \<noteq> sender then Inl (Revert ''Ownable: caller is not the owner'')
      else if \<not> escrow.paused st then Inl (Revert ''Pausable: not paused'')
      else and_then (transfer_ether w Sweep (escrow.owner st) (escrow.balance st)
                       (escrow.balance st, [])) (\<lambda>be.
             Inr (st\<lparr>escrow.balance := fst be\<rparr>, snd be)))"

definition escrow_transferOwnership ::
  "address \<Rightarrow> address \<Rightarrow> escrow \<Rightarrow> error + (escrow \<times> effect list)" where
  "escrow_transferOwnership sender newOwner st =
     (if escrow.owner st \<noteq> sender then Inl (Revert ''Ownable: caller is not the owner'')
      else if \<not> newOwner \<noteq> 0 then Inl (Revert ''Ownable: new owner is the zero address'')
      else Inr (st\<lparr>escrow.owner := newOwner\<rparr>, []))"

definition escrow_renounceOwnership ::
  "address \<Rightarrow> escrow \<Rightarrow> error + (escrow \<times> effect list)" where
  "escrow_renounceOwnership sender st =
     (if escrow.owner st \<noteq> sender then Inl (Revert ''Ownable: caller is not the owner'')
      else Inr (st\<lparr>escrow.owner := 0\<rparr>, []))"

definition getUserEscrows :: "escrow \<Rightarrow> address \<Rightarrow> uint256 list" where
  "getUserEscrows st user = userEscrows st user"

definition getEscrow :: "escrow \<Rightarrow> uint256 \<Rightarrow> EscrowTransaction" where
  "getEscrow st escrowId = escrowTransactions st escrowId"

subsection \<open>The contract as a transition system\<close>

datatype escrow_op =
    CreateEscrow address address uint256 uint256
  | ApproveEscrow uint256
  | CancelEscrow uint256
  | InitiateDispute uint256
  | ResolveDispute uint256 bool
  | Escrow_SetContractWhitelist address bool
  | SetEscrowFee uint256
  | Escrow_SetFeeRecipient address
  | SetDisputeResolver address
  | Escrow_Pause
  | Escrow_Unpause
  | Escrow_EmergencyWithdraw
  | Escrow_TransferOwnership address
  | Escrow_RenounceOwnership

fun escrow_call ::
  "world \<Rightarrow> call \<Rightarrow> escrow_op \<Rightarrow> escrow \<Rightarrow> error + (escrow \<times> effect list)" where
  "escrow_call w c (CreateEscrow escrow_buyer nft tid escrow_deadline) st =
     createEscrow w c escrow_buyer nft tid escrow_deadline st"
| "escrow_call w c (ApproveEscrow escrowId) st =
     nonpayable c (approveEscrow w (msg_sender c) escrowId st)"
| "escrow_call w c (CancelEscrow escrowId) st =
     nonpayable c (cancelEscrow w (msg_sender c) (block_timestamp c) escrowId st)"
| "escrow_call w c (InitiateDispute escrowId) st =
     nonpayable c (initiateDispute (msg_sender c) (block_timestamp c) escrowId st)"
| "escrow_call w c (ResolveDispute escrowId favorBuyer) st =
     nonpayable c (resolveDispute w (msg_sender c) escrowId favorBuyer st)"
| "escrow_call w c (Escrow_SetContractWhitelist nft whitelisted) st =
     nonpayable c (escrow_setContractWhitelist (msg_sender c) nft whitelisted st)"
| "escrow_call w c (SetEscrowFee newFeePercentage) st =
     nonpayable c (setEscrowFee (msg_sender c) newFeePercentage st)"
| "escrow_call w c (Escrow_SetFeeRecipient newFeeRecipient) st =
     nonpayable c (escrow_setFeeRecipient (msg_sender c) newFeeRecipient st)"
| "escrow_call w c (SetDisputeResolver newDisputeResolver) st =
     nonpayable c (setDisputeResolver (msg_sender c) newDisputeResolver st)"
| "escrow_call w c Escrow_Pause st = nonpayable c (escrow_pause (msg_sender c) st)"
| "escrow_call w c Escrow_Unpause st = nonpayable c (escrow_unpause (msg_sender c) st)"
| "escrow_call w c Escrow_EmergencyWithdraw st =
     nonpayable c (escrow_emergencyWithdraw w (msg_sender c) st)"
| "escrow_call w c (Escrow_TransferOwnership newOwner) st =
     nonpayable c (escrow_transferOwnership (msg_sender c) newOwner st)"
| "escrow_call w c Escrow_RenounceOwnership st =
     nonpayable c (escrow_renounceOwnership (msg_sender c) st)"

inductive escrow_reachable :: "escrow \<Rightarrow> bool" where
    escrow_deployed: "escrow_reachable (escrow_constructor self deployer fr dr)"
  | escrow_called: "escrow_reachable st
       \<Longrightarrow> escrow_call w c opn st = Inr (st', es)
       \<Longrightarrow> escrow_reachable st'"
  | escrow_credited: "escrow_reachable st
       \<Longrightarrow> escrow_reachable (st\<lparr>escrow.balance := escrow.balance st + v\<rparr>)"

text \<open>
  The part of "Completed iff both approved" that every reachable state satisfies: an
  escrow with both approvals is Completed.
\<close>

definition approvals_complete :: "escrow \<Rightarrow> bool" where
  "approvals_complete st =
     (\<forall>eid. sellerApproved (escrowTransactions st eid)
            \<and> buyerApproved (escrowTransactions st eid)
        \<longrightarrow> EscrowTransaction.status (escrowTransactions st eid) = Completed)"

section \<open>The pause flag\<close>

text \<open>
  To say that a function does not look at the pause flag: run on a state whose flag is
  set to \<open>b\<close>, it does what it does otherwise, and the flag stays \<open>b\<close>.
\<close>

definition marketplace_with_paused ::
  "bool \<Rightarrow> error + (marketplace \<times> effect list) \<Rightarrow> error + (marketplace \<times> effect list)" where
  "marketplace_with_paused b r =
     (case r of Inl e \<Rightarrow> Inl e | Inr (st, es) \<Rightarrow> Inr (st\<lparr>marketplace.paused := b\<rparr>, es))"

definition escrow_with_paused ::
  "bool \<Rightarrow> error + (escrow \<times> effect list) \<Rightarrow> error + (escrow \<times> effect list)" where
  "escrow_with_paused b r =
     (case r of Inl e \<Rightarrow> Inl e | Inr (st, es) \<Rightarrow> Inr (st\<lparr>escrow.paused := b\<rparr>, es))"

section \<open>Sample configurations\<close>

text \<open>
  An engine owned by account 1 with all three record layers set for token 1 of
  registry 5: 5% for the token, 3% for the registry, 1% by default.
\<close>

definition layered_engine :: royalty_engine where
  "layered_engine =
     \<lparr>contractRoyalties = (\<lambda>_. no_royalty)(5 := \<lparr>recipient = 88, percentage = 300\<rparr>),
      tokenRoyalties = (\<lambda>_ _. no_royalty)
        (5 := (\<lambda>_. no_royalty)(1 := \<lparr>recipient = 77, percentage = 500\<rparr>)),
      defaultRoyalty = \<lparr>recipient = 99, percentage = 100\<rparr>,
      royalty_engine.owner = 1\<rparr>"

text \<open>
  A registry at address 5 without the royalty capability, whose token 1 is owned by
  account 11 and approved for the engines; every account takes ether, and the royalty
  engine at every address is the layered one.
\<close>

definition plain_world :: world where
  "plain_world =
     \<lparr>ownerOf = (\<lambda>c t. if c = 5 \<and> t = 1 then Some 11 else None),
      isApprovedForAll = (\<lambda>c a b. Some (c = 5 \<and> a = 11)),
      getApproved = (\<lambda>c t. Some 0),
      safeTransferFrom = (\<lambda>c a b t. True),
      supportsInterface = (\<lambda>c. False),
      royaltyInfo = (\<lambda>c t p. Query_reverted),
      contract_owner = (\<lambda>c. None),
      accepts_ether = (\<lambda>a. True),
      engine_at = (\<lambda>a. layered_engine)\<rparr>"

text \<open>
  The same world, except that registry 5 now declares the EIP-2981 interface and
  answers \<^verbatim>\<open>royaltyInfo\<close> with no return data at all, as a contract does whose
  fallback function takes the call.
\<close>

definition silent_registry_world :: world where
  "silent_registry_world =
     plain_world\<lparr>supportsInterface := (\<lambda>c. c = 5),
                   royaltyInfo := (\<lambda>c t p. Undecodable_reply)\<rparr>"

text \<open>
  Hash functions for the samples: any function that never answers \<^verbatim>\<open>bytes32(0)\<close>
  will do.
\<close>

definition sample_keccak_listing :: "address \<Rightarrow> uint256 \<Rightarrow> uint256 \<Rightarrow> bytes32" where
  "sample_keccak_listing nft tid now = 1 + nft + tid + now"

definition sample_keccak_offer :: "address \<Rightarrow> address \<Rightarrow> uint256 \<Rightarrow> uint256 \<Rightarrow> bytes32" where
  "sample_keccak_offer sender nft tid now = 1 + sender + nft + tid + now"

text \<open>
  A marketplace at address 50, owned by account 1, fee recipient 3, royalty engine 4.
  Account 11 has listed token 1 of registry 5 for 1000000 at time 100 (listing 107);
  account 22 holds an offer of 500000 on it (offer 129), which the balance covers.
\<close>

definition sample_market :: marketplace where
  "sample_market =
     \<lparr>listings = (\<lambda>_. no_listing)(107 :=
        \<lparr>Listing.seller = 11, Listing.nftContract = 5, Listing.tokenId = 1,
         Listing.price = 1000000, Listing.createdAt = 100, Listing.expiresAt = 2000,
         Listing.active = True\<rparr>),
      offers = (\<lambda>_. no_offer)(129 :=
        \<lparr>Offer.buyer = 22, Offer.nftContract = 5, Offer.tokenId = 1,
         Offer.amount = 500000, Offer.createdAt = 100, Offer.expiresAt = 2000,
         Offer.active = True\<rparr>),
      tokenToListingId = (\<lambda>_ _. 0)(5 := (\<lambda>_. 0)(1 := 107)),
      userListings = (\<lambda>_. [])(11 := [107]),
      userOffers = (\<lambda>_. [])(22 := [129]),
      marketplace.whitelistedContracts = (\<lambda>_. False)(5 := True),
      royaltyEngine = 4, marketplaceFeePercentage = 250, marketplace.feeRecipient = 3,
      totalListings = 1, totalSales = 0, totalVolume = 0,
      marketplace.owner = 1, marketplace.paused = False, marketplace.self_address = 50,
      marketplace.balance = 500000\<rparr>"

text \<open>
  An escrow contract at address 60, owned by account 1, fee recipient 3, resolver 2,
  holding one Active escrow: seller 11, buyer 22, token 1 of registry 5, price 1000000,
  deadline 5000.
\<close>

definition sample_escrow :: escrow where
  "sample_escrow =
     \<lparr>escrowTransactions = (\<lambda>_. no_escrow)(1 :=
        \<lparr>EscrowTransaction.seller = 11, EscrowTransaction.buyer = 22,
         EscrowTransaction.nftContract = 5, EscrowTransaction.tokenId = 1,
         EscrowTransaction.price = 1000000, EscrowTransaction.createdAt = 100,
         EscrowTransaction.deadline = 5000, EscrowTransaction.status = Active,
         EscrowTransaction.sellerApproved = False,
         EscrowTransaction.buyerApproved = False\<rparr>),
      escrow.whitelistedContracts = (\<lambda>_. False)(5 := True),
      userEscrows = ((\<lambda>_. [])(11 := [1]))(22 := [1]),
      nextEscrowId = 2, escrowFeePercentage = 250, disputeWindow = 604800,
      escrow.feeRecipient = 3, disputeResolver = 2, escrow.owner = 1,
      escrow.paused = False, escrow.self_address = 60, escrow.balance = 1000000\<rparr>"

text \<open>Running a sequence of calls; an aborted call leaves the state as it was.\<close>

fun marketplace_run ::
  "(address \<Rightarrow> uint256 \<Rightarrow> uint256 \<Rightarrow> bytes32)
   \<Rightarrow> (address \<Rightarrow> address \<Rightarrow> uint256 \<Rightarrow> uint256 \<Rightarrow> bytes32)
   \<Rightarrow> world \<Rightarrow> (call \<times> marketplace_op) list \<Rightarrow> marketplace \<Rightarrow> marketplace" where
  "marketplace_run kl ko w [] st = st"
| "marketplace_run kl ko w (x # xs) st =
     marketplace_run kl ko w xs (state_after st (marketplace_call kl ko w (fst x) (snd x) st))"

fun escrow_run :: "world \<Rightarrow> (call \<times> escrow_op) list \<Rightarrow> escrow \<Rightarrow> escrow" where
  "escrow_run w [] st = st"
| "escrow_run w (x # xs) st =
     escrow_run w xs (state_after st (escrow_call w (fst x) (snd x) st))"

text \<open>The same escrow after the seller's approval, and after a dispute was raised.\<close>

definition half_approved_escrow :: escrow where
  "half_approved_escrow =
     sample_escrow\<lparr>escrowTransactions := (escrowTransactions sample_escrow)
       (1 := (escrowTransactions sample_escrow 1)\<lparr>sellerApproved := True\<rparr>)\<rparr>"

definition disputed_escrow :: escrow where
  "disputed_escrow =
     sample_escrow\<lparr>escrowTransactions := (escrowTransactions sample_escrow)
       (1 := (escrowTransactions sample_escrow 1)\<lparr>EscrowTransaction.status := Disputed\<rparr>)\<rparr>"

text \<open>A buyer's call paying 1500000 at time 500.\<close>

definition buyer_call :: call where
  "buyer_call = \<lparr>msg_sender = 22, msg_value = 1500000, block_timestamp = 500\<rparr>"

text \<open>
  A fresh escrow contract and four calls: the owner whitelists registry 5, account 11
  opens an escrow of token 1 for buyer 22 at price 1000000, raises a dispute, and the
  resolver decides for the buyer.
\<close>

definition dispute_trace :: "(call \<times> escrow_op) list" where
  "dispute_trace =
     [(\<lparr>msg_sender = 1, msg_value = 0, block_timestamp = 10\<rparr>,
         Escrow_SetContractWhitelist 5 True),
      (\<lparr>msg_sender = 11, msg_value = 1000000, block_timestamp = 100\<rparr>,
         CreateEscrow 22 5 1 5000),
      (\<lparr>msg_sender = 11, msg_value = 0, block_timestamp = 200\<rparr>, InitiateDispute 1),
      (\<lparr>msg_sender = 2, msg_value = 0, block_timestamp = 300\<rparr>, ResolveDispute 1 True)]"

definition resolved_escrow :: escrow where
  "resolved_escrow = escrow_run plain_world dispute_trace (escrow_constructor 60 1 3 2)"

text \<open>The sample marketplace and the half-approved escrow, paused.\<close>

definition paused_market :: marketplace where
  "paused_market = sample_market\<lparr>marketplace.paused := True\<rparr>"

definition paused_escrow :: escrow where
  "paused_escrow = half_approved_escrow\<lparr>escrow.paused := True\<rparr>"

text \<open>
  A fresh marketplace and the three calls that lead to the sample marketplace: the owner
  whitelists registry 5, account 11 lists token 1 for 1000000, account 22 offers 500000.
\<close>

definition market_trace :: "(call \<times> marketplace_op) list" where
  "market_trace =
     [(\<lparr>msg_sender = 1, msg_value = 0, block_timestamp = 10\<rparr>, SetContractWhitelist 5 True),
      (\<lparr>msg_sender = 11, msg_value = 0, block_timestamp = 100\<rparr>,
         ListItem 5 1 1000000 1900),
      (\<lparr>msg_sender = 22, msg_value = 500000, block_timestamp = 100\<rparr>,
         CreateOffer 5 1 1900)]"

section \<open>Properties of the royalty engine\<close>

lemma RoyaltyInfo_empty_iff:
  "(info \<noteq> no_royalty) = (recipient info \<noteq> 0 \<or> percentage info > 0)"
  by (cases info) (auto simp: no_royalty_def)

lemma ten_percent_iff: "(10 * a \<le> (p::nat)) = (a \<le> p div 10)"
  by arith

lemma share_le_tenth:
  assumes "pct \<le> (1000::nat)"
  shows "sale * pct div 10000 \<le> sale div 10"
proof -
  have "sale * pct \<le> sale * 1000" using assms by simp
  then have "sale * pct div 10000 \<le> sale * 1000 div 10000" by (rule div_le_mono)
  also have "sale * 1000 div 10000 = sale div 10" by simp
  finally show ?thesis .
qed

lemma eip2981_applies:
  "layer_applies w s c t sale External_capability =
     (\<exists>x. eip2981_royalty w c t sale = Inr (Some x))"
  by (auto simp: eip2981_royalty_def ten_percent_iff split: royalty_reply.splits)

lemma eip2981_answer:
  "eip2981_royalty w c t sale = Inr (Some (r, a))
     \<Longrightarrow> royaltyInfo w c t sale = Royalty_answer r a \<and> r \<noteq> 0 \<and> a \<le> sale div 10"
  by (auto simp: eip2981_royalty_def split: royalty_reply.splits if_splits)

lemma eip2981_abort:
  "(eip2981_royalty w c t sale = Inl e) =
     (supportsInterface w c \<and> royaltyInfo w c t sale = Undecodable_reply
      \<and> e = Bad_return_data)"
  by (auto simp: eip2981_royalty_def split: royalty_reply.splits)

lemma layered_engine_ok: "royalty_records_ok layered_engine"
  by (simp add: royalty_records_ok_def layered_engine_def no_royalty_def)

lemma layered_engine_answer:
  "getRoyalty plain_world layered_engine 5 1 1000000 = Inr (77, 50000)"
  by (simp add: getRoyalty_def eip2981_royalty_def plain_world_def layered_engine_def
      royalty_share_def checked_mul_def MAX_UINT256_def no_royalty_def)

text \<open>
  Where the registry's reply decodes, or the registry is not asked, \<open>getRoyalty\<close>
  returns exactly the answer of the first layer that applies, in the order of the
  specification, and aborts only when the product formed by a record layer does not
  fit into 256 bits.
\<close>

lemma getRoyalty_order_on_decodable_reply:
  assumes "\<not> (supportsInterface w c \<and> royaltyInfo w c t sale = Undecodable_reply)"
  shows "getRoyalty w s c t sale =
     (if royalty_product w s c t sale \<le> MAX_UINT256
      then Inr (getRoyalty_spec w s c t sale) else Inl Panic_overflow)"
proof (cases "eip2981_royalty w c t sale")
  case (Inl e)
  with assms show ?thesis by (simp add: eip2981_abort)
next
  case (Inr answer)
  show ?thesis
  proof (cases answer)
    case (Some x)
    obtain r a where x: "x = (r, a)" by (cases x) auto
    from Inr Some x have e: "eip2981_royalty w c t sale = Inr (Some (r, a))" by simp
    then have "layer_applies w s c t sale External_capability"
      by (simp only: eip2981_applies) blast
    then have "deciding_layer w s c t sale = Some External_capability"
      by (simp add: deciding_layer_def del: layer_applies.simps(1))
    with e eip2981_answer [OF e] show ?thesis
      by (simp add: getRoyalty_def getRoyalty_spec_def royalty_product_def no_royalty_def)
  next
    case None
    with Inr have e: "eip2981_royalty w c t sale = Inr None" by simp
    then have ext: "\<not> layer_applies w s c t sale External_capability"
      by (simp only: eip2981_applies) simp
    show ?thesis
      using e ext
      by (simp add: getRoyalty_def getRoyalty_spec_def royalty_product_def deciding_layer_def
          RoyaltyInfo_empty_iff royalty_share_def checked_mul_def Let_def
          del: layer_applies.simps(1))
  qed
qed

text \<open>
  A registry that declares the interface and whose reply does not decode: the source
  aborts, whatever the records hold.
\<close>

lemma getRoyalty_abort_on_undecodable_reply:
  assumes "supportsInterface w c" and "royaltyInfo w c t sale = Undecodable_reply"
  shows "getRoyalty w s c t sale = Inl Bad_return_data"
  using assms by (simp add: getRoyalty_def eip2981_royalty_def)

text \<open>
  Claim C4. \<open>getRoyalty\<close> is to resolve in the order external royalty capability,
  token record, registry record, global default, no royalty, an external answer that
  is not accepted being ignored. The source follows that order, a record layer paying
  \<open>salePrice * bps / 10000\<close>, on every input but one kind: for a registry that declares
  the capability and replies to \<^verbatim>\<open>royaltyInfo\<close> with data that is no
  \<^verbatim>\<open>(address, uint256)\<close> pair, the source aborts where the order of the specification
  ignores the reply and goes on to the records. The empty \<^verbatim>\<open>catch\<close> clause of the
  source, commented "Fall through to manual royalty settings", shows the intent; it
  covers a revert of the registry, not a failure to decode its reply.
\<close>

theorem getRoyalty_order_breaks_on_undecodable_reply:
  "getRoyalty w s c t sale =
     (if supportsInterface w c \<and> royaltyInfo w c t sale = Undecodable_reply
      then Inl Bad_return_data
      else if royalty_product w s c t sale \<le> MAX_UINT256
      then Inr (getRoyalty_spec w s c t sale) else Inl Panic_overflow)"
proof (cases "supportsInterface w c \<and> royaltyInfo w c t sale = Undecodable_reply")
  case True
  then show ?thesis by (simp add: getRoyalty_abort_on_undecodable_reply)
next
  case False
  from getRoyalty_order_on_decodable_reply [OF False] False show ?thesis by simp
qed

text \<open>
  The failing input: registry 5 of the silent world, token 1 and a sale price of
  1000000, on the layered engine whose token record grants account 77 five percent.
  The order of the specification lets the token record decide and gives 50000 to
  account 77, within every bound; the source aborts.
\<close>

theorem getRoyalty_order_breaks_on_undecodable_reply_witness:
  "supportsInterface silent_registry_world 5
   \<and> royaltyInfo silent_registry_world 5 1 1000000 = Undecodable_reply
   \<and> getRoyalty silent_registry_world layered_engine 5 1 1000000 = Inl Bad_return_data
   \<and> deciding_layer silent_registry_world layered_engine 5 1 1000000 = Some Token_override
   \<and> getRoyalty_spec silent_registry_world layered_engine 5 1 1000000 = (77, 50000)
   \<and> royalty_product silent_registry_world layered_engine 5 1 1000000 \<le> MAX_UINT256"
proof -
  have d: "deciding_layer silent_registry_world layered_engine 5 1 1000000
      = Some Token_override"
    by (simp add: deciding_layer_def silent_registry_world_def plain_world_def
        layered_engine_def no_royalty_def)
  have p: "royalty_product silent_registry_world layered_engine 5 1 1000000 \<le> MAX_UINT256"
    unfolding royalty_product_def d
    by (simp add: layered_engine_def MAX_UINT256_def)
  have v: "getRoyalty_spec silent_registry_world layered_engine 5 1 1000000 = (77, 50000)"
    unfolding getRoyalty_spec_def d
    by (simp add: layered_engine_def)
  have q: "supportsInterface silent_registry_world 5"
    "royaltyInfo silent_registry_world 5 1 1000000 = Undecodable_reply"
    by (simp_all add: silent_registry_world_def)
  from getRoyalty_order_breaks_on_undecodable_reply
      [of silent_registry_world layered_engine 5 1 1000000] q d p v
  show ?thesis by simp
qed

lemma royalty_bound_from_records:
  assumes "royalty_records_ok s" and "getRoyalty w s c t sale = Inr (r, a)"
  shows "a \<le> sale div 10"
proof (cases "eip2981_royalty w c t sale = Inr None")
  case False
  with assms(2) have "eip2981_royalty w c t sale = Inr (Some (r, a))"
    by (auto simp: getRoyalty_def split: sum.splits option.splits)
  then show ?thesis by (simp add: eip2981_answer)
next
  case None: True
  from assms(1) have ok:
    "percentage (defaultRoyalty s) \<le> 1000"
    "percentage (contractRoyalties s c) \<le> 1000"
    "percentage (tokenRoyalties s c t) \<le> 1000"
    by (simp_all add: royalty_records_ok_def)
  from assms(2) None show ?thesis
    using share_le_tenth [OF ok(1), of sale] share_le_tenth [OF ok(2), of sale]
      share_le_tenth [OF ok(3), of sale]
    by (auto simp: getRoyalty_def royalty_share_def checked_mul_def Let_def split: if_splits)
qed

lemma check_royalty_None:
  "(check_royalty rcp pct = None) = (pct \<le> 1000 \<and> (pct > 0 \<longrightarrow> rcp \<noteq> 0))"
  by (auto simp: check_royalty_def MAX_ROYALTY_PERCENTAGE_def)

lemma records_ok_contract_update:
  assumes "royalty_records_ok s" and "check_royalty rcp pct = None"
  shows "royalty_records_ok (s\<lparr>contractRoyalties :=
            (contractRoyalties s)(c := \<lparr>recipient = rcp, percentage = pct\<rparr>)\<rparr>)"
  using assms by (auto simp: royalty_records_ok_def check_royalty_None)

lemma recipients_ok_contract_update:
  assumes "royalty_recipients_ok s" and "check_royalty rcp pct = None"
  shows "royalty_recipients_ok (s\<lparr>contractRoyalties :=
            (contractRoyalties s)(c := \<lparr>recipient = rcp, percentage = pct\<rparr>)\<rparr>)"
  using assms by (auto simp: royalty_recipients_ok_def check_royalty_None)

lemma batch_loop_keeps_records:
  "royalty_records_ok s \<Longrightarrow> batch_loop cs rs ps s = Inr s' \<Longrightarrow> royalty_records_ok s'"
proof (induction cs rs ps s rule: batch_loop.induct)
  case (1 c cs r rs p ps s)
  from "1.prems"(2) have ok: "check_royalty r p = None"
    by (simp split: option.splits)
  with "1.prems"(2) have "batch_loop cs rs ps
      (s\<lparr>contractRoyalties := (contractRoyalties s)(c := \<lparr>recipient = r, percentage = p\<rparr>)\<rparr>)
      = Inr s'"
    by simp
  with "1.IH" [OF ok] records_ok_contract_update [OF "1.prems"(1) ok] show ?case by blast
qed simp_all

lemma batch_loop_keeps_recipients:
  "royalty_recipients_ok s \<Longrightarrow> batch_loop cs rs ps s = Inr s' \<Longrightarrow> royalty_recipients_ok s'"
proof (induction cs rs ps s rule: batch_loop.induct)
  case (1 c cs r rs p ps s)
  from "1.prems"(2) have ok: "check_royalty r p = None"
    by (simp split: option.splits)
  with "1.prems"(2) have "batch_loop cs rs ps
      (s\<lparr>contractRoyalties := (contractRoyalties s)(c := \<lparr>recipient = r, percentage = p\<rparr>)\<rparr>)
      = Inr s'"
    by simp
  with "1.IH" [OF ok] recipients_ok_contract_update [OF "1.prems"(1) ok] show ?case by blast
qed simp_all

lemma setters_keep_records_ok:
  assumes "royalty_records_ok s"
  shows "setDefaultRoyalty sender rcp pct s = Inr s' \<Longrightarrow> royalty_records_ok s'"
    and "setContractRoyalty w sender c rcp pct s = Inr s' \<Longrightarrow> royalty_records_ok s'"
    and "setTokenRoyalty w sender c t rcp pct s = Inr s' \<Longrightarrow> royalty_records_ok s'"
    and "batchSetContractRoyalties sender cs rs ps s = Inr s' \<Longrightarrow> royalty_records_ok s'"
    and "removeContractRoyalty w sender c s = Inr s' \<Longrightarrow> royalty_records_ok s'"
    and "removeTokenRoyalty w sender c t s = Inr s' \<Longrightarrow> royalty_records_ok s'"
proof -
  show "setDefaultRoyalty sender rcp pct s = Inr s' \<Longrightarrow> royalty_records_ok s'"
    using assms
    by (auto simp: setDefaultRoyalty_def royalty_records_ok_def check_royalty_None
        split: if_splits option.splits)
  show "setContractRoyalty w sender c rcp pct s = Inr s' \<Longrightarrow> royalty_records_ok s'"
    using assms records_ok_contract_update [of s rcp pct c]
    by (auto simp: setContractRoyalty_def split: if_splits option.splits)
  show "setTokenRoyalty w sender c t rcp pct s = Inr s' \<Longrightarrow> royalty_records_ok s'"
    using assms
    by (auto simp: setTokenRoyalty_def royalty_records_ok_def check_royalty_None
        split: if_splits option.splits)
  show "batchSetContractRoyalties sender cs rs ps s = Inr s' \<Longrightarrow> royalty_records_ok s'"
    using assms
    by (auto simp: batchSetContractRoyalties_def split: if_splits
        intro: batch_loop_keeps_records)
  show "removeContractRoyalty w sender c s = Inr s' \<Longrightarrow> royalty_records_ok s'"
    using assms
    by (auto simp: removeContractRoyalty_def royalty_records_ok_def no_royalty_def
        split: if_splits)
  show "removeTokenRoyalty w sender c t s = Inr s' \<Longrightarrow> royalty_records_ok s'"
    using assms
    by (auto simp: removeTokenRoyalty_def royalty_records_ok_def no_royalty_def
        split: if_splits)
qed

lemma setters_keep_recipients_ok:
  assumes "royalty_recipients_ok s"
  shows "setDefaultRoyalty sender rcp pct s = Inr s' \<Longrightarrow> royalty_recipients_ok s'"
    and "setContractRoyalty w sender c rcp pct s = Inr s' \<Longrightarrow> royalty_recipients_ok s'"
    and "setTokenRoyalty w sender c t rcp pct s = Inr s' \<Longrightarrow> royalty_recipients_ok s'"
    and "batchSetContractRoyalties sender cs rs ps s = Inr s' \<Longrightarrow> royalty_recipients_ok s'"
    and "removeContractRoyalty w sender c s = Inr s' \<Longrightarrow> royalty_recipients_ok s'"
    and "removeTokenRoyalty w sender c t s = Inr s' \<Longrightarrow> royalty_recipients_ok s'"
proof -
  show "setDefaultRoyalty sender rcp pct s = Inr s' \<Longrightarrow> royalty_recipients_ok s'"
    using assms
    by (auto simp: setDefaultRoyalty_def royalty_recipients_ok_def check_royalty_None
        split: if_splits option.splits)
  show "setContractRoyalty w sender c rcp pct s = Inr s' \<Longrightarrow> royalty_recipients_ok s'"
    using assms recipients_ok_contract_update [of s rcp pct c]
    by (auto simp: setContractRoyalty_def split: if_splits option.splits)
  show "setTokenRoyalty w sender c t rcp pct s = Inr s' \<Longrightarrow> royalty_recipients_ok s'"
    using assms
    by (auto simp: setTokenRoyalty_def royalty_recipients_ok_def check_royalty_None
        split: if_splits option.splits)
  show "batchSetContractRoyalties sender cs rs ps s = Inr s' \<Longrightarrow> royalty_recipients_ok s'"
    using assms
    by (auto simp: batchSetContractRoyalties_def split: if_splits
        intro: batch_loop_keeps_recipients)
  show "removeContractRoyalty w sender c s = Inr s' \<Longrightarrow> royalty_recipients_ok s'"
    using assms
    by (auto simp: removeContractRoyalty_def royalty_recipients_ok_def no_royalty_def
        split: if_splits)
  show "removeTokenRoyalty w sender c t s = Inr s' \<Longrightarrow> royalty_recipients_ok s'"
    using assms
    by (auto simp: removeTokenRoyalty_def royalty_recipients_ok_def no_royalty_def
        split: if_splits)
qed

lemma constructor_records_ok:
  "royalty_records_ok (royalty_constructor deployer)"
  "royalty_recipients_ok (royalty_constructor deployer)"
  by (simp_all add: royalty_records_ok_def royalty_recipients_ok_def
      royalty_constructor_def no_royalty_def)

lemma royalty_has_recipient:
  assumes "royalty_recipients_ok s" and "getRoyalty w s c t sale = Inr (0, a)"
  shows "a = 0"
proof (cases "eip2981_royalty w c t sale = Inr None")
  case False
  with assms(2) have "eip2981_royalty w c t sale = Inr (Some (0, a))"
    by (auto simp: getRoyalty_def split: sum.splits option.splits)
  from eip2981_answer [OF this] show ?thesis by simp
next
  case None: True
  from assms(1) have ok:
    "percentage (defaultRoyalty s) > 0 \<longrightarrow> recipient (defaultRoyalty s) \<noteq> 0"
    "percentage (contractRoyalties s c) > 0 \<longrightarrow> recipient (contractRoyalties s c) \<noteq> 0"
    "percentage (tokenRoyalties s c t) > 0 \<longrightarrow> recipient (tokenRoyalties s c t) \<noteq> 0"
    by (simp_all add: royalty_recipients_ok_def)
  from assms(2) None ok show ?thesis
    by (auto simp: getRoyalty_def royalty_share_def checked_mul_def Let_def split: if_splits)
qed

text \<open>
  Claim C9. If no stored royalty record (global default, registry records, token records)
  is above 1000 basis points, every answer of \<open>getRoyalty\<close> is at most a tenth of the
  sale price (integer division), on the external path as well as on the record paths.
  Every setter keeps that invariant: whatever it stores passed the 10% check.
\<close>

theorem getRoyalty_at_most_tenth:
  assumes "royalty_records_ok s"
  shows "(getRoyalty w s c t sale = Inr (r, a) \<longrightarrow> a \<le> sale div 10)
       \<and> (setDefaultRoyalty sender rcp pct s = Inr s1 \<longrightarrow> royalty_records_ok s1)
       \<and> (setContractRoyalty w sender c rcp pct s = Inr s2 \<longrightarrow> royalty_records_ok s2)
       \<and> (setTokenRoyalty w sender c t rcp pct s = Inr s3 \<longrightarrow> royalty_records_ok s3)
       \<and> (batchSetContractRoyalties sender cs rs ps s = Inr s4 \<longrightarrow> royalty_records_ok s4)
       \<and> (removeContractRoyalty w sender c s = Inr s5 \<longrightarrow> royalty_records_ok s5)
       \<and> (removeTokenRoyalty w sender c t s = Inr s6 \<longrightarrow> royalty_records_ok s6)"
proof (intro conjI impI)
  show "a \<le> sale div 10" if "getRoyalty w s c t sale = Inr (r, a)"
    using assms that by (rule royalty_bound_from_records)
qed (erule setters_keep_records_ok [OF assms])+

lemma sample_set_token_royalty:
  "\<exists>s'. setTokenRoyalty plain_world 11 5 1 66 1000 layered_engine = Inr s'
     \<and> tokenRoyalties s' 5 1 = \<lparr>recipient = 66, percentage = 1000\<rparr>"
  by (simp add: setTokenRoyalty_def isTokenOwner_def isContractOwner_def check_royalty_def
      MAX_ROYALTY_PERCENTAGE_def plain_world_def layered_engine_def no_royalty_def)

lemma sample_set_token_royalty_too_high:
  "setTokenRoyalty plain_world 11 5 1 66 1001 layered_engine = Inl (Revert ''Royalty too high'')"
  by (simp add: setTokenRoyalty_def isTokenOwner_def isContractOwner_def check_royalty_def
      MAX_ROYALTY_PERCENTAGE_def plain_world_def layered_engine_def no_royalty_def)

theorem getRoyalty_at_most_tenth_witness:
  "royalty_records_ok layered_engine
   \<and> getRoyalty plain_world layered_engine 5 1 1000000 = Inr (77, 50000)
   \<and> (50000::nat) \<le> 1000000 div 10
   \<and> (\<exists>s'. setTokenRoyalty plain_world 11 5 1 66 1000 layered_engine = Inr s'
         \<and> royalty_records_ok s')
   \<and> setTokenRoyalty plain_world 11 5 1 66 1001 layered_engine
       = Inl (Revert ''Royalty too high'')"
proof -
  obtain s' where s: "setTokenRoyalty plain_world 11 5 1 66 1000 layered_engine = Inr s'"
    using sample_set_token_royalty by blast
  from getRoyalty_at_most_tenth [OF layered_engine_ok, where w = plain_world and c = 5
      and t = 1 and sale = 1000000 and r = 77 and a = 50000 and sender = 11 and rcp = 66
      and pct = 1000 and ?s3.0 = s']
    layered_engine_ok layered_engine_answer s sample_set_token_royalty_too_high
  show ?thesis by simp
qed

section \<open>Properties of the marketplace and the escrow\<close>

subsection \<open>What a completed call has done\<close>

lemma and_then_Inr:
  "(and_then m f = Inr y) = (\<exists>x. m = Inr x \<and> f x = Inr y)"
  by (cases m) (simp_all add: and_then_def)

lemma paid_append: "paid p (xs @ ys) = paid p xs @ paid p ys"
  by (induction xs rule: paid.induct) simp_all

lemma transfer_ether_Inr:
  "(transfer_ether w p a v be = Inr be') =
     (v \<le> fst be \<and> accepts_ether w a \<and> be' = (fst be - v, snd be @ [Eth_transfer p a v]))"
  by (auto simp: transfer_ether_def)

lemma transfer_nft_Inr:
  "(transfer_nft w n a b t be = Inr be') =
     (safeTransferFrom w n a b t \<and> be' = (fst be, snd be @ [Nft_transfer n a b t]))"
  by (auto simp: transfer_nft_def)

lemma sale_split_Inr:
  "(sale_split pr f ra = Inr (fee, sa)) =
     (pr * f \<le> MAX_UINT256 \<and> fee = pr * f div 10000 \<and> fee \<le> pr \<and> ra \<le> pr - fee
      \<and> sa = pr - fee - ra)"
  by (auto simp: sale_split_def and_then_Inr checked_mul_def checked_sub_def Let_def)

lemma sale_split_exact:
  "sale_split pr f ra = Inr (fee, sa) \<Longrightarrow> sa + fee + ra = pr"
  unfolding sale_split_Inr by linarith

lemma escrow_split_Inr:
  "(escrow_split pr f = Inr (fee, sa)) =
     (pr * f \<le> MAX_UINT256 \<and> fee = pr * f div 10000 \<and> fee \<le> pr \<and> sa = pr - fee)"
  by (auto simp: escrow_split_def and_then_Inr checked_mul_def checked_sub_def Let_def)

lemma settle_sale_effects:
  assumes "settle_sale w st nft tid s b (rr, ra, fee, sa) (bal, []) = Inr be"
  shows "snd be = [Nft_transfer nft s b tid, Eth_transfer Proceeds s sa]
           @ (if fee > 0 then [Eth_transfer Fee (marketplace.feeRecipient st) fee] else [])
           @ (if ra > 0 \<and> rr \<noteq> 0 then [Eth_transfer Royalty rr ra] else [])"
  using assms
  by (auto simp: settle_sale_def and_then_Inr transfer_ether_Inr transfer_nft_Inr
      split: if_splits)

lemma sale_amounts_frame [simp]:
  "sale_amounts w (st\<lparr>listings := x\<rparr>) = sale_amounts w st"
  "sale_amounts w (st\<lparr>tokenToListingId := y\<rparr>) = sale_amounts w st"
  "sale_amounts w (st\<lparr>offers := z\<rparr>) = sale_amounts w st"
  by (simp_all add: sale_amounts_def fun_eq_iff)

lemma settle_sale_frame [simp]:
  "settle_sale w (st\<lparr>listings := x\<rparr>) = settle_sale w st"
  "settle_sale w (st\<lparr>tokenToListingId := y\<rparr>) = settle_sale w st"
  "settle_sale w (st\<lparr>offers := z\<rparr>) = settle_sale w st"
  by (simp_all add: settle_sale_def fun_eq_iff cong: if_cong)

lemma internal_cancelListing_fee [simp]:
  "marketplaceFeePercentage (internal_cancelListing lid st) = marketplaceFeePercentage st"
  by (simp add: internal_cancelListing_def Let_def)

lemma buyItem_Inr:
  assumes "buyItem w c lid st = Inr (st', es)"
  shows "\<not> marketplace.paused st"
    and "Listing.active (listings st lid)"
    and "Listing.expiresAt (listings st lid) > block_timestamp c"
    and "msg_value c \<ge> Listing.price (listings st lid)"
    and "msg_sender c \<noteq> Listing.seller (listings st lid)"
    and "\<exists>amounts be.
           sale_amounts w st (Listing.nftContract (listings st lid))
             (Listing.tokenId (listings st lid)) (Listing.price (listings st lid)) = Inr amounts
         \<and> settle_sale w st (Listing.nftContract (listings st lid))
             (Listing.tokenId (listings st lid)) (Listing.seller (listings st lid))
             (msg_sender c) amounts (marketplace.balance st + msg_value c, []) = Inr be
         \<and> es = snd be @ (if msg_value c > Listing.price (listings st lid)
                          then [Eth_transfer Refund (msg_sender c)
                                  (msg_value c - Listing.price (listings st lid))]
                          else [])"
    and "listings st' = (listings st)(lid := (listings st lid)\<lparr>Listing.active := False\<rparr>)"
    and "tokenToListingId st' = (tokenToListingId st)
           (Listing.nftContract (listings st lid) :=
              (tokenToListingId st (Listing.nftContract (listings st lid)))
                (Listing.tokenId (listings st lid) := 0))"
    and "marketplaceFeePercentage st' = marketplaceFeePercentage st"
  using assms
  by (auto simp: buyItem_def Let_def and_then_Inr transfer_ether_Inr
      split: if_splits option.splits)

lemma acceptOffer_Inr:
  assumes "acceptOffer w sender now oid st = Inr (st', es)"
  shows "\<not> marketplace.paused st"
    and "Offer.active (offers st oid)"
    and "Offer.expiresAt (offers st oid) > now"
    and "\<exists>amounts be.
           sale_amounts w st (Offer.nftContract (offers st oid))
             (Offer.tokenId (offers st oid)) (Offer.amount (offers st oid)) = Inr amounts
         \<and> settle_sale w st (Offer.nftContract (offers st oid))
             (Offer.tokenId (offers st oid)) sender (Offer.buyer (offers st oid))
             amounts (marketplace.balance st, []) = Inr be
         \<and> es = snd be"
    and "marketplaceFeePercentage st' = marketplaceFeePercentage st"
  using assms
  by (auto simp: acceptOffer_def Let_def and_then_Inr
      split: if_splits option.splits)

lemma sale_amounts_Inr:
  "(sale_amounts w st nft tid pr = Inr (rr, ra, fee, sa)) =
     (getRoyalty w (engine_at w (royaltyEngine st)) nft tid pr = Inr (rr, ra)
      \<and> sale_split pr (marketplaceFeePercentage st) ra = Inr (fee, sa))"
  by (auto simp: sale_amounts_def and_then_Inr)

lemma settle_sale_paid:
  assumes "settle_sale w st nft tid s b (rr, ra, fee, sa) (bal, []) = Inr be"
  shows "amount_paid Proceeds (snd be @ others) = sa + amount_paid Proceeds others"
    and "amount_paid Fee (snd be @ others) = fee + amount_paid Fee others"
    and "amount_paid Royalty (snd be @ others) = (if rr = 0 then 0 else ra) + amount_paid Royalty others"
    and "amount_paid Refund (snd be @ others) = amount_paid Refund others"
  unfolding settle_sale_effects [OF assms]
  by (simp_all add: amount_paid_def paid_append)

lemma completeEscrow_Inr:
  assumes "completeEscrow w eid st = Inr (st', es)"
  shows "\<exists>fee sa.
           escrow_split (EscrowTransaction.price (escrowTransactions st eid))
             (escrowFeePercentage st) = Inr (fee, sa)
         \<and> es = [Nft_transfer (EscrowTransaction.nftContract (escrowTransactions st eid))
                   (escrow.self_address st) (EscrowTransaction.buyer (escrowTransactions st eid))
                   (EscrowTransaction.tokenId (escrowTransactions st eid)),
                 Eth_transfer Proceeds (EscrowTransaction.seller (escrowTransactions st eid)) sa]
                @ (if fee > 0 then [Eth_transfer Fee (escrow.feeRecipient st) fee] else [])"
    and "escrowTransactions st' = (escrowTransactions st)
           (eid := (escrowTransactions st eid)\<lparr>EscrowTransaction.status := Completed\<rparr>)"
  using assms
  by (auto simp: completeEscrow_def Let_def and_then_Inr transfer_ether_Inr transfer_nft_Inr
      split: if_splits prod.splits)

lemma approveEscrow_Inr:
  assumes "approveEscrow w sender eid st = Inr (st', es)"
  shows "validEscrow st eid"
    and "EscrowTransaction.status (escrowTransactions st eid) = Active"
    and "sender = EscrowTransaction.seller (escrowTransactions st eid)
         \<or> sender = EscrowTransaction.buyer (escrowTransactions st eid)"
  using assms
  by (auto simp: approveEscrow_def Let_def split: if_splits)

lemma approveEscrow_cases:
  assumes "approveEscrow w sender eid st = Inr (st', es)"
  obtains (pending) e1 where
      "e1 = (if sender = EscrowTransaction.seller (escrowTransactions st eid)
             then (escrowTransactions st eid)\<lparr>sellerApproved := True\<rparr>
             else (escrowTransactions st eid)\<lparr>buyerApproved := True\<rparr>)"
      "\<not> (sellerApproved e1 \<and> buyerApproved e1)"
      "st' = st\<lparr>escrowTransactions := (escrowTransactions st)(eid := e1)\<rparr>" "es = []"
  | (completing) e1 where
      "e1 = (if sender = EscrowTransaction.seller (escrowTransactions st eid)
             then (escrowTransactions st eid)\<lparr>sellerApproved := True\<rparr>
             else (escrowTransactions st eid)\<lparr>buyerApproved := True\<rparr>)"
      "sellerApproved e1" "buyerApproved e1"
      "completeEscrow w eid (st\<lparr>escrowTransactions := (escrowTransactions st)(eid := e1)\<rparr>)
         = Inr (st', es)"
  using assms
  by (auto simp: approveEscrow_def Let_def split: if_splits)

lemma resolveDispute_Inr:
  assumes "resolveDispute w sender eid favor st = Inr (st', es)"
  shows "sender = disputeResolver st" and "validEscrow st eid"
    and "EscrowTransaction.status (escrowTransactions st eid) = Disputed"
    and "favor \<Longrightarrow> completeEscrow w eid st = Inr (st', es)"
    and "\<not> favor \<Longrightarrow> unwind_escrow w eid st = Inr (st', es)"
  using assms
  by (auto simp: resolveDispute_def Let_def split: if_splits)

lemma escrow_payout:
  assumes "completeEscrow w eid st = Inr (st', es)"
  shows "\<exists>fee sa.
           escrow_split (EscrowTransaction.price (escrowTransactions st eid))
             (escrowFeePercentage st) = Inr (fee, sa)
         \<and> sa + fee + 0 = EscrowTransaction.price (escrowTransactions st eid)
         \<and> amount_paid Proceeds es = sa \<and> amount_paid Fee es = fee
         \<and> amount_paid Royalty es = 0"
proof -
  from completeEscrow_Inr(1) [OF assms] obtain fee sa where
    split: "escrow_split (EscrowTransaction.price (escrowTransactions st eid))
              (escrowFeePercentage st) = Inr (fee, sa)"
    and es: "es = [Nft_transfer (EscrowTransaction.nftContract (escrowTransactions st eid))
                   (escrow.self_address st) (EscrowTransaction.buyer (escrowTransactions st eid))
                   (EscrowTransaction.tokenId (escrowTransactions st eid)),
                 Eth_transfer Proceeds (EscrowTransaction.seller (escrowTransactions st eid)) sa]
                @ (if fee > 0 then [Eth_transfer Fee (escrow.feeRecipient st) fee] else [])"
    by blast
  from split have "sa + fee + 0 = EscrowTransaction.price (escrowTransactions st eid)"
    by (simp add: escrow_split_Inr)
  moreover have "amount_paid Proceeds es = sa" "amount_paid Fee es = fee"
    "amount_paid Royalty es = 0"
    by (simp_all add: es amount_paid_def)
  ultimately show ?thesis using split by blast
qed

lemma sale_payout:
  assumes amounts: "sale_amounts w st nft tid pr = Inr amounts"
    and settle: "settle_sale w st nft tid s b amounts (bal, []) = Inr be"
    and es: "es = snd be @ others"
    and others: "amount_paid Proceeds others = 0" "amount_paid Fee others = 0"
      "amount_paid Royalty others = 0"
  shows "\<exists>rr ra fee sellerAmount.
           sale_amounts w st nft tid pr = Inr (rr, ra, fee, sellerAmount)
         \<and> sellerAmount + fee + ra = pr
         \<and> amount_paid Proceeds es = sellerAmount \<and> amount_paid Fee es = fee
         \<and> amount_paid Royalty es = (if rr = 0 then 0 else ra)
         \<and> (royalty_recipients_ok (engine_at w (royaltyEngine st))
              \<longrightarrow> amount_paid Royalty es = ra)"
proof -
  obtain rr ra fee sa where a: "amounts = (rr, ra, fee, sa)" by (cases amounts) auto
  from amounts a have r: "getRoyalty w (engine_at w (royaltyEngine st)) nft tid pr = Inr (rr, ra)"
    and "sale_split pr (marketplaceFeePercentage st) ra = Inr (fee, sa)"
    by (simp_all add: sale_amounts_Inr)
  then have sum: "sa + fee + ra = pr" by (simp add: sale_split_exact)
  note p = settle_sale_paid [OF settle [unfolded a], of others, folded es, unfolded others]
  have paid: "amount_paid Proceeds es = sa" "amount_paid Fee es = fee"
    "amount_paid Royalty es = (if rr = 0 then 0 else ra)"
    using p by simp_all
  have "amount_paid Royalty es = ra"
    if "royalty_recipients_ok (engine_at w (royaltyEngine st))"
    using royalty_has_recipient [OF that] r paid(3) by auto
  with amounts a sum paid show ?thesis by blast
qed

subsection \<open>The samples, evaluated\<close>

lemmas sample_defs =
  sample_market_def plain_world_def layered_engine_def no_royalty_def buyer_call_def
  sample_escrow_def half_approved_escrow_def disputed_escrow_def
  paused_market_def paused_escrow_def

lemmas run_defs =
  Let_def and_then_def approved_for_def sale_amounts_def getRoyalty_def eip2981_royalty_def
  royalty_share_def checked_mul_def checked_sub_def checked_add_def MAX_UINT256_def
  sale_split_def settle_sale_def transfer_nft_def transfer_ether_def
  internal_cancelListing_def escrow_split_def completeEscrow_def unwind_escrow_def
  validEscrow_def

lemma sample_buy:
  "\<exists>st'. buyItem plain_world buyer_call 107 sample_market =
     Inr (st', [Nft_transfer 5 11 22 1, Eth_transfer Proceeds 11 925000,
                Eth_transfer Fee 3 25000, Eth_transfer Royalty 77 50000,
                Eth_transfer Refund 22 500000])"
  by (simp add: buyItem_def sample_defs run_defs)

lemma sample_accept:
  "\<exists>st'. acceptOffer plain_world 11 500 129 sample_market =
     Inr (st', [Nft_transfer 5 11 22 1, Eth_transfer Proceeds 11 462500,
                Eth_transfer Fee 3 12500, Eth_transfer Royalty 77 25000])"
  by (simp add: acceptOffer_def sample_defs run_defs)

lemma sample_approve:
  "\<exists>st'. approveEscrow plain_world 22 1 half_approved_escrow =
     Inr (st', [Nft_transfer 5 60 22 1, Eth_transfer Proceeds 11 975000,
                Eth_transfer Fee 3 25000])
     \<and> EscrowTransaction.status (escrowTransactions st' 1) = Completed"
  by (simp add: approveEscrow_def sample_defs run_defs)

lemma sample_resolve:
  "\<exists>st'. resolveDispute plain_world 2 1 True disputed_escrow =
     Inr (st', [Nft_transfer 5 60 22 1, Eth_transfer Proceeds 11 975000,
                Eth_transfer Fee 3 25000])"
  by (simp add: resolveDispute_def sample_defs run_defs)

subsection \<open>Settlement\<close>

text \<open>
  Claim C1. Every completed settlement splits the price exactly. For a sale through
  \<open>buyItem\<close> or \<open>acceptOffer\<close> the amounts the code computes satisfy
  \<open>sellerAmount + fee + royalty = price\<close>, the seller is paid \<open>sellerAmount\<close>, the fee
  recipient \<open>fee\<close>, and the royalty recipient \<open>royalty\<close>: the royalty is paid out
  when it has a recipient, which it always has when the engine's records were stored
  through its setters. For an escrow completed by the second \<open>approveEscrow\<close> or by
  \<open>resolveDispute\<close> in favour of the buyer, \<open>sellerAmount + fee + 0 = price\<close> and no
  royalty is paid.
\<close>

theorem settlement_split_exact:
  "(buyItem w c lid st = Inr (st1, es1) \<longrightarrow>
      (\<exists>rr ra fee sellerAmount.
         sale_amounts w st (Listing.nftContract (listings st lid))
           (Listing.tokenId (listings st lid)) (Listing.price (listings st lid))
           = Inr (rr, ra, fee, sellerAmount)
       \<and> sellerAmount + fee + ra = Listing.price (listings st lid)
       \<and> amount_paid Proceeds es1 = sellerAmount \<and> amount_paid Fee es1 = fee
       \<and> amount_paid Royalty es1 = (if rr = 0 then 0 else ra)
       \<and> (royalty_recipients_ok (engine_at w (royaltyEngine st))
            \<longrightarrow> amount_paid Royalty es1 = ra)))
   \<and> (acceptOffer w sender now oid st = Inr (st2, es2) \<longrightarrow>
      (\<exists>rr ra fee sellerAmount.
         sale_amounts w st (Offer.nftContract (offers st oid))
           (Offer.tokenId (offers st oid)) (Offer.amount (offers st oid))
           = Inr (rr, ra, fee, sellerAmount)
       \<and> sellerAmount + fee + ra = Offer.amount (offers st oid)
       \<and> amount_paid Proceeds es2 = sellerAmount \<and> amount_paid Fee es2 = fee
       \<and> amount_paid Royalty es2 = (if rr = 0 then 0 else ra)
       \<and> (royalty_recipients_ok (engine_at w (royaltyEngine st))
            \<longrightarrow> amount_paid Royalty es2 = ra)))
   \<and> (approveEscrow w sender' eid est = Inr (est1, es3)
       \<and> EscrowTransaction.status (escrowTransactions est1 eid) = Completed \<longrightarrow>
      (\<exists>fee sellerAmount.
         escrow_split (EscrowTransaction.price (escrowTransactions est eid))
           (escrowFeePercentage est) = Inr (fee, sellerAmount)
       \<and> sellerAmount + fee + 0 = EscrowTransaction.price (escrowTransactions est eid)
       \<and> amount_paid Proceeds es3 = sellerAmount \<and> amount_paid Fee es3 = fee
       \<and> amount_paid Royalty es3 = 0))
   \<and> (resolveDispute w resolver eid' True est = Inr (est2, es4) \<longrightarrow>
      (\<exists>fee sellerAmount.
         escrow_split (EscrowTransaction.price (escrowTransactions est eid'))
           (escrowFeePercentage est) = Inr (fee, sellerAmount)
       \<and> sellerAmount + fee + 0 = EscrowTransaction.price (escrowTransactions est eid')
       \<and> amount_paid Proceeds es4 = sellerAmount \<and> amount_paid Fee es4 = fee
       \<and> amount_paid Royalty es4 = 0))"
proof (intro conjI impI)
  assume buy: "buyItem w c lid st = Inr (st1, es1)"
  from buyItem_Inr(6) [OF buy] obtain amounts be where
    a: "sale_amounts w st (Listing.nftContract (listings st lid))
          (Listing.tokenId (listings st lid)) (Listing.price (listings st lid)) = Inr amounts"
    and s: "settle_sale w st (Listing.nftContract (listings st lid))
          (Listing.tokenId (listings st lid)) (Listing.seller (listings st lid))
          (msg_sender c) amounts (marketplace.balance st + msg_value c, []) = Inr be"
    and es: "es1 = snd be @ (if msg_value c > Listing.price (listings st lid)
                          then [Eth_transfer Refund (msg_sender c)
                                  (msg_value c - Listing.price (listings st lid))]
                          else [])"
    by blast
  define refund where "refund = (if msg_value c > Listing.price (listings st lid)
                          then [Eth_transfer Refund (msg_sender c)
                                  (msg_value c - Listing.price (listings st lid))]
                          else [])"
  have none: "amount_paid Proceeds refund = 0" "amount_paid Fee refund = 0"
    "amount_paid Royalty refund = 0"
    by (simp_all add: refund_def amount_paid_def)
  from a s es [folded refund_def] none
  show "\<exists>rr ra fee sellerAmount.
         sale_amounts w st (Listing.nftContract (listings st lid))
           (Listing.tokenId (listings st lid)) (Listing.price (listings st lid))
           = Inr (rr, ra, fee, sellerAmount)
       \<and> sellerAmount + fee + ra = Listing.price (listings st lid)
       \<and> amount_paid Proceeds es1 = sellerAmount \<and> amount_paid Fee es1 = fee
       \<and> amount_paid Royalty es1 = (if rr = 0 then 0 else ra)
       \<and> (royalty_recipients_ok (engine_at w (royaltyEngine st))
            \<longrightarrow> amount_paid Royalty es1 = ra)"
    by (rule sale_payout)
next
  assume acc: "acceptOffer w sender now oid st = Inr (st2, es2)"
  from acceptOffer_Inr(4) [OF acc] obtain amounts be where
    a: "sale_amounts w st (Offer.nftContract (offers st oid))
             (Offer.tokenId (offers st oid)) (Offer.amount (offers st oid)) = Inr amounts"
    and s: "settle_sale w st (Offer.nftContract (offers st oid))
             (Offer.tokenId (offers st oid)) sender (Offer.buyer (offers st oid))
             amounts (marketplace.balance st, []) = Inr be"
    and es: "es2 = snd be"
    by blast
  have none: "amount_paid Proceeds [] = 0" "amount_paid Fee [] = 0"
    "amount_paid Royalty [] = 0"
    by (simp_all add: amount_paid_def)
  from es have es': "es2 = snd be @ []" by simp
  from a s es' none
  show "\<exists>rr ra fee sellerAmount.
         sale_amounts w st (Offer.nftContract (offers st oid))
           (Offer.tokenId (offers st oid)) (Offer.amount (offers st oid))
           = Inr (rr, ra, fee, sellerAmount)
       \<and> sellerAmount + fee + ra = Offer.amount (offers st oid)
       \<and> amount_paid Proceeds es2 = sellerAmount \<and> amount_paid Fee es2 = fee
       \<and> amount_paid Royalty es2 = (if rr = 0 then 0 else ra)
       \<and> (royalty_recipients_ok (engine_at w (royaltyEngine st))
            \<longrightarrow> amount_paid Royalty es2 = ra)"
    by (rule sale_payout)
next
  assume "approveEscrow w sender' eid est = Inr (est1, es3)
       \<and> EscrowTransaction.status (escrowTransactions est1 eid) = Completed"
  then have app: "approveEscrow w sender' eid est = Inr (est1, es3)"
    and completed: "EscrowTransaction.status (escrowTransactions est1 eid) = Completed"
    by simp_all
  from app show "\<exists>fee sellerAmount.
         escrow_split (EscrowTransaction.price (escrowTransactions est eid))
           (escrowFeePercentage est) = Inr (fee, sellerAmount)
       \<and> sellerAmount + fee + 0 = EscrowTransaction.price (escrowTransactions est eid)
       \<and> amount_paid Proceeds es3 = sellerAmount \<and> amount_paid Fee es3 = fee
       \<and> amount_paid Royalty es3 = 0"
  proof (cases rule: approveEscrow_cases)
    case (pending e1)
    with completed approveEscrow_Inr(2) [OF app] show ?thesis
      by (auto split: if_splits)
  next
    case (completing e1)
    from escrow_payout [OF completing(4)] completing(1) show ?thesis
      by (auto split: if_splits)
  qed
next
  assume "resolveDispute w resolver eid' True est = Inr (est2, es4)"
  then have "completeEscrow w eid' est = Inr (est2, es4)"
    by (rule resolveDispute_Inr(4)) simp
  then show "\<exists>fee sellerAmount.
         escrow_split (EscrowTransaction.price (escrowTransactions est eid'))
           (escrowFeePercentage est) = Inr (fee, sellerAmount)
       \<and> sellerAmount + fee + 0 = EscrowTransaction.price (escrowTransactions est eid')
       \<and> amount_paid Proceeds es4 = sellerAmount \<and> amount_paid Fee es4 = fee
       \<and> amount_paid Royalty es4 = 0"
    by (rule escrow_payout)
qed

theorem settlement_split_exact_witness:
  "(\<exists>st'. buyItem plain_world buyer_call 107 sample_market =
      Inr (st', [Nft_transfer 5 11 22 1, Eth_transfer Proceeds 11 925000,
                 Eth_transfer Fee 3 25000, Eth_transfer Royalty 77 50000,
                 Eth_transfer Refund 22 500000]))
   \<and> sale_amounts plain_world sample_market 5 1 1000000 = Inr (77, 50000, 25000, 925000)
   \<and> (925000::nat) + 25000 + 50000 = 1000000
   \<and> royalty_recipients_ok (engine_at plain_world (royaltyEngine sample_market))
   \<and> (\<exists>st'. acceptOffer plain_world 11 500 129 sample_market =
      Inr (st', [Nft_transfer 5 11 22 1, Eth_transfer Proceeds 11 462500,
                 Eth_transfer Fee 3 12500, Eth_transfer Royalty 77 25000]))
   \<and> sale_amounts plain_world sample_market 5 1 500000 = Inr (77, 25000, 12500, 462500)
   \<and> (462500::nat) + 12500 + 25000 = 500000
   \<and> (\<exists>st'. approveEscrow plain_world 22 1 half_approved_escrow =
      Inr (st', [Nft_transfer 5 60 22 1, Eth_transfer Proceeds 11 975000,
                 Eth_transfer Fee 3 25000]))
   \<and> (\<exists>st'. resolveDispute plain_world 2 1 True disputed_escrow =
      Inr (st', [Nft_transfer 5 60 22 1, Eth_transfer Proceeds 11 975000,
                 Eth_transfer Fee 3 25000]))
   \<and> escrow_split 1000000 250 = Inr (25000, 975000)
   \<and> (975000::nat) + 25000 + 0 = 1000000"
proof -
  obtain st1 where buy: "buyItem plain_world buyer_call 107 sample_market =
     Inr (st1, [Nft_transfer 5 11 22 1, Eth_transfer Proceeds 11 925000,
                Eth_transfer Fee 3 25000, Eth_transfer Royalty 77 50000,
                Eth_transfer Refund 22 500000])"
    using sample_buy by blast
  obtain st2 where acc: "acceptOffer plain_world 11 500 129 sample_market =
     Inr (st2, [Nft_transfer 5 11 22 1, Eth_transfer Proceeds 11 462500,
                Eth_transfer Fee 3 12500, Eth_transfer Royalty 77 25000])"
    using sample_accept by blast
  obtain est1 where app: "approveEscrow plain_world 22 1 half_approved_escrow =
     Inr (est1, [Nft_transfer 5 60 22 1, Eth_transfer Proceeds 11 975000,
                Eth_transfer Fee 3 25000])"
    and completed: "EscrowTransaction.status (escrowTransactions est1 1) = Completed"
    using sample_approve by blast
  obtain est2 where res: "resolveDispute plain_world 2 1 True disputed_escrow =
     Inr (est2, [Nft_transfer 5 60 22 1, Eth_transfer Proceeds 11 975000,
                Eth_transfer Fee 3 25000])"
    using sample_resolve by blast
  note inst = settlement_split_exact [of plain_world buyer_call 107 sample_market st1
      "[Nft_transfer 5 11 22 1, Eth_transfer Proceeds 11 925000,
        Eth_transfer Fee 3 25000, Eth_transfer Royalty 77 50000,
        Eth_transfer Refund 22 500000]"
      11 500 129 st2
      "[Nft_transfer 5 11 22 1, Eth_transfer Proceeds 11 462500,
        Eth_transfer Fee 3 12500, Eth_transfer Royalty 77 25000]"
      22 1 half_approved_escrow est1
      "[Nft_transfer 5 60 22 1, Eth_transfer Proceeds 11 975000, Eth_transfer Fee 3 25000]"
      2 1 est2
      "[Nft_transfer 5 60 22 1, Eth_transfer Proceeds 11 975000, Eth_transfer Fee 3 25000]"]
  have listing: "Listing.nftContract (listings sample_market 107) = 5"
    "Listing.tokenId (listings sample_market 107) = 1"
    "Listing.price (listings sample_market 107) = 1000000"
    and offer: "Offer.nftContract (offers sample_market 129) = 5"
    "Offer.tokenId (offers sample_market 129) = 1"
    "Offer.amount (offers sample_market 129) = 500000"
    and held: "EscrowTransaction.price (escrowTransactions half_approved_escrow 1) = 1000000"
    "escrowFeePercentage half_approved_escrow = 250"
    by (simp_all add: sample_defs)
  have a1: "sale_amounts plain_world sample_market 5 1 1000000 = Inr (77, 50000, 25000, 925000)"
    by (simp add: sample_defs run_defs)
  have a2: "sale_amounts plain_world sample_market 5 1 500000 = Inr (77, 25000, 12500, 462500)"
    by (simp add: sample_defs run_defs)
  have a3: "escrow_split 1000000 250 = Inr (25000, 975000)"
    by (simp add: run_defs)
  have a4: "royalty_recipients_ok (engine_at plain_world (royaltyEngine sample_market))"
    by (simp add: royalty_recipients_ok_def sample_defs)
  from inst buy obtain rr ra fee sa where
    "sale_amounts plain_world sample_market 5 1 1000000 = Inr (rr, ra, fee, sa)"
    and sum1: "sa + fee + ra = 1000000"
    unfolding listing by blast
  with a1 have s1: "(925000::nat) + 25000 + 50000 = 1000000" by simp
  from inst acc obtain rr' ra' fee' sa' where
    "sale_amounts plain_world sample_market 5 1 500000 = Inr (rr', ra', fee', sa')"
    and sum2: "sa' + fee' + ra' = 500000"
    unfolding offer by blast
  with a2 have s2: "(462500::nat) + 12500 + 25000 = 500000" by simp
  from inst app completed obtain fee'' sa'' where
    "escrow_split 1000000 250 = Inr (fee'', sa'')"
    and sum3: "sa'' + fee'' + 0 = 1000000"
    unfolding held by blast
  with a3 have s3: "(975000::nat) + 25000 + 0 = 1000000" by simp
  from buy acc app res a1 a2 a3 a4 s1 s2 s3 show ?thesis
    by blast
qed

subsection \<open>Buying\<close>

lemma and_then_Inl:
  "(and_then m f = Inl e) = (m = Inl e \<or> (\<exists>x. m = Inr x \<and> f x = Inl e))"
  by (cases m) (simp_all add: and_then_def)

lemma succeeded_Inr [simp]: "succeeded (Inr x)" "\<not> succeeded (Inl e)"
  by (simp_all add: succeeded_def)

lemma state_after_simps [simp]:
  "state_after s (Inl e) = s" "state_after s (Inr (s', es)) = s'"
  by (simp_all add: state_after_def)

lemma buyItem_rejects:
  assumes "\<not> Listing.active (listings st lid)
           \<or> Listing.expiresAt (listings st lid) \<le> block_timestamp c
           \<or> msg_sender c = Listing.seller (listings st lid)"
  shows "\<exists>e. buyItem w c lid st = Inl e"
  using assms by (auto simp: buyItem_def Let_def)

text \<open>
  Claim C6. \<open>buyItem\<close> aborts, leaving the state as it was, when the listing is
  inactive, when it has expired (\<open>expiresAt \<le> now\<close>) and when the caller is the
  listing's seller. When it completes, the payment was at least the price, the only
  refund is \<open>payment - price\<close> to the caller (none when they are equal), and the
  listing is inactive afterwards.
\<close>

theorem buyItem_guards_and_refund:
  "((\<not> Listing.active (listings st lid)
      \<or> Listing.expiresAt (listings st lid) \<le> block_timestamp c
      \<or> msg_sender c = Listing.seller (listings st lid))
     \<longrightarrow> \<not> succeeded (buyItem w c lid st) \<and> state_after st (buyItem w c lid st) = st)
   \<and> (buyItem w c lid st = Inr (st', es) \<longrightarrow>
        msg_value c \<ge> Listing.price (listings st lid)
      \<and> paid Refund es =
          (if msg_value c > Listing.price (listings st lid)
           then [(msg_sender c, msg_value c - Listing.price (listings st lid))] else [])
      \<and> amount_paid Refund es = msg_value c - Listing.price (listings st lid)
      \<and> \<not> Listing.active (listings st' lid))"
proof (intro conjI impI)
  assume "\<not> Listing.active (listings st lid)
      \<or> Listing.expiresAt (listings st lid) \<le> block_timestamp c
      \<or> msg_sender c = Listing.seller (listings st lid)"
  then obtain e where e: "buyItem w c lid st = Inl e"
    using buyItem_rejects by blast
  show "\<not> succeeded (buyItem w c lid st)" "state_after st (buyItem w c lid st) = st"
    by (simp_all add: e)
next
  assume buy: "buyItem w c lid st = Inr (st', es)"
  show "msg_value c \<ge> Listing.price (listings st lid)"
    by (rule buyItem_Inr(4) [OF buy])
  from buyItem_Inr(6) [OF buy] obtain amounts be where
    s: "settle_sale w st (Listing.nftContract (listings st lid))
          (Listing.tokenId (listings st lid)) (Listing.seller (listings st lid))
          (msg_sender c) amounts (marketplace.balance st + msg_value c, []) = Inr be"
    and es: "es = snd be @ (if msg_value c > Listing.price (listings st lid)
                          then [Eth_transfer Refund (msg_sender c)
                                  (msg_value c - Listing.price (listings st lid))]
                          else [])"
    by blast
  obtain rr ra fee sa where a: "amounts = (rr, ra, fee, sa)" by (cases amounts) auto
  have none: "paid Refund (snd be) = []"
    unfolding settle_sale_effects [OF s [unfolded a]] by simp
  show r: "paid Refund es =
          (if msg_value c > Listing.price (listings st lid)
           then [(msg_sender c, msg_value c - Listing.price (listings st lid))] else [])"
    by (simp add: es paid_append none)
  show "amount_paid Refund es = msg_value c - Listing.price (listings st lid)"
    by (simp add: amount_paid_def r)
  show "\<not> Listing.active (listings st' lid)"
    by (simp add: buyItem_Inr(7) [OF buy])
qed

lemma sample_own_purchase:
  "buyItem plain_world \<lparr>msg_sender = 11, msg_value = 1000000, block_timestamp = 500\<rparr> 107
     sample_market = Inl (Revert ''Cannot buy own item'')"
  by (simp add: buyItem_def sample_defs run_defs)

lemma sample_late_purchase:
  "buyItem plain_world \<lparr>msg_sender = 22, msg_value = 1000000, block_timestamp = 2000\<rparr> 107
     sample_market = Inl (Revert ''Listing expired'')"
  by (simp add: buyItem_def sample_defs run_defs)

theorem buyItem_guards_and_refund_witness:
  "msg_sender \<lparr>msg_sender = 11, msg_value = 1000000, block_timestamp = 500\<rparr>
     = Listing.seller (listings sample_market 107)
   \<and> \<not> succeeded (buyItem plain_world
          \<lparr>msg_sender = 11, msg_value = 1000000, block_timestamp = 500\<rparr> 107 sample_market)
   \<and> state_after sample_market (buyItem plain_world
          \<lparr>msg_sender = 11, msg_value = 1000000, block_timestamp = 500\<rparr> 107 sample_market)
       = sample_market
   \<and> buyItem plain_world \<lparr>msg_sender = 11, msg_value = 1000000, block_timestamp = 500\<rparr>
         107 sample_market = Inl (Revert ''Cannot buy own item'')
   \<and> Listing.expiresAt (listings sample_market 107) \<le> 2000
   \<and> \<not> succeeded (buyItem plain_world
          \<lparr>msg_sender = 22, msg_value = 1000000, block_timestamp = 2000\<rparr> 107 sample_market)
   \<and> buyItem plain_world \<lparr>msg_sender = 22, msg_value = 1000000, block_timestamp = 2000\<rparr>
         107 sample_market = Inl (Revert ''Listing expired'')
   \<and> (\<exists>st'. buyItem plain_world buyer_call 107 sample_market =
         Inr (st', [Nft_transfer 5 11 22 1, Eth_transfer Proceeds 11 925000,
                    Eth_transfer Fee 3 25000, Eth_transfer Royalty 77 50000,
                    Eth_transfer Refund 22 500000])
       \<and> \<not> Listing.active (listings st' 107))
   \<and> amount_paid Refund [Nft_transfer 5 11 22 1, Eth_transfer Proceeds 11 925000,
                    Eth_transfer Fee 3 25000, Eth_transfer Royalty 77 50000,
                    Eth_transfer Refund 22 500000] = 1500000 - 1000000"
proof -
  have own: "msg_sender \<lparr>msg_sender = 11, msg_value = 1000000, block_timestamp = 500\<rparr>
     = Listing.seller (listings sample_market 107)"
    by (simp add: sample_defs)
  have late: "Listing.expiresAt (listings sample_market 107)
     \<le> block_timestamp \<lparr>msg_sender = 22, msg_value = 1000000, block_timestamp = 2000\<rparr>"
    by (simp add: sample_defs)
  obtain st1 where buy: "buyItem plain_world buyer_call 107 sample_market =
     Inr (st1, [Nft_transfer 5 11 22 1, Eth_transfer Proceeds 11 925000,
                Eth_transfer Fee 3 25000, Eth_transfer Royalty 77 50000,
                Eth_transfer Refund 22 500000])"
    using sample_buy by blast
  have figures: "msg_value buyer_call = 1500000"
    "Listing.price (listings sample_market 107) = 1000000"
    by (simp_all add: sample_defs)
  from buyItem_guards_and_refund [of sample_market 107
      "\<lparr>msg_sender = 11, msg_value = 1000000, block_timestamp = 500\<rparr>" plain_world] own
    buyItem_guards_and_refund [of sample_market 107
      "\<lparr>msg_sender = 22, msg_value = 1000000, block_timestamp = 2000\<rparr>" plain_world] late
    buyItem_guards_and_refund [of sample_market 107 buyer_call plain_world st1
      "[Nft_transfer 5 11 22 1, Eth_transfer Proceeds 11 925000,
        Eth_transfer Fee 3 25000, Eth_transfer Royalty 77 50000,
        Eth_transfer Refund 22 500000]"] buy figures
    sample_own_purchase sample_late_purchase
  show ?thesis
    by simp
qed

subsection \<open>Cancelling an offer, cancelling an escrow\<close>

lemma cancelOffer_Inr:
  "(cancelOffer w sender now oid st = Inr (st', es)) =
     (Offer.active (offers st oid) \<and> Offer.expiresAt (offers st oid) > now
      \<and> (Offer.buyer (offers st oid) = sender \<or> sender = marketplace.owner st)
      \<and> Offer.amount (offers st oid) \<le> marketplace.balance st
      \<and> accepts_ether w (Offer.buyer (offers st oid))
      \<and> es = [Eth_transfer Refund (Offer.buyer (offers st oid)) (Offer.amount (offers st oid))]
      \<and> st' = st\<lparr>offers := (offers st)(oid := (offers st oid)\<lparr>Offer.active := False\<rparr>),
                  marketplace.balance := marketplace.balance st - Offer.amount (offers st oid)\<rparr>)"
  by (auto simp: cancelOffer_def Let_def and_then_Inr transfer_ether_Inr)

lemma succeeded_iff: "succeeded r = (\<exists>x. r = Inr x)"
  by (cases r) simp_all

text \<open>
  Claim C7. On an active offer, a \<open>cancelOffer\<close> that completes was called by the
  offer's buyer or by the owner of the marketplace, makes one transfer, the refund of
  exactly the held amount to the buyer, and leaves the offer inactive; any other caller
  is rejected and the state stays as it was. For the buyer or the owner the call
  completes when the offer has not expired and the refund goes through.
\<close>

theorem cancelOffer_buyer_or_owner:
  assumes "Offer.active (offers st oid)"
  shows "(cancelOffer w sender now oid st = Inr (st', es) \<longrightarrow>
            (sender = Offer.buyer (offers st oid) \<or> sender = marketplace.owner st)
          \<and> es = [Eth_transfer Refund (Offer.buyer (offers st oid))
                    (Offer.amount (offers st oid))]
          \<and> \<not> Offer.active (offers st' oid)
          \<and> marketplace.balance st' + Offer.amount (offers st oid) = marketplace.balance st)
       \<and> (sender \<noteq> Offer.buyer (offers st oid) \<and> sender \<noteq> marketplace.owner st \<longrightarrow>
            \<not> succeeded (cancelOffer w sender now oid st)
          \<and> state_after st (cancelOffer w sender now oid st) = st)
       \<and> ((sender = Offer.buyer (offers st oid) \<or> sender = marketplace.owner st)
           \<and> Offer.expiresAt (offers st oid) > now
           \<and> Offer.amount (offers st oid) \<le> marketplace.balance st
           \<and> accepts_ether w (Offer.buyer (offers st oid)) \<longrightarrow>
            succeeded (cancelOffer w sender now oid st))"
proof (intro conjI impI)
  assume c: "cancelOffer w sender now oid st = Inr (st', es)"
  then show "sender = Offer.buyer (offers st oid) \<or> sender = marketplace.owner st"
    and "es = [Eth_transfer Refund (Offer.buyer (offers st oid)) (Offer.amount (offers st oid))]"
    and "\<not> Offer.active (offers st' oid)"
    and "marketplace.balance st' + Offer.amount (offers st oid) = marketplace.balance st"
    by (auto simp: cancelOffer_Inr)
next
  assume other: "sender \<noteq> Offer.buyer (offers st oid) \<and> sender \<noteq> marketplace.owner st"
  then have "\<exists>e. cancelOffer w sender now oid st = Inl e"
    by (auto simp: cancelOffer_def Let_def)
  then obtain e where e: "cancelOffer w sender now oid st = Inl e" by blast
  show "\<not> succeeded (cancelOffer w sender now oid st)"
    and "state_after st (cancelOffer w sender now oid st) = st"
    by (simp_all add: e)
next
  assume "(sender = Offer.buyer (offers st oid) \<or> sender = marketplace.owner st)
           \<and> Offer.expiresAt (offers st oid) > now
           \<and> Offer.amount (offers st oid) \<le> marketplace.balance st
           \<and> accepts_ether w (Offer.buyer (offers st oid))"
  with assms show "succeeded (cancelOffer w sender now oid st)"
    by (auto simp: succeeded_iff cancelOffer_Inr)
qed

lemma sample_cancel_offer:
  "\<exists>st'. cancelOffer plain_world 22 500 129 sample_market =
     Inr (st', [Eth_transfer Refund 22 500000])
     \<and> \<not> Offer.active (offers st' 129) \<and> marketplace.balance st' = 0"
  by (simp add: cancelOffer_def sample_defs run_defs)

theorem cancelOffer_buyer_or_owner_witness:
  "Offer.active (offers sample_market 129)
   \<and> (\<exists>st'. cancelOffer plain_world 22 500 129 sample_market =
          Inr (st', [Eth_transfer Refund 22 500000])
        \<and> \<not> Offer.active (offers st' 129))
   \<and> Offer.buyer (offers sample_market 129) = 22
   \<and> Offer.amount (offers sample_market 129) = 500000
   \<and> \<not> succeeded (cancelOffer plain_world 33 500 129 sample_market)
   \<and> state_after sample_market (cancelOffer plain_world 33 500 129 sample_market)
       = sample_market
   \<and> succeeded (cancelOffer plain_world 1 500 129 sample_market)"
proof -
  have act: "Offer.active (offers sample_market 129)"
    by (simp add: sample_defs)
  obtain st1 where c: "cancelOffer plain_world 22 500 129 sample_market =
     Inr (st1, [Eth_transfer Refund 22 500000])"
    using sample_cancel_offer by blast
  have facts: "Offer.buyer (offers sample_market 129) = 22"
    "Offer.amount (offers sample_market 129) = 500000"
    "marketplace.owner sample_market = 1"
    "Offer.expiresAt (offers sample_market 129) = 2000"
    "marketplace.balance sample_market = 500000"
    "accepts_ether plain_world 22"
    by (simp_all add: sample_defs)
  from cancelOffer_buyer_or_owner [OF act, of plain_world 22 500 st1
      "[Eth_transfer Refund 22 500000]"]
    cancelOffer_buyer_or_owner [OF act, of plain_world 33 500]
    cancelOffer_buyer_or_owner [OF act, of plain_world 1 500]
    act c facts
  show ?thesis
    by simp
qed

lemma unwind_escrow_Inr:
  "(unwind_escrow w eid st = Inr (st', es)) =
     (safeTransferFrom w (EscrowTransaction.nftContract (escrowTransactions st eid))
        (escrow.self_address st) (EscrowTransaction.seller (escrowTransactions st eid))
        (EscrowTransaction.tokenId (escrowTransactions st eid))
      \<and> EscrowTransaction.price (escrowTransactions st eid) \<le> escrow.balance st
      \<and> accepts_ether w (EscrowTransaction.buyer (escrowTransactions st eid))
      \<and> es = [Nft_transfer (EscrowTransaction.nftContract (escrowTransactions st eid))
                (escrow.self_address st) (EscrowTransaction.seller (escrowTransactions st eid))
                (EscrowTransaction.tokenId (escrowTransactions st eid)),
              Eth_transfer Refund (EscrowTransaction.buyer (escrowTransactions st eid))
                (EscrowTransaction.price (escrowTransactions st eid))]
      \<and> st' = st\<lparr>escrowTransactions := (escrowTransactions st)
                    (eid := (escrowTransactions st eid)\<lparr>EscrowTransaction.status := Cancelled\<rparr>),
                  escrow.balance := escrow.balance st
                    - EscrowTransaction.price (escrowTransactions st eid)\<rparr>)"
  by (auto simp: unwind_escrow_def Let_def and_then_Inr transfer_ether_Inr transfer_nft_Inr)

lemma cancelEscrow_Inr:
  "(cancelEscrow w sender now eid st = Inr (st', es)) =
     (validEscrow st eid \<and> EscrowTransaction.status (escrowTransactions st eid) = Active
      \<and> (sender = EscrowTransaction.seller (escrowTransactions st eid)
         \<or> sender = EscrowTransaction.buyer (escrowTransactions st eid)
         \<or> now > EscrowTransaction.deadline (escrowTransactions st eid))
      \<and> unwind_escrow w eid st = Inr (st', es))"
  by (auto simp: cancelEscrow_def Let_def)

text \<open>
  Claim C8. On an Active escrow, a \<open>cancelEscrow\<close> that completes while
  \<open>now \<le> deadline\<close> was called by the seller or the buyer; once \<open>now > deadline\<close> it
  completes for every caller (as it does for the seller and the buyer at any time),
  provided the registry hands the asset back and the refund goes through. A completed
  cancellation returns the asset to the seller, refunds the full price to the buyer
  and leaves the escrow Cancelled.
\<close>

theorem cancelEscrow_participants_then_anyone:
  assumes "validEscrow st eid"
    and "EscrowTransaction.status (escrowTransactions st eid) = Active"
  shows "(now \<le> EscrowTransaction.deadline (escrowTransactions st eid)
          \<and> succeeded (cancelEscrow w sender now eid st) \<longrightarrow>
            sender = EscrowTransaction.seller (escrowTransactions st eid)
          \<or> sender = EscrowTransaction.buyer (escrowTransactions st eid))
       \<and> ((now > EscrowTransaction.deadline (escrowTransactions st eid)
            \<or> sender = EscrowTransaction.seller (escrowTransactions st eid)
            \<or> sender = EscrowTransaction.buyer (escrowTransactions st eid))
           \<and> safeTransferFrom w (EscrowTransaction.nftContract (escrowTransactions st eid))
               (escrow.self_address st) (EscrowTransaction.seller (escrowTransactions st eid))
               (EscrowTransaction.tokenId (escrowTransactions st eid))
           \<and> EscrowTransaction.price (escrowTransactions st eid) \<le> escrow.balance st
           \<and> accepts_ether w (EscrowTransaction.buyer (escrowTransactions st eid)) \<longrightarrow>
            succeeded (cancelEscrow w sender now eid st))
       \<and> (cancelEscrow w sender now eid st = Inr (st', es) \<longrightarrow>
            es = [Nft_transfer (EscrowTransaction.nftContract (escrowTransactions st eid))
                    (escrow.self_address st)
                    (EscrowTransaction.seller (escrowTransactions st eid))
                    (EscrowTransaction.tokenId (escrowTransactions st eid)),
                  Eth_transfer Refund (EscrowTransaction.buyer (escrowTransactions st eid))
                    (EscrowTransaction.price (escrowTransactions st eid))]
          \<and> EscrowTransaction.status (escrowTransactions st' eid) = Cancelled)"
proof (intro conjI impI)
  assume "now \<le> EscrowTransaction.deadline (escrowTransactions st eid)
          \<and> succeeded (cancelEscrow w sender now eid st)"
  then show "sender = EscrowTransaction.seller (escrowTransactions st eid)
          \<or> sender = EscrowTransaction.buyer (escrowTransactions st eid)"
    by (auto simp: succeeded_iff cancelEscrow_Inr)
next
  assume "(now > EscrowTransaction.deadline (escrowTransactions st eid)
            \<or> sender = EscrowTransaction.seller (escrowTransactions st eid)
            \<or> sender = EscrowTransaction.buyer (escrowTransactions st eid))
           \<and> safeTransferFrom w (EscrowTransaction.nftContract (escrowTransactions st eid))
               (escrow.self_address st) (EscrowTransaction.seller (escrowTransactions st eid))
               (EscrowTransaction.tokenId (escrowTransactions st eid))
           \<and> EscrowTransaction.price (escrowTransactions st eid) \<le> escrow.balance st
           \<and> accepts_ether w (EscrowTransaction.buyer (escrowTransactions st eid))"
  with assms show "succeeded (cancelEscrow w sender now eid st)"
    by (auto simp: succeeded_iff cancelEscrow_Inr unwind_escrow_Inr)
next
  assume c: "cancelEscrow w sender now eid st = Inr (st', es)"
  then show "es = [Nft_transfer (EscrowTransaction.nftContract (escrowTransactions st eid))
                    (escrow.self_address st)
                    (EscrowTransaction.seller (escrowTransactions st eid))
                    (EscrowTransaction.tokenId (escrowTransactions st eid)),
                  Eth_transfer Refund (EscrowTransaction.buyer (escrowTransactions st eid))
                    (EscrowTransaction.price (escrowTransactions st eid))]"
    and "EscrowTransaction.status (escrowTransactions st' eid) = Cancelled"
    by (auto simp: cancelEscrow_Inr unwind_escrow_Inr)
qed

lemma sample_cancel_escrow:
  "\<exists>st'. cancelEscrow plain_world 33 5001 1 sample_escrow =
     Inr (st', [Nft_transfer 5 60 11 1, Eth_transfer Refund 22 1000000])
     \<and> EscrowTransaction.status (escrowTransactions st' 1) = Cancelled"
  by (simp add: cancelEscrow_def sample_defs run_defs)

lemma sample_cancel_escrow_early:
  "cancelEscrow plain_world 33 5000 1 sample_escrow = Inl (Revert ''Not authorized to cancel'')"
  by (simp add: cancelEscrow_def sample_defs run_defs)

theorem cancelEscrow_participants_then_anyone_witness:
  "validEscrow sample_escrow 1
   \<and> EscrowTransaction.status (escrowTransactions sample_escrow 1) = Active
   \<and> EscrowTransaction.deadline (escrowTransactions sample_escrow 1) = 5000
   \<and> succeeded (cancelEscrow plain_world 33 5001 1 sample_escrow)
   \<and> succeeded (cancelEscrow plain_world 11 200 1 sample_escrow)
   \<and> \<not> succeeded (cancelEscrow plain_world 33 5000 1 sample_escrow)
   \<and> (\<exists>st'. cancelEscrow plain_world 33 5001 1 sample_escrow =
         Inr (st', [Nft_transfer 5 60 11 1, Eth_transfer Refund 22 1000000])
       \<and> EscrowTransaction.status (escrowTransactions st' 1) = Cancelled)"
proof -
  have v: "validEscrow sample_escrow 1"
    by (simp add: sample_defs run_defs)
  have a: "EscrowTransaction.status (escrowTransactions sample_escrow 1) = Active"
    by (simp add: sample_defs)
  obtain st1 where c: "cancelEscrow plain_world 33 5001 1 sample_escrow =
     Inr (st1, [Nft_transfer 5 60 11 1, Eth_transfer Refund 22 1000000])"
    using sample_cancel_escrow by blast
  have facts: "EscrowTransaction.deadline (escrowTransactions sample_escrow 1) = 5000"
    "EscrowTransaction.seller (escrowTransactions sample_escrow 1) = 11"
    "EscrowTransaction.buyer (escrowTransactions sample_escrow 1) = 22"
    "EscrowTransaction.nftContract (escrowTransactions sample_escrow 1) = 5"
    "EscrowTransaction.tokenId (escrowTransactions sample_escrow 1) = 1"
    "EscrowTransaction.price (escrowTransactions sample_escrow 1) = 1000000"
    "escrow.balance sample_escrow = 1000000" "escrow.self_address sample_escrow = 60"
    "accepts_ether plain_world 22" "safeTransferFrom plain_world 5 60 11 1"
    by (simp_all add: sample_defs)
  from cancelEscrow_participants_then_anyone [OF v a, of 5001 plain_world 33 st1
      "[Nft_transfer 5 60 11 1, Eth_transfer Refund 22 1000000]"]
    cancelEscrow_participants_then_anyone [OF v a, of 200 plain_world 11]
    cancelEscrow_participants_then_anyone [OF v a, of 5000 plain_world 33]
    v a c facts sample_cancel_escrow_early
  show ?thesis
    by simp
qed

subsection \<open>Completion of an escrow\<close>

lemma nonpayable_Inr: "(nonpayable c r = Inr x) = (msg_value c = 0 \<and> r = Inr x)"
  by (simp add: nonpayable_def)

lemma createEscrow_Inr:
  assumes "createEscrow w c b nft tid dl st = Inr (st', es)"
  shows "escrowTransactions st' = (escrowTransactions st)(nextEscrowId st :=
           \<lparr>EscrowTransaction.seller = msg_sender c, EscrowTransaction.buyer = b,
            EscrowTransaction.nftContract = nft, EscrowTransaction.tokenId = tid,
            EscrowTransaction.price = msg_value c,
            EscrowTransaction.createdAt = block_timestamp c,
            EscrowTransaction.deadline = dl, EscrowTransaction.status = Active,
            EscrowTransaction.sellerApproved = False,
            EscrowTransaction.buyerApproved = False\<rparr>)"
    and "\<not> escrow.paused st"
  using assms
  by (auto simp: createEscrow_def Let_def and_then_Inr transfer_nft_Inr
      split: if_splits option.splits)

lemma initiateDispute_Inr:
  assumes "initiateDispute sender now eid st = Inr (st', es)"
  shows "EscrowTransaction.status (escrowTransactions st eid) = Active"
    and "escrowTransactions st' = (escrowTransactions st)
           (eid := (escrowTransactions st eid)\<lparr>EscrowTransaction.status := Disputed\<rparr>)"
  using assms
  by (auto simp: initiateDispute_def Let_def and_then_Inr split: if_splits)

lemma escrow_admin_frame:
  "escrow_setContractWhitelist sender nft b st = Inr (st', es)
     \<Longrightarrow> escrowTransactions st' = escrowTransactions st"
  "setEscrowFee sender f st = Inr (st', es) \<Longrightarrow> escrowTransactions st' = escrowTransactions st"
  "escrow_setFeeRecipient sender a st = Inr (st', es)
     \<Longrightarrow> escrowTransactions st' = escrowTransactions st"
  "setDisputeResolver sender a st = Inr (st', es)
     \<Longrightarrow> escrowTransactions st' = escrowTransactions st"
  "escrow_pause sender st = Inr (st', es) \<Longrightarrow> escrowTransactions st' = escrowTransactions st"
  "escrow_unpause sender st = Inr (st', es) \<Longrightarrow> escrowTransactions st' = escrowTransactions st"
  "escrow_emergencyWithdraw w sender st = Inr (st', es)
     \<Longrightarrow> escrowTransactions st' = escrowTransactions st"
  "escrow_transferOwnership sender a st = Inr (st', es)
     \<Longrightarrow> escrowTransactions st' = escrowTransactions st"
  "escrow_renounceOwnership sender st = Inr (st', es)
     \<Longrightarrow> escrowTransactions st' = escrowTransactions st"
  by (auto simp: escrow_setContractWhitelist_def setEscrowFee_def escrow_setFeeRecipient_def
      setDisputeResolver_def escrow_pause_def escrow_unpause_def escrow_emergencyWithdraw_def
      escrow_transferOwnership_def escrow_renounceOwnership_def and_then_Inr
      split: if_splits)

text \<open>What a completed call does to one escrow record.\<close>

lemma escrow_call_record:
  assumes "escrow_call w c opn st = Inr (st', es)"
  shows "escrowTransactions st' eid = escrowTransactions st eid
       \<or> (\<exists>b nft tid dl. opn = CreateEscrow b nft tid dl
            \<and> EscrowTransaction.status (escrowTransactions st' eid) = Active
            \<and> \<not> sellerApproved (escrowTransactions st' eid)
            \<and> \<not> buyerApproved (escrowTransactions st' eid))
       \<or> (opn = ApproveEscrow eid
            \<and> EscrowTransaction.status (escrowTransactions st eid) = Active
            \<and> (sellerApproved (escrowTransactions st' eid)
                  \<and> buyerApproved (escrowTransactions st' eid)
                  \<and> EscrowTransaction.status (escrowTransactions st' eid) = Completed
                \<or> \<not> (sellerApproved (escrowTransactions st' eid)
                       \<and> buyerApproved (escrowTransactions st' eid))
                  \<and> EscrowTransaction.status (escrowTransactions st' eid) = Active))
       \<or> (opn = CancelEscrow eid
            \<and> EscrowTransaction.status (escrowTransactions st eid) = Active
            \<and> escrowTransactions st' eid
                = (escrowTransactions st eid)\<lparr>EscrowTransaction.status := Cancelled\<rparr>)
       \<or> (opn = InitiateDispute eid
            \<and> EscrowTransaction.status (escrowTransactions st eid) = Active
            \<and> escrowTransactions st' eid
                = (escrowTransactions st eid)\<lparr>EscrowTransaction.status := Disputed\<rparr>)
       \<or> (opn = ResolveDispute eid True
            \<and> EscrowTransaction.status (escrowTransactions st eid) = Disputed
            \<and> escrowTransactions st' eid
                = (escrowTransactions st eid)\<lparr>EscrowTransaction.status := Completed\<rparr>)
       \<or> (opn = ResolveDispute eid False
            \<and> EscrowTransaction.status (escrowTransactions st eid) = Disputed
            \<and> escrowTransactions st' eid
                = (escrowTransactions st eid)\<lparr>EscrowTransaction.status := Cancelled\<rparr>)"
proof (cases opn)
  case (CreateEscrow b nft tid dl)
  with assms have "createEscrow w c b nft tid dl st = Inr (st', es)" by simp
  from createEscrow_Inr(1) [OF this] CreateEscrow show ?thesis
    by (cases "eid = nextEscrowId st") simp_all
next
  case (ApproveEscrow i)
  with assms have a: "approveEscrow w (msg_sender c) i st = Inr (st', es)"
    by (simp add: nonpayable_Inr)
  show ?thesis
  proof (cases "i = eid")
    case False
    from a show ?thesis
    proof (cases rule: approveEscrow_cases)
      case (pending e1)
      with False show ?thesis by simp
    next
      case (completing e1)
      from completeEscrow_Inr(2) [OF completing(4)] False show ?thesis by simp
    qed
  next
    case True
    note act = approveEscrow_Inr(2) [OF a]
    from a show ?thesis
    proof (cases rule: approveEscrow_cases)
      case (pending e1)
      with True act ApproveEscrow show ?thesis by (auto split: if_splits)
    next
      case (completing e1)
      from completeEscrow_Inr(2) [OF completing(4)] completing(1,2,3) True act ApproveEscrow
      show ?thesis by (auto split: if_splits)
    qed
  qed
next
  case (CancelEscrow i)
  with assms have "cancelEscrow w (msg_sender c) (block_timestamp c) i st = Inr (st', es)"
    by (simp add: nonpayable_Inr)
  with CancelEscrow show ?thesis
    by (cases "i = eid") (auto simp: cancelEscrow_Inr unwind_escrow_Inr)
next
  case (InitiateDispute i)
  with assms have "initiateDispute (msg_sender c) (block_timestamp c) i st = Inr (st', es)"
    by (simp add: nonpayable_Inr)
  from initiateDispute_Inr [OF this] InitiateDispute show ?thesis
    by (cases "i = eid") auto
next
  case (ResolveDispute i favor)
  with assms have r: "resolveDispute w (msg_sender c) i favor st = Inr (st', es)"
    by (simp add: nonpayable_Inr)
  show ?thesis
  proof (cases favor)
    case True
    from completeEscrow_Inr(2) [OF resolveDispute_Inr(4) [OF r True]]
      resolveDispute_Inr(3) [OF r] ResolveDispute True
    show ?thesis by (cases "i = eid") auto
  next
    case False
    from resolveDispute_Inr(5) [OF r False] resolveDispute_Inr(3) [OF r] ResolveDispute False
    show ?thesis by (cases "i = eid") (auto simp: unwind_escrow_Inr)
  qed
qed (use assms in \<open>auto simp: nonpayable_Inr dest: escrow_admin_frame\<close>)

lemma approvals_complete_step:
  assumes "approvals_complete st" and "escrow_call w c opn st = Inr (st', es)"
  shows "approvals_complete st'"
  unfolding approvals_complete_def
proof (intro allI impI)
  fix eid
  assume both: "sellerApproved (escrowTransactions st' eid)
                \<and> buyerApproved (escrowTransactions st' eid)"
  from assms(1) have inv:
    "sellerApproved (escrowTransactions st eid) \<and> buyerApproved (escrowTransactions st eid)
     \<longrightarrow> EscrowTransaction.status (escrowTransactions st eid) = Completed"
    by (simp add: approvals_complete_def)
  from escrow_call_record [OF assms(2), of eid] both inv
  show "EscrowTransaction.status (escrowTransactions st' eid) = Completed"
    by auto
qed

lemma reachable_approvals_complete:
  "escrow_reachable st \<Longrightarrow> approvals_complete st"
proof (induction rule: escrow_reachable.induct)
  case (escrow_deployed self deployer fr dr)
  show ?case by (simp add: approvals_complete_def escrow_constructor_def no_escrow_def)
next
  case (escrow_called st w c opn st' es)
  then show ?case by (blast intro: approvals_complete_step)
next
  case (escrow_credited st v)
  then show ?case by (simp add: approvals_complete_def)
qed

lemma state_after_reachable:
  assumes "escrow_reachable st"
  shows "escrow_reachable (state_after st (escrow_call w c opn st))"
proof (cases "escrow_call w c opn st")
  case (Inl e)
  with assms show ?thesis by simp
next
  case (Inr x)
  obtain st' es where "x = (st', es)" by (cases x) auto
  with Inr assms show ?thesis by (auto intro: escrow_called)
qed

lemma escrow_run_reachable:
  "escrow_reachable st \<Longrightarrow> escrow_reachable (escrow_run w xs st)"
  by (induction xs arbitrary: st) (simp_all add: state_after_reachable)

lemma resolved_escrow_record:
  "validEscrow resolved_escrow 1
   \<and> escrowTransactions resolved_escrow 1 =
       \<lparr>EscrowTransaction.seller = 11, EscrowTransaction.buyer = 22,
        EscrowTransaction.nftContract = 5, EscrowTransaction.tokenId = 1,
        EscrowTransaction.price = 1000000, EscrowTransaction.createdAt = 100,
        EscrowTransaction.deadline = 5000, EscrowTransaction.status = Completed,
        EscrowTransaction.sellerApproved = False, EscrowTransaction.buyerApproved = False\<rparr>"
  by (simp add: resolved_escrow_def dispute_trace_def escrow_constructor_def nonpayable_def
      escrow_setContractWhitelist_def createEscrow_def initiateDispute_def resolveDispute_def
      sample_defs run_defs no_escrow_def)

text \<open>
  Claim C2 as stated fails: "Completed if and only if both approvals" does not hold in
  every reachable state. After a dispute the resolver's decision for the buyer
  completes the escrow through \<open>completeEscrow\<close> with both approval flags still false.
\<close>

theorem completed_without_approvals_counterexample:
  "escrow_reachable resolved_escrow
   \<and> validEscrow resolved_escrow 1
   \<and> EscrowTransaction.status (escrowTransactions resolved_escrow 1) = Completed
   \<and> \<not> sellerApproved (escrowTransactions resolved_escrow 1)
   \<and> \<not> buyerApproved (escrowTransactions resolved_escrow 1)"
proof -
  have "escrow_reachable resolved_escrow"
    unfolding resolved_escrow_def
    by (rule escrow_run_reachable) (rule escrow_deployed)
  with resolved_escrow_record show ?thesis by simp
qed

text \<open>
  Claim C2, amended. In every reachable state an escrow with both approval flags set
  is Completed. A completed call turns an escrow Completed only as the
  \<open>approveEscrow\<close> of that escrow after which both flags are set, or as
  \<open>resolveDispute\<close> of that escrow in favour of the buyer, which completes it whatever
  the flags are. An \<open>approveEscrow\<close> on an escrow without any approval leaves it Active
  and transfers nothing.
\<close>

theorem completed_by_approvals_or_resolver:
  assumes "escrow_reachable st"
  shows "approvals_complete st
       \<and> (\<forall>w c opn st' es eid.
            escrow_call w c opn st = Inr (st', es)
            \<and> EscrowTransaction.status (escrowTransactions st eid) \<noteq> Completed
            \<and> EscrowTransaction.status (escrowTransactions st' eid) = Completed
          \<longrightarrow> opn = ApproveEscrow eid
                \<and> sellerApproved (escrowTransactions st' eid)
                \<and> buyerApproved (escrowTransactions st' eid)
              \<or> opn = ResolveDispute eid True)
       \<and> (\<forall>w sender eid st' es.
            approveEscrow w sender eid st = Inr (st', es)
            \<and> \<not> sellerApproved (escrowTransactions st eid)
            \<and> \<not> buyerApproved (escrowTransactions st eid)
          \<longrightarrow> EscrowTransaction.status (escrowTransactions st' eid) = Active \<and> es = [])"
proof -
  have inv: "approvals_complete st"
    using assms by (rule reachable_approvals_complete)
  have step: "opn = ApproveEscrow eid
                \<and> sellerApproved (escrowTransactions st' eid)
                \<and> buyerApproved (escrowTransactions st' eid)
              \<or> opn = ResolveDispute eid True"
    if "escrow_call w c opn st = Inr (st', es)
            \<and> EscrowTransaction.status (escrowTransactions st eid) \<noteq> Completed
            \<and> EscrowTransaction.status (escrowTransactions st' eid) = Completed"
    for w c opn st' es eid
  proof -
    from that have call: "escrow_call w c opn st = Inr (st', es)"
      and before: "EscrowTransaction.status (escrowTransactions st eid) \<noteq> Completed"
      and after: "EscrowTransaction.status (escrowTransactions st' eid) = Completed"
      by simp_all
    from escrow_call_record [OF call, of eid] before after show ?thesis
      by auto
  qed
  have single: "EscrowTransaction.status (escrowTransactions st' eid) = Active \<and> es = []"
    if "approveEscrow w sender eid st = Inr (st', es)
            \<and> \<not> sellerApproved (escrowTransactions st eid)
            \<and> \<not> buyerApproved (escrowTransactions st eid)"
    for w sender eid st' es
  proof -
    from that have a: "approveEscrow w sender eid st = Inr (st', es)"
      and none: "\<not> sellerApproved (escrowTransactions st eid)"
        "\<not> buyerApproved (escrowTransactions st eid)"
      by simp_all
    note act = approveEscrow_Inr(2) [OF a]
    from a show ?thesis
    proof (cases rule: approveEscrow_cases)
      case (pending e1)
      with act show ?thesis by (auto split: if_splits)
    next
      case (completing e1)
      with none show ?thesis by (auto split: if_splits)
    qed
  qed
  from inv step single show ?thesis by blast
qed

lemma sample_escrow_reachable: "escrow_reachable sample_escrow"
proof -
  have "sample_escrow = escrow_run plain_world (take 2 dispute_trace) (escrow_constructor 60 1 3 2)"
    by (simp add: dispute_trace_def escrow_constructor_def nonpayable_def
      escrow_setContractWhitelist_def createEscrow_def
      sample_defs run_defs no_escrow_def fun_eq_iff)
  moreover have "escrow_reachable
      (escrow_run plain_world (take 2 dispute_trace) (escrow_constructor 60 1 3 2))"
    by (rule escrow_run_reachable) (rule escrow_deployed)
  ultimately show ?thesis by simp
qed

lemma sample_first_approval:
  "\<exists>st'. approveEscrow plain_world 11 1 sample_escrow = Inr (st', [])
     \<and> EscrowTransaction.status (escrowTransactions st' 1) = Active"
  by (simp add: approveEscrow_def sample_defs run_defs)

theorem completed_by_approvals_or_resolver_witness:
  "escrow_reachable sample_escrow
   \<and> approvals_complete sample_escrow
   \<and> (\<exists>st'. approveEscrow plain_world 11 1 sample_escrow = Inr (st', [])
        \<and> EscrowTransaction.status (escrowTransactions st' 1) = Active)
   \<and> escrow_reachable half_approved_escrow
   \<and> (\<exists>st'. escrow_call plain_world \<lparr>msg_sender = 22, msg_value = 0, block_timestamp = 300\<rparr>
              (ApproveEscrow 1) half_approved_escrow
            = Inr (st', [Nft_transfer 5 60 22 1, Eth_transfer Proceeds 11 975000,
                         Eth_transfer Fee 3 25000])
        \<and> EscrowTransaction.status (escrowTransactions st' 1) = Completed
        \<and> sellerApproved (escrowTransactions st' 1)
        \<and> buyerApproved (escrowTransactions st' 1))"
proof -
  note r = sample_escrow_reachable
  obtain st1 where a1: "approveEscrow plain_world 11 1 sample_escrow = Inr (st1, [])"
    and s1: "EscrowTransaction.status (escrowTransactions st1 1) = Active"
    using sample_first_approval by blast
  have h: "st1 = half_approved_escrow"
    using a1 by (simp add: approveEscrow_def sample_defs run_defs)
  have "escrow_call plain_world \<lparr>msg_sender = 11, msg_value = 0, block_timestamp = 200\<rparr>
          (ApproveEscrow 1) sample_escrow = Inr (st1, [])"
    using a1 by (simp add: nonpayable_def)
  with r have r1: "escrow_reachable st1" by (rule escrow_called)
  obtain st2 where a2: "approveEscrow plain_world 22 1 half_approved_escrow =
     Inr (st2, [Nft_transfer 5 60 22 1, Eth_transfer Proceeds 11 975000,
                Eth_transfer Fee 3 25000])"
    and s2: "EscrowTransaction.status (escrowTransactions st2 1) = Completed"
    using sample_approve by blast
  have c2: "escrow_call plain_world \<lparr>msg_sender = 22, msg_value = 0, block_timestamp = 300\<rparr>
          (ApproveEscrow 1) half_approved_escrow
        = Inr (st2, [Nft_transfer 5 60 22 1, Eth_transfer Proceeds 11 975000,
                     Eth_transfer Fee 3 25000])"
    using a2 by (simp add: nonpayable_def)
  have before: "EscrowTransaction.status (escrowTransactions half_approved_escrow 1) \<noteq> Completed"
    "\<not> sellerApproved (escrowTransactions sample_escrow 1)"
    "\<not> buyerApproved (escrowTransactions sample_escrow 1)"
    by (simp_all add: sample_defs)
  from completed_by_approvals_or_resolver [OF r]
  have i1: "approvals_complete sample_escrow"
    and i2: "EscrowTransaction.status (escrowTransactions st1 1) = Active"
    using a1 before by blast+
  from completed_by_approvals_or_resolver [OF r1 [unfolded h]] c2 before s2
  have "sellerApproved (escrowTransactions st2 1) \<and> buyerApproved (escrowTransactions st2 1)"
    by blast
  with r r1 h i1 a1 i2 c2 s2 show ?thesis
    by blast
qed

subsection \<open>Pausing\<close>

lemma paused_rejects_marketplace:
  assumes "marketplace.paused st"
  shows "listItem kl w sender now nft tid pr dur st = Inl (Revert ''Pausable: paused'')"
    and "buyItem w c lid st = Inl (Revert ''Pausable: paused'')"
    and "createOffer ko c nft tid dur st = Inl (Revert ''Pausable: paused'')"
    and "acceptOffer w sender now oid st = Inl (Revert ''Pausable: paused'')"
  using assms by (simp_all add: listItem_def buyItem_def createOffer_def acceptOffer_def)

lemma paused_rejects_escrow:
  assumes "escrow.paused st"
  shows "createEscrow w c b nft tid dl st = Inl (Revert ''Pausable: paused'')"
  using assms by (simp add: createEscrow_def)

lemma marketplace_ignores_pause:
  "cancelListing sender lid (st\<lparr>marketplace.paused := b\<rparr>)
     = marketplace_with_paused b (cancelListing sender lid st)"
  "updateListing sender now lid newPrice (st\<lparr>marketplace.paused := b\<rparr>)
     = marketplace_with_paused b (updateListing sender now lid newPrice st)"
  "cancelOffer w sender now oid (st\<lparr>marketplace.paused := b\<rparr>)
     = marketplace_with_paused b (cancelOffer w sender now oid st)"
  by (simp_all add: cancelListing_def updateListing_def cancelOffer_def
      marketplace_with_paused_def internal_cancelListing_def Let_def and_then_def
      split: sum.splits)

lemma completeEscrow_ignores_pause:
  "completeEscrow w eid (st\<lparr>escrow.paused := b\<rparr>)
     = escrow_with_paused b (completeEscrow w eid st)"
  by (simp add: completeEscrow_def escrow_with_paused_def Let_def and_then_def
      split: sum.splits prod.splits)

lemma unwind_escrow_ignores_pause:
  "unwind_escrow w eid (st\<lparr>escrow.paused := b\<rparr>)
     = escrow_with_paused b (unwind_escrow w eid st)"
  by (simp add: unwind_escrow_def escrow_with_paused_def Let_def and_then_def
      split: sum.splits prod.splits)

lemma escrow_with_paused_simps [simp]:
  "escrow_with_paused b (Inl e) = Inl e"
  "escrow_with_paused b (Inr (st, es)) = Inr (st\<lparr>escrow.paused := b\<rparr>, es)"
  by (simp_all add: escrow_with_paused_def)

lemma escrow_ignores_pause:
  "approveEscrow w sender eid (st\<lparr>escrow.paused := b\<rparr>)
     = escrow_with_paused b (approveEscrow w sender eid st)"
  "cancelEscrow w sender now eid (st\<lparr>escrow.paused := b\<rparr>)
     = escrow_with_paused b (cancelEscrow w sender now eid st)"
  "initiateDispute sender now eid (st\<lparr>escrow.paused := b\<rparr>)
     = escrow_with_paused b (initiateDispute sender now eid st)"
  "resolveDispute w sender eid favor (st\<lparr>escrow.paused := b\<rparr>)
     = escrow_with_paused b (resolveDispute w sender eid favor st)"
proof -
  have swap: "st\<lparr>escrow.paused := b, escrowTransactions := x\<rparr>
      = st\<lparr>escrowTransactions := x, escrow.paused := b\<rparr>" for x
    by simp
  show "approveEscrow w sender eid (st\<lparr>escrow.paused := b\<rparr>)
     = escrow_with_paused b (approveEscrow w sender eid st)"
    by (simp add: approveEscrow_def validEscrow_def Let_def swap completeEscrow_ignores_pause
        del: escrow.update_convs)
  show "cancelEscrow w sender now eid (st\<lparr>escrow.paused := b\<rparr>)
     = escrow_with_paused b (cancelEscrow w sender now eid st)"
    by (simp add: cancelEscrow_def validEscrow_def Let_def unwind_escrow_ignores_pause)
  show "initiateDispute sender now eid (st\<lparr>escrow.paused := b\<rparr>)
     = escrow_with_paused b (initiateDispute sender now eid st)"
    by (simp add: initiateDispute_def validEscrow_def Let_def and_then_def split: sum.splits)
  show "resolveDispute w sender eid favor (st\<lparr>escrow.paused := b\<rparr>)
     = escrow_with_paused b (resolveDispute w sender eid favor st)"
    by (simp add: resolveDispute_def validEscrow_def Let_def unwind_escrow_ignores_pause
        completeEscrow_ignores_pause)
qed

lemma emergencyWithdraw_Inr:
  "(emergencyWithdraw w sender st = Inr (st', es)) =
     (marketplace.owner st = sender \<and> marketplace.paused st
      \<and> accepts_ether w (marketplace.owner st)
      \<and> es = [Eth_transfer Sweep (marketplace.owner st) (marketplace.balance st)]
      \<and> st' = st\<lparr>marketplace.balance := 0\<rparr>)"
  by (auto simp: emergencyWithdraw_def and_then_Inr transfer_ether_Inr)

lemma escrow_emergencyWithdraw_Inr:
  "(escrow_emergencyWithdraw w sender st = Inr (st', es)) =
     (escrow.owner st = sender \<and> escrow.paused st
      \<and> accepts_ether w (escrow.owner st)
      \<and> es = [Eth_transfer Sweep (escrow.owner st) (escrow.balance st)]
      \<and> st' = st\<lparr>escrow.balance := 0\<rparr>)"
  by (auto simp: escrow_emergencyWithdraw_def and_then_Inr transfer_ether_Inr)

lemma views_ignore_pause:
  "getListing (st\<lparr>marketplace.paused := b\<rparr>) = getListing st"
  "getOffer (st\<lparr>marketplace.paused := b\<rparr>) = getOffer st"
  "getUserListings (st\<lparr>marketplace.paused := b\<rparr>) = getUserListings st"
  "getUserOffers (st\<lparr>marketplace.paused := b\<rparr>) = getUserOffers st"
  "getEscrow (est\<lparr>escrow.paused := b\<rparr>) = getEscrow est"
  "getUserEscrows (est\<lparr>escrow.paused := b\<rparr>) = getUserEscrows est"
  by (simp_all add: getListing_def getOffer_def getUserListings_def getUserOffers_def
      getEscrow_def getUserEscrows_def fun_eq_iff)

text \<open>
  Claim C3, amended. While the pause flag is set, \<open>listItem\<close>, \<open>buyItem\<close>,
  \<open>createOffer\<close>, \<open>acceptOffer\<close> and \<open>createEscrow\<close> abort with "Pausable: paused".
  \<open>cancelListing\<close>, \<open>updateListing\<close>, \<open>cancelOffer\<close>, \<open>approveEscrow\<close>,
  \<open>cancelEscrow\<close>, \<open>initiateDispute\<close> and \<open>resolveDispute\<close> do not look at the flag:
  they do the same paused or not. \<open>emergencyWithdraw\<close> of either contract completes only
  while paused and only for the owner. The views do not depend on the flag.
\<close>

theorem pause_gates_entry_points_only:
  "(marketplace.paused st \<longrightarrow>
        listItem kl w sender now nft tid pr dur st = Inl (Revert ''Pausable: paused'')
      \<and> buyItem w c lid st = Inl (Revert ''Pausable: paused'')
      \<and> createOffer ko c nft tid dur st = Inl (Revert ''Pausable: paused'')
      \<and> acceptOffer w sender now oid st = Inl (Revert ''Pausable: paused''))
   \<and> (escrow.paused est \<longrightarrow>
        createEscrow w c party nft tid dl est = Inl (Revert ''Pausable: paused''))
   \<and> cancelListing sender lid (st\<lparr>marketplace.paused := b\<rparr>)
       = marketplace_with_paused b (cancelListing sender lid st)
   \<and> updateListing sender now lid newPrice (st\<lparr>marketplace.paused := b\<rparr>)
       = marketplace_with_paused b (updateListing sender now lid newPrice st)
   \<and> cancelOffer w sender now oid (st\<lparr>marketplace.paused := b\<rparr>)
       = marketplace_with_paused b (cancelOffer w sender now oid st)
   \<and> approveEscrow w sender eid (est\<lparr>escrow.paused := b\<rparr>)
       = escrow_with_paused b (approveEscrow w sender eid est)
   \<and> cancelEscrow w sender now eid (est\<lparr>escrow.paused := b\<rparr>)
       = escrow_with_paused b (cancelEscrow w sender now eid est)
   \<and> initiateDispute sender now eid (est\<lparr>escrow.paused := b\<rparr>)
       = escrow_with_paused b (initiateDispute sender now eid est)
   \<and> resolveDispute w sender eid favor (est\<lparr>escrow.paused := b\<rparr>)
       = escrow_with_paused b (resolveDispute w sender eid favor est)
   \<and> (succeeded (emergencyWithdraw w sender st) \<longrightarrow>
        marketplace.paused st \<and> sender = marketplace.owner st)
   \<and> (succeeded (escrow_emergencyWithdraw w sender est) \<longrightarrow>
        escrow.paused est \<and> sender = escrow.owner est)
   \<and> getListing (st\<lparr>marketplace.paused := b\<rparr>) = getListing st
   \<and> getOffer (st\<lparr>marketplace.paused := b\<rparr>) = getOffer st
   \<and> getUserListings (st\<lparr>marketplace.paused := b\<rparr>) = getUserListings st
   \<and> getUserOffers (st\<lparr>marketplace.paused := b\<rparr>) = getUserOffers st
   \<and> getEscrow (est\<lparr>escrow.paused := b\<rparr>) = getEscrow est
   \<and> getUserEscrows (est\<lparr>escrow.paused := b\<rparr>) = getUserEscrows est"
proof -
  have gated: "marketplace.paused st \<longrightarrow>
        listItem kl w sender now nft tid pr dur st = Inl (Revert ''Pausable: paused'')
      \<and> buyItem w c lid st = Inl (Revert ''Pausable: paused'')
      \<and> createOffer ko c nft tid dur st = Inl (Revert ''Pausable: paused'')
      \<and> acceptOffer w sender now oid st = Inl (Revert ''Pausable: paused'')"
    by (simp add: paused_rejects_marketplace)
  have gated_escrow: "escrow.paused est \<longrightarrow>
        createEscrow w c party nft tid dl est = Inl (Revert ''Pausable: paused'')"
    by (simp add: paused_rejects_escrow)
  have sweep: "succeeded (emergencyWithdraw w sender st) \<longrightarrow>
        marketplace.paused st \<and> sender = marketplace.owner st"
    by (auto simp: succeeded_iff emergencyWithdraw_Inr)
  have sweep_escrow: "succeeded (escrow_emergencyWithdraw w sender est) \<longrightarrow>
        escrow.paused est \<and> sender = escrow.owner est"
    by (auto simp: succeeded_iff escrow_emergencyWithdraw_Inr)
  show ?thesis
    by (intro conjI gated gated_escrow sweep sweep_escrow marketplace_ignores_pause
        escrow_ignores_pause views_ignore_pause)
qed

text \<open>
  Claim C3 as stated fails: \<open>cancelOffer\<close> and \<open>approveEscrow\<close> carry no pause
  check. On the paused samples the buyer cancels the offer and is refunded, and the
  second approval completes the escrow.
\<close>

theorem paused_mutators_counterexample:
  "marketplace.paused paused_market
   \<and> Offer.active (offers paused_market 129)
   \<and> succeeded (cancelOffer plain_world 22 500 129 paused_market)
   \<and> \<not> Offer.active
         (offers (state_after paused_market (cancelOffer plain_world 22 500 129 paused_market)) 129)
   \<and> escrow.paused paused_escrow
   \<and> EscrowTransaction.status (escrowTransactions paused_escrow 1) = Active
   \<and> succeeded (approveEscrow plain_world 22 1 paused_escrow)
   \<and> EscrowTransaction.status
         (escrowTransactions (state_after paused_escrow
            (approveEscrow plain_world 22 1 paused_escrow)) 1) = Completed"
  by (simp add: cancelOffer_def approveEscrow_def sample_defs run_defs)

theorem pause_gates_entry_points_only_witness:
  "marketplace.paused paused_market
   \<and> listItem sample_keccak_listing plain_world 11 500 5 1 1000000 1000 paused_market
       = Inl (Revert ''Pausable: paused'')
   \<and> buyItem plain_world buyer_call 107 paused_market = Inl (Revert ''Pausable: paused'')
   \<and> createOffer sample_keccak_offer buyer_call 5 1 1000 paused_market
       = Inl (Revert ''Pausable: paused'')
   \<and> acceptOffer plain_world 11 500 129 paused_market = Inl (Revert ''Pausable: paused'')
   \<and> escrow.paused paused_escrow
   \<and> createEscrow plain_world buyer_call 33 5 1 5000 paused_escrow
       = Inl (Revert ''Pausable: paused'')
   \<and> succeeded (emergencyWithdraw plain_world 1 paused_market)
   \<and> \<not> succeeded (emergencyWithdraw plain_world 1 sample_market)
   \<and> succeeded (escrow_emergencyWithdraw plain_world 1 paused_escrow)
   \<and> \<not> succeeded (escrow_emergencyWithdraw plain_world 1 half_approved_escrow)
   \<and> cancelOffer plain_world 22 500 129 paused_market
       = marketplace_with_paused True (cancelOffer plain_world 22 500 129 sample_market)"
proof -
  have p: "marketplace.paused paused_market" "escrow.paused paused_escrow"
    by (simp_all add: sample_defs)
  have np: "\<not> marketplace.paused sample_market" "\<not> escrow.paused half_approved_escrow"
    by (simp_all add: sample_defs)
  have s: "succeeded (emergencyWithdraw plain_world 1 paused_market)"
    "succeeded (escrow_emergencyWithdraw plain_world 1 paused_escrow)"
    by (simp_all add: emergencyWithdraw_def escrow_emergencyWithdraw_def sample_defs run_defs)
  from pause_gates_entry_points_only [of paused_market sample_keccak_listing plain_world 11 500
      5 1 1000000 1000 buyer_call 107 sample_keccak_offer 129 paused_escrow 33 5000]
    pause_gates_entry_points_only [of sample_market _ plain_world 1 _ _ _ _ _ _ _ _ _
      half_approved_escrow]
    pause_gates_entry_points_only [of sample_market _ plain_world 22 500 _ _ _ _ _ _ _ 129
      _ _ _ True]
    p np s
  show ?thesis
    unfolding paused_market_def [symmetric] by simp
qed

subsection \<open>One active listing per asset\<close>

lemma consistentD:
  assumes "consistent L P"
  shows "Listing.active (L i) \<Longrightarrow> i \<noteq> 0"
    and "Listing.active (L i) \<Longrightarrow> P (Listing.nftContract (L i)) (Listing.tokenId (L i)) = i"
    and "P nft tid \<noteq> 0 \<Longrightarrow> Listing.active (L (P nft tid))"
    and "P nft tid \<noteq> 0 \<Longrightarrow> Listing.nftContract (L (P nft tid)) = nft"
    and "P nft tid \<noteq> 0 \<Longrightarrow> Listing.tokenId (L (P nft tid)) = tid"
  using assms by (simp_all add: consistent_def)

lemma consistent_one_active:
  assumes "pointers_consistent st"
  shows "one_active_listing st"
  unfolding one_active_listing_def
proof (intro allI impI)
  fix i j
  assume h: "Listing.active (listings st i) \<and> Listing.active (listings st j)
            \<and> Listing.nftContract (listings st i) = Listing.nftContract (listings st j)
            \<and> Listing.tokenId (listings st i) = Listing.tokenId (listings st j)"
  from assms have c: "consistent (listings st) (tokenToListingId st)"
    by (simp add: pointers_consistent_def)
  from h have ai: "Listing.active (listings st i)" and aj: "Listing.active (listings st j)"
    and same: "Listing.nftContract (listings st i) = Listing.nftContract (listings st j)"
      "Listing.tokenId (listings st i) = Listing.tokenId (listings st j)"
    by simp_all
  have "i = tokenToListingId st (Listing.nftContract (listings st i))
              (Listing.tokenId (listings st i))"
    using consistentD(2) [OF c ai] by (rule sym)
  also have "\<dots> = tokenToListingId st (Listing.nftContract (listings st j))
              (Listing.tokenId (listings st j))"
    by (simp only: same)
  also have "\<dots> = j"
    using aj by (rule consistentD(2) [OF c])
  finally show "i = j" .
qed

lemma consistent_cancel:
  assumes inv: "consistent L P" and act: "Listing.active (L lid)"
  shows "consistent (L(lid := (L lid)\<lparr>Listing.active := False\<rparr>))
           (P(Listing.nftContract (L lid) :=
                (P (Listing.nftContract (L lid)))(Listing.tokenId (L lid) := 0)))"
    (is "consistent ?L ?P")
proof -
  note d = consistentD [OF inv]
  have own: "P (Listing.nftContract (L lid)) (Listing.tokenId (L lid)) = lid"
    using d(2) act by blast
  have one: "i \<noteq> 0 \<and> ?P (Listing.nftContract (?L i)) (Listing.tokenId (?L i)) = i"
    if a: "Listing.active (?L i)" for i
  proof -
    from a have ne: "i \<noteq> lid" by (auto split: if_splits)
    with a have ai: "Listing.active (L i)" by simp
    have pi: "P (Listing.nftContract (L i)) (Listing.tokenId (L i)) = i"
      using d(2) ai by blast
    with own ne have "\<not> (Listing.nftContract (L i) = Listing.nftContract (L lid)
        \<and> Listing.tokenId (L i) = Listing.tokenId (L lid))"
      by auto
    with pi ne d(1) [OF ai] show ?thesis by auto
  qed
  have two: "Listing.active (?L (?P nft tid)) \<and> Listing.nftContract (?L (?P nft tid)) = nft
       \<and> Listing.tokenId (?L (?P nft tid)) = tid"
    if p: "?P nft tid \<noteq> 0" for nft tid
  proof -
    from p have other: "\<not> (nft = Listing.nftContract (L lid) \<and> tid = Listing.tokenId (L lid))"
      by (auto split: if_splits)
    then have same: "?P nft tid = P nft tid" by auto
    with p have p0: "P nft tid \<noteq> 0" by simp
    from d(4,5) [OF p0] other have ne: "P nft tid \<noteq> lid" by auto
    from d(3,4,5) [OF p0] ne show ?thesis unfolding same by simp
  qed
  show ?thesis
    unfolding consistent_def
  proof (rule conjI; intro allI impI)
    fix i
    assume "Listing.active (?L i)"
    then show "i \<noteq> 0 \<and> ?P (Listing.nftContract (?L i)) (Listing.tokenId (?L i)) = i"
      by (rule one)
  next
    fix nft tid
    assume "?P nft tid \<noteq> 0"
    then show "Listing.active (?L (?P nft tid)) \<and> Listing.nftContract (?L (?P nft tid)) = nft
       \<and> Listing.tokenId (?L (?P nft tid)) = tid"
      by (rule two)
  qed
qed

lemma consistent_update_price:
  assumes inv: "consistent L P"
  shows "consistent (L(lid := (L lid)\<lparr>Listing.price := v\<rparr>)) P"
    (is "consistent ?L P")
proof -
  note d = consistentD [OF inv]
  have same: "Listing.active (?L i) = Listing.active (L i)"
    "Listing.nftContract (?L i) = Listing.nftContract (L i)"
    "Listing.tokenId (?L i) = Listing.tokenId (L i)" for i
    by simp_all
  show ?thesis
    unfolding consistent_def same
  proof (rule conjI; intro allI impI)
    fix i
    assume "Listing.active (L i)"
    with d(1,2) show "i \<noteq> 0 \<and> P (Listing.nftContract (L i)) (Listing.tokenId (L i)) = i"
      by simp
  next
    fix nft tid
    assume "P nft tid \<noteq> 0"
    with d(3,4,5) show "Listing.active (L (P nft tid)) \<and> Listing.nftContract (L (P nft tid)) = nft
       \<and> Listing.tokenId (L (P nft tid)) = tid"
      by simp
  qed
qed

lemma consistent_list:
  assumes inv: "consistent L P" and fresh: "\<not> Listing.active (L h)" and nz: "h \<noteq> 0"
    and free: "P nft tid = 0"
    and new: "Listing.active l" "Listing.nftContract l = nft" "Listing.tokenId l = tid"
  shows "consistent (L(h := l)) (P(nft := (P nft)(tid := h)))"
    (is "consistent ?L ?P")
proof -
  note d = consistentD [OF inv]
  have none: "\<not> (Listing.nftContract (L i) = nft \<and> Listing.tokenId (L i) = tid)"
    if "Listing.active (L i)" for i
    using d(1,2) [OF that] free by auto
  show ?thesis
    unfolding consistent_def
  proof (rule conjI; intro allI impI)
    fix i
    assume a: "Listing.active (?L i)"
    show "i \<noteq> 0 \<and> ?P (Listing.nftContract (?L i)) (Listing.tokenId (?L i)) = i"
    proof (cases "i = h")
      case True
      with nz new show ?thesis by simp
    next
      case False
      with a have ai: "Listing.active (L i)" by simp
      from none [OF ai] d(1,2) [OF ai] False show ?thesis by auto
    qed
  next
    fix n t
    assume p: "?P n t \<noteq> 0"
    show "Listing.active (?L (?P n t)) \<and> Listing.nftContract (?L (?P n t)) = n
       \<and> Listing.tokenId (?L (?P n t)) = t"
    proof (cases "n = nft \<and> t = tid")
      case True
      with new show ?thesis by simp
    next
      case False
      then have same: "?P n t = P n t" by auto
      with p have p0: "P n t \<noteq> 0" by simp
      from d(3) [OF p0] fresh have "P n t \<noteq> h" by auto
      with d(3,4,5) [OF p0] show ?thesis unfolding same by simp
    qed
  qed
qed

text \<open>The state of \<open>listItem\<close> after it has dealt with the asset's earlier listing.\<close>

lemma superseded_consistent:
  assumes inv: "consistent (listings st) (tokenToListingId st)"
    and e_def: "e = tokenToListingId st nft tid"
    and st1_def: "st1 = (if e \<noteq> 0 \<and> Listing.active (listings st e)
                    then internal_cancelListing e st else st)"
  shows "consistent (listings st1) (tokenToListingId st1)"
    and "tokenToListingId st1 nft tid = 0"
    and "\<not> Listing.active (listings st i) \<Longrightarrow> \<not> Listing.active (listings st1 i)"
    and "Listing.active (listings st j) \<Longrightarrow> Listing.nftContract (listings st j) = nft
         \<Longrightarrow> Listing.tokenId (listings st j) = tid \<Longrightarrow> \<not> Listing.active (listings st1 j)"
proof -
  note d = consistentD [OF inv]
  show c1: "consistent (listings st1) (tokenToListingId st1)"
  proof (cases "e \<noteq> 0 \<and> Listing.active (listings st e)")
    case True
    then have "st1 = internal_cancelListing e st" by (simp add: st1_def)
    with consistent_cancel [OF inv, of e] True show ?thesis
      by (simp add: internal_cancelListing_def Let_def)
  next
    case False
    then have "st1 = st" by (auto simp: st1_def)
    with inv show ?thesis by simp
  qed
  show p0: "tokenToListingId st1 nft tid = 0"
  proof (cases "e = 0")
    case True
    then show ?thesis by (simp add: st1_def e_def)
  next
    case False
    then have ne: "tokenToListingId st nft tid \<noteq> 0" by (simp add: e_def)
    from d(3,4,5) [OF ne] False show ?thesis
      by (simp add: st1_def e_def [symmetric] internal_cancelListing_def Let_def)
  qed
  show "\<not> Listing.active (listings st1 i)" if "\<not> Listing.active (listings st i)"
    using that by (simp add: st1_def internal_cancelListing_def Let_def)
  show "\<not> Listing.active (listings st1 j)"
    if "Listing.active (listings st j)" "Listing.nftContract (listings st j) = nft"
      "Listing.tokenId (listings st j) = tid"
  proof
    assume a: "Listing.active (listings st1 j)"
    have "Listing.nftContract (listings st1 j) = nft" "Listing.tokenId (listings st1 j) = tid"
      using that by (auto simp: st1_def internal_cancelListing_def Let_def)
    with consistentD(1,2) [OF c1 a] p0 show False by simp
  qed
qed

lemma listItem_Inr:
  assumes "listItem kl w sender now nft tid pr dur st = Inr (st', es)"
  shows "\<not> Listing.active (listings st (kl nft tid now))"
    and "\<exists>expiry.
           listings st' =
             (listings (if tokenToListingId st nft tid \<noteq> 0
                           \<and> Listing.active (listings st (tokenToListingId st nft tid))
                        then internal_cancelListing (tokenToListingId st nft tid) st else st))
             (kl nft tid now :=
                \<lparr>Listing.seller = sender, Listing.nftContract = nft, Listing.tokenId = tid,
                 Listing.price = pr, Listing.createdAt = now, Listing.expiresAt = expiry,
                 Listing.active = True\<rparr>)"
    and "tokenToListingId st' =
           (tokenToListingId (if tokenToListingId st nft tid \<noteq> 0
                           \<and> Listing.active (listings st (tokenToListingId st nft tid))
                        then internal_cancelListing (tokenToListingId st nft tid) st else st))
           (nft := (tokenToListingId (if tokenToListingId st nft tid \<noteq> 0
                           \<and> Listing.active (listings st (tokenToListingId st nft tid))
                        then internal_cancelListing (tokenToListingId st nft tid) st else st) nft)
                   (tid := kl nft tid now))"
  using assms
  by (auto simp: listItem_def Let_def and_then_Inr split: if_splits option.splits)

lemma listItem_consistent:
  assumes nz: "\<forall>nft tid now. kl nft tid now \<noteq> 0"
    and inv: "pointers_consistent st"
    and call: "listItem kl w sender now nft tid pr dur st = Inr (st', es)"
  shows "pointers_consistent st'"
proof -
  define e where "e = tokenToListingId st nft tid"
  define st1 where "st1 = (if e \<noteq> 0 \<and> Listing.active (listings st e)
                    then internal_cancelListing e st else st)"
  from inv have c: "consistent (listings st) (tokenToListingId st)"
    by (simp add: pointers_consistent_def)
  note s = superseded_consistent [OF c e_def st1_def]
  note l = listItem_Inr [OF call, folded e_def, folded st1_def]
  from l(2) obtain expiry where L: "listings st' = (listings st1)(kl nft tid now :=
                \<lparr>Listing.seller = sender, Listing.nftContract = nft, Listing.tokenId = tid,
                 Listing.price = pr, Listing.createdAt = now, Listing.expiresAt = expiry,
                 Listing.active = True\<rparr>)"
    by blast
  from nz have h: "kl nft tid now \<noteq> 0" by blast
  have "consistent (listings st') (tokenToListingId st')"
    unfolding L l(3)
    by (rule consistent_list [OF s(1) s(3) [OF l(1)] h s(2)]) simp_all
  then show ?thesis by (simp add: pointers_consistent_def)
qed

lemma internal_cancelListing_fields:
  "listings (internal_cancelListing lid st)
     = (listings st)(lid := (listings st lid)\<lparr>Listing.active := False\<rparr>)"
  "tokenToListingId (internal_cancelListing lid st)
     = (tokenToListingId st)
         (Listing.nftContract (listings st lid) :=
            (tokenToListingId st (Listing.nftContract (listings st lid)))
              (Listing.tokenId (listings st lid) := 0))"
  by (simp_all add: internal_cancelListing_def Let_def)

lemma buyItem_listings:
  assumes "buyItem w c lid st = Inr (st', es)"
  shows "listings st' = listings (internal_cancelListing lid st)"
    and "tokenToListingId st' = tokenToListingId (internal_cancelListing lid st)"
  unfolding internal_cancelListing_fields
  by (rule buyItem_Inr(7) [OF assms], rule buyItem_Inr(8) [OF assms])

lemma cancelListing_Inr:
  "(cancelListing sender lid st = Inr (st', es)) =
     ((Listing.seller (listings st lid) = sender \<or> sender = marketplace.owner st)
      \<and> Listing.active (listings st lid) \<and> st' = internal_cancelListing lid st \<and> es = [])"
  by (auto simp: cancelListing_def Let_def)

lemma updateListing_listings:
  assumes "updateListing sender now lid v st = Inr (st', es)"
  shows "listings st' = (listings st)(lid := (listings st lid)\<lparr>Listing.price := v\<rparr>)"
    and "tokenToListingId st' = tokenToListingId st"
  using assms by (auto simp: updateListing_def Let_def split: if_splits)

lemma acceptOffer_listings:
  assumes "acceptOffer w sender now oid st = Inr (st', es)"
    and "nft = Offer.nftContract (offers st oid)" and "tid = Offer.tokenId (offers st oid)"
  shows "listings st' =
           listings (if tokenToListingId st nft tid \<noteq> 0
                        \<and> Listing.active (listings st (tokenToListingId st nft tid))
                     then internal_cancelListing (tokenToListingId st nft tid) st else st)
         \<and> tokenToListingId st' =
           tokenToListingId (if tokenToListingId st nft tid \<noteq> 0
                        \<and> Listing.active (listings st (tokenToListingId st nft tid))
                     then internal_cancelListing (tokenToListingId st nft tid) st else st)"
  using assms
  by (auto simp: acceptOffer_def Let_def and_then_Inr internal_cancelListing_def
      split: if_splits option.splits)

lemma marketplace_frame:
  "createOffer ko c nft tid dur st = Inr (st', es)
     \<Longrightarrow> listings st' = listings st \<and> tokenToListingId st' = tokenToListingId st"
  "cancelOffer w sender now oid st = Inr (st', es)
     \<Longrightarrow> listings st' = listings st \<and> tokenToListingId st' = tokenToListingId st"
  "setContractWhitelist sender nft b st = Inr (st', es)
     \<Longrightarrow> listings st' = listings st \<and> tokenToListingId st' = tokenToListingId st"
  "setMarketplaceFee sender v st = Inr (st', es)
     \<Longrightarrow> listings st' = listings st \<and> tokenToListingId st' = tokenToListingId st"
  "setFeeRecipient sender a st = Inr (st', es)
     \<Longrightarrow> listings st' = listings st \<and> tokenToListingId st' = tokenToListingId st"
  "setRoyaltyEngine sender a st = Inr (st', es)
     \<Longrightarrow> listings st' = listings st \<and> tokenToListingId st' = tokenToListingId st"
  "pause sender st = Inr (st', es)
     \<Longrightarrow> listings st' = listings st \<and> tokenToListingId st' = tokenToListingId st"
  "unpause sender st = Inr (st', es)
     \<Longrightarrow> listings st' = listings st \<and> tokenToListingId st' = tokenToListingId st"
  "emergencyWithdraw w sender st = Inr (st', es)
     \<Longrightarrow> listings st' = listings st \<and> tokenToListingId st' = tokenToListingId st"
  "transferOwnership sender a st = Inr (st', es)
     \<Longrightarrow> listings st' = listings st \<and> tokenToListingId st' = tokenToListingId st"
  "renounceOwnership sender st = Inr (st', es)
     \<Longrightarrow> listings st' = listings st \<and> tokenToListingId st' = tokenToListingId st"
  by (auto simp: createOffer_def cancelOffer_Inr setContractWhitelist_def setMarketplaceFee_def
      setFeeRecipient_def setRoyaltyEngine_def pause_def unpause_def emergencyWithdraw_Inr
      transferOwnership_def renounceOwnership_def and_then_Inr Let_def
      split: if_splits)

lemma pointers_consistent_same:
  "listings a = listings b \<and> tokenToListingId a = tokenToListingId b
   \<Longrightarrow> pointers_consistent b \<Longrightarrow> pointers_consistent a"
  by (simp add: pointers_consistent_def)

lemma pointers_consistent_cancel:
  assumes "pointers_consistent st" and "Listing.active (listings st lid)"
  shows "pointers_consistent (internal_cancelListing lid st)"
  using consistent_cancel [of "listings st" "tokenToListingId st" lid] assms
  by (simp add: pointers_consistent_def internal_cancelListing_def Let_def)

lemma marketplace_call_consistent:
  assumes nz: "\<forall>nft tid now. kl nft tid now \<noteq> 0"
    and inv: "pointers_consistent st"
    and call: "marketplace_call kl ko w c opn st = Inr (st', es)"
  shows "pointers_consistent st'"
proof (cases opn)
  case (ListItem nft tid pr dur)
  with call have "listItem kl w (msg_sender c) (block_timestamp c) nft tid pr dur st = Inr (st', es)"
    by (simp add: nonpayable_Inr)
  with nz inv show ?thesis by (rule listItem_consistent)
next
  case (BuyItem lid)
  with call have b: "buyItem w c lid st = Inr (st', es)" by simp
  from pointers_consistent_cancel [OF inv buyItem_Inr(2) [OF b]] buyItem_listings [OF b]
  show ?thesis by (simp add: pointers_consistent_def)
next
  case (CancelListing lid)
  with call have "cancelListing (msg_sender c) lid st = Inr (st', es)"
    by (simp add: nonpayable_Inr)
  with inv show ?thesis by (auto simp: cancelListing_Inr intro: pointers_consistent_cancel)
next
  case (UpdateListing lid v)
  with call have "updateListing (msg_sender c) (block_timestamp c) lid v st = Inr (st', es)"
    by (simp add: nonpayable_Inr)
  from updateListing_listings [OF this] inv
    consistent_update_price [of "listings st" "tokenToListingId st" lid v]
  show ?thesis by (simp add: pointers_consistent_def)
next
  case (AcceptOffer oid)
  with call have "acceptOffer w (msg_sender c) (block_timestamp c) oid st = Inr (st', es)"
    by (simp add: nonpayable_Inr)
  from acceptOffer_listings [OF this refl refl] obtain nft tid where
    same: "listings st' =
           listings (if tokenToListingId st nft tid \<noteq> 0
                        \<and> Listing.active (listings st (tokenToListingId st nft tid))
                     then internal_cancelListing (tokenToListingId st nft tid) st else st)
         \<and> tokenToListingId st' =
           tokenToListingId (if tokenToListingId st nft tid \<noteq> 0
                        \<and> Listing.active (listings st (tokenToListingId st nft tid))
                     then internal_cancelListing (tokenToListingId st nft tid) st else st)"
    by blast
  have "pointers_consistent (if tokenToListingId st nft tid \<noteq> 0
                        \<and> Listing.active (listings st (tokenToListingId st nft tid))
                     then internal_cancelListing (tokenToListingId st nft tid) st else st)"
    using inv by (auto intro: pointers_consistent_cancel)
  with same show ?thesis by (rule pointers_consistent_same)
qed (use call inv in \<open>auto simp: nonpayable_Inr dest!: marketplace_frame
       intro: pointers_consistent_same\<close>)

lemma reachable_consistent:
  assumes "\<forall>nft tid now. kl nft tid now \<noteq> 0"
  shows "marketplace_reachable kl ko st \<Longrightarrow> pointers_consistent st"
proof (induction rule: marketplace_reachable.induct)
  case (deployed self deployer fr re)
  show ?case
    by (simp add: pointers_consistent_def consistent_def marketplace_constructor_def
        no_listing_def)
next
  case (called st w c opn st' es)
  with assms show ?case by (blast intro: marketplace_call_consistent)
next
  case (credited st v)
  then show ?case by (simp add: pointers_consistent_def)
qed

lemma marketplace_state_after_reachable:
  assumes "marketplace_reachable kl ko st"
  shows "marketplace_reachable kl ko (state_after st (marketplace_call kl ko w c opn st))"
proof (cases "marketplace_call kl ko w c opn st")
  case (Inl e)
  with assms show ?thesis by simp
next
  case (Inr x)
  obtain st' es where "x = (st', es)" by (cases x) auto
  with Inr assms show ?thesis by (auto intro: called)
qed

lemma marketplace_run_reachable:
  "marketplace_reachable kl ko st \<Longrightarrow> marketplace_reachable kl ko (marketplace_run kl ko w xs st)"
  by (induction xs arbitrary: st) (simp_all add: marketplace_state_after_reachable)

lemma sample_market_run:
  "sample_market = marketplace_run sample_keccak_listing sample_keccak_offer plain_world
     market_trace (marketplace_constructor 50 1 3 4)"
  by (simp add: market_trace_def marketplace_constructor_def nonpayable_def
      setContractWhitelist_def listItem_def createOffer_def sample_keccak_listing_def
      sample_keccak_offer_def sample_defs run_defs no_listing_def no_offer_def fun_eq_iff)

lemma sample_market_reachable:
  "marketplace_reachable sample_keccak_listing sample_keccak_offer sample_market"
  unfolding sample_market_run
  by (rule marketplace_run_reachable) (rule deployed)

lemma sample_keccak_listing_nonzero: "\<forall>nft tid now. sample_keccak_listing nft tid now \<noteq> 0"
  by (simp add: sample_keccak_listing_def)

text \<open>
  Claim C5. In every reachable state of the marketplace there is at most one active
  listing per (registry, token) pair, and a \<open>listItem\<close> for an asset that has an active
  listing deactivates that listing and records the new one, under the identifier
  \<open>keccak256(nftContract, tokenId, now)\<close>, as the active listing the asset points to.
  The hash function is a parameter; all that is asked of it is that it never answers
  \<^verbatim>\<open>bytes32(0)\<close>, the value the contract reads as "no listing".
\<close>

theorem one_active_listing_per_asset:
  assumes "\<forall>nft tid now. kl nft tid now \<noteq> 0" and "marketplace_reachable kl ko st"
  shows "one_active_listing st
       \<and> (\<forall>w sender now nft tid pr dur st' es j.
            listItem kl w sender now nft tid pr dur st = Inr (st', es)
            \<and> Listing.active (listings st j)
            \<and> Listing.nftContract (listings st j) = nft
            \<and> Listing.tokenId (listings st j) = tid
          \<longrightarrow> \<not> Listing.active (listings st' j)
              \<and> Listing.active (listings st' (kl nft tid now))
              \<and> Listing.nftContract (listings st' (kl nft tid now)) = nft
              \<and> Listing.tokenId (listings st' (kl nft tid now)) = tid
              \<and> tokenToListingId st' nft tid = kl nft tid now
              \<and> one_active_listing st')"
proof -
  have inv: "pointers_consistent st"
    using assms by (rule reachable_consistent)
  then have c: "consistent (listings st) (tokenToListingId st)"
    by (simp add: pointers_consistent_def)
  have relist: "\<not> Listing.active (listings st' j)
              \<and> Listing.active (listings st' (kl nft tid now))
              \<and> Listing.nftContract (listings st' (kl nft tid now)) = nft
              \<and> Listing.tokenId (listings st' (kl nft tid now)) = tid
              \<and> tokenToListingId st' nft tid = kl nft tid now
              \<and> one_active_listing st'"
    if h: "listItem kl w sender now nft tid pr dur st = Inr (st', es)
            \<and> Listing.active (listings st j)
            \<and> Listing.nftContract (listings st j) = nft
            \<and> Listing.tokenId (listings st j) = tid"
    for w sender now nft tid pr dur st' es j
  proof -
    from h have call: "listItem kl w sender now nft tid pr dur st = Inr (st', es)"
      and j: "Listing.active (listings st j)" "Listing.nftContract (listings st j) = nft"
        "Listing.tokenId (listings st j) = tid"
      by simp_all
    define e where "e = tokenToListingId st nft tid"
    define st1 where "st1 = (if e \<noteq> 0 \<and> Listing.active (listings st e)
                    then internal_cancelListing e st else st)"
    note s = superseded_consistent [OF c e_def st1_def]
    note l = listItem_Inr [OF call, folded e_def, folded st1_def]
    from l(2) obtain expiry where L: "listings st' = (listings st1)(kl nft tid now :=
                \<lparr>Listing.seller = sender, Listing.nftContract = nft, Listing.tokenId = tid,
                 Listing.price = pr, Listing.createdAt = now, Listing.expiresAt = expiry,
                 Listing.active = True\<rparr>)"
      by blast
    from l(1) j(1) have ne: "j \<noteq> kl nft tid now" by auto
    have "\<not> Listing.active (listings st' j)"
      using s(4) [OF j] ne by (simp add: L)
    moreover have "Listing.active (listings st' (kl nft tid now))"
      "Listing.nftContract (listings st' (kl nft tid now)) = nft"
      "Listing.tokenId (listings st' (kl nft tid now)) = tid"
      by (simp_all add: L)
    moreover have "tokenToListingId st' nft tid = kl nft tid now"
      by (simp add: l(3))
    moreover have "one_active_listing st'"
      by (rule consistent_one_active) (rule listItem_consistent [OF assms(1) inv call])
    ultimately show ?thesis by simp
  qed
  from consistent_one_active [OF inv] relist show ?thesis by blast
qed

lemma sample_relist:
  "\<exists>st'. listItem sample_keccak_listing plain_world 11 200 5 1 2000000 1000 sample_market
       = Inr (st', [])
     \<and> \<not> Listing.active (listings st' 107) \<and> Listing.active (listings st' 207)
     \<and> Listing.price (listings st' 207) = 2000000"
  by (simp add: listItem_def sample_keccak_listing_def sample_defs run_defs no_listing_def)

theorem one_active_listing_per_asset_witness:
  "(\<forall>nft tid now. sample_keccak_listing nft tid now \<noteq> 0)
   \<and> marketplace_reachable sample_keccak_listing sample_keccak_offer sample_market
   \<and> one_active_listing sample_market
   \<and> Listing.active (listings sample_market 107)
   \<and> sample_keccak_listing 5 1 200 = 207
   \<and> (\<exists>st'. listItem sample_keccak_listing plain_world 11 200 5 1 2000000 1000 sample_market
          = Inr (st', [])
        \<and> \<not> Listing.active (listings st' 107) \<and> Listing.active (listings st' 207)
        \<and> tokenToListingId st' 5 1 = 207 \<and> one_active_listing st')"
proof -
  note nz = sample_keccak_listing_nonzero
  note r = sample_market_reachable
  obtain st1 where l: "listItem sample_keccak_listing plain_world 11 200 5 1 2000000 1000
      sample_market = Inr (st1, [])"
    using sample_relist by blast
  have old: "Listing.active (listings sample_market 107)"
    "Listing.nftContract (listings sample_market 107) = 5"
    "Listing.tokenId (listings sample_market 107) = 1"
    by (simp_all add: sample_defs)
  have h: "sample_keccak_listing 5 1 200 = 207"
    by (simp add: sample_keccak_listing_def)
  from one_active_listing_per_asset [OF nz r]
  have one: "one_active_listing sample_market"
    and after: "\<not> Listing.active (listings st1 107)
              \<and> Listing.active (listings st1 (sample_keccak_listing 5 1 200))
              \<and> Listing.nftContract (listings st1 (sample_keccak_listing 5 1 200)) = 5
              \<and> Listing.tokenId (listings st1 (sample_keccak_listing 5 1 200)) = 1
              \<and> tokenToListingId st1 5 1 = sample_keccak_listing 5 1 200
              \<and> one_active_listing st1"
    using l old by blast+
  from nz r one old(1) h l after show ?thesis
    by auto
qed

subsection \<open>The split never underflows\<close>

lemma sale_split_bounded:
  assumes "f \<le> 1000" and "ra \<le> pr div 10"
  shows "sale_split pr f ra =
     (if pr * f \<le> MAX_UINT256
      then Inr (pr * f div 10000, pr - pr * f div 10000 - ra) else Inl Panic_overflow)"
proof -
  have "pr * f div 10000 \<le> pr div 10" using assms(1) by (rule share_le_tenth)
  with assms(2) have "pr * f div 10000 \<le> pr" "ra \<le> pr - pr * f div 10000"
    by linarith+
  then show ?thesis
    by (simp add: sale_split_def and_then_def checked_mul_def checked_sub_def Let_def)
qed

lemma getRoyalty_Inl:
  "getRoyalty w s c t sale = Inl e \<Longrightarrow> e = Panic_overflow \<or> e = Bad_return_data"
  by (auto simp: getRoyalty_def royalty_share_def checked_mul_def Let_def eip2981_abort
      split: sum.splits option.splits if_splits)

lemma transfer_ether_Inl: "transfer_ether w p a v be = Inl e \<Longrightarrow> e = Callee_reverted"
  by (auto simp: transfer_ether_def split: if_splits)

lemma transfer_nft_Inl: "transfer_nft w n a b t be = Inl e \<Longrightarrow> e = Callee_reverted"
  by (auto simp: transfer_nft_def split: if_splits)

lemma checked_add_Inl: "checked_add a b = Inl e \<Longrightarrow> e = Panic_overflow"
  by (auto simp: checked_add_def split: if_splits)

lemma approved_for_Inl: "approved_for w n t h operator = Inl e \<Longrightarrow> e = Callee_reverted"
  by (auto simp: approved_for_def split: option.splits bool.splits)

lemma settle_sale_Inl:
  "settle_sale w st nft tid s b amounts be = Inl e \<Longrightarrow> e = Callee_reverted"
  by (auto simp: settle_sale_def and_then_Inl split: prod.splits if_splits
      dest: transfer_ether_Inl transfer_nft_Inl)

lemma sale_amounts_no_underflow:
  assumes fee: "marketplaceFeePercentage st \<le> 1000"
    and bound: "\<forall>nft tid pr rr ra.
        getRoyalty w (engine_at w (royaltyEngine st)) nft tid pr = Inr (rr, ra)
        \<longrightarrow> ra \<le> pr div 10"
  shows "sale_amounts w st nft tid pr \<noteq> Inl Panic_underflow"
proof
  assume u: "sale_amounts w st nft tid pr = Inl Panic_underflow"
  show False
  proof (cases "getRoyalty w (engine_at w (royaltyEngine st)) nft tid pr")
    case (Inl e)
    with u getRoyalty_Inl [OF Inl] show False
      by (auto simp: sale_amounts_def and_then_def)
  next
    case (Inr x)
    obtain rr ra where x: "x = (rr, ra)" by (cases x) auto
    from bound Inr x have "ra \<le> pr div 10" by blast
    from sale_split_bounded [OF fee this] u Inr x show False
      by (simp add: sale_amounts_def and_then_def split: if_splits)
  qed
qed

lemma buyItem_no_underflow:
  assumes "\<And>nft tid pr. sale_amounts w st nft tid pr \<noteq> Inl Panic_underflow"
  shows "buyItem w c lid st \<noteq> Inl Panic_underflow"
  using assms
  by (auto simp: buyItem_def Let_def and_then_Inl
      split: option.splits if_splits
      dest: settle_sale_Inl transfer_ether_Inl checked_add_Inl)

lemma acceptOffer_no_underflow:
  assumes "\<And>nft tid pr. sale_amounts w st nft tid pr \<noteq> Inl Panic_underflow"
  shows "acceptOffer w sender now oid st \<noteq> Inl Panic_underflow"
  using assms
  by (auto simp: acceptOffer_def Let_def and_then_Inl
      split: option.splits if_splits
      dest: settle_sale_Inl approved_for_Inl checked_add_Inl)

lemma listItem_fee:
  "listItem kl w sender now nft tid pr dur st = Inr (st', es)
     \<Longrightarrow> marketplaceFeePercentage st' = marketplaceFeePercentage st"
  by (auto simp: listItem_def and_then_Inr Let_def
      split: if_splits option.splits)

lemma createOffer_fee:
  "createOffer ko c nft tid dur st = Inr (st', es)
     \<Longrightarrow> marketplaceFeePercentage st' = marketplaceFeePercentage st"
  by (auto simp: createOffer_def and_then_Inr Let_def split: if_splits option.splits)

lemma fee_kept:
  "cancelListing sender lid st = Inr (st', es)
     \<Longrightarrow> marketplaceFeePercentage st' = marketplaceFeePercentage st"
  "updateListing sender now lid v st = Inr (st', es)
     \<Longrightarrow> marketplaceFeePercentage st' = marketplaceFeePercentage st"
  "cancelOffer w sender now oid st = Inr (st', es)
     \<Longrightarrow> marketplaceFeePercentage st' = marketplaceFeePercentage st"
  "setContractWhitelist sender nft b st = Inr (st', es)
     \<Longrightarrow> marketplaceFeePercentage st' = marketplaceFeePercentage st"
  "setFeeRecipient sender a st = Inr (st', es)
     \<Longrightarrow> marketplaceFeePercentage st' = marketplaceFeePercentage st"
  "setRoyaltyEngine sender a st = Inr (st', es)
     \<Longrightarrow> marketplaceFeePercentage st' = marketplaceFeePercentage st"
  "pause sender st = Inr (st', es)
     \<Longrightarrow> marketplaceFeePercentage st' = marketplaceFeePercentage st"
  "unpause sender st = Inr (st', es)
     \<Longrightarrow> marketplaceFeePercentage st' = marketplaceFeePercentage st"
  "emergencyWithdraw w sender st = Inr (st', es)
     \<Longrightarrow> marketplaceFeePercentage st' = marketplaceFeePercentage st"
  "transferOwnership sender a st = Inr (st', es)
     \<Longrightarrow> marketplaceFeePercentage st' = marketplaceFeePercentage st"
  "renounceOwnership sender st = Inr (st', es)
     \<Longrightarrow> marketplaceFeePercentage st' = marketplaceFeePercentage st"
  by (auto simp: cancelListing_Inr updateListing_def cancelOffer_Inr setContractWhitelist_def
      setFeeRecipient_def setRoyaltyEngine_def pause_def unpause_def emergencyWithdraw_Inr
      transferOwnership_def renounceOwnership_def and_then_Inr Let_def
      split: if_splits option.splits)

lemma setMarketplaceFee_bounded:
  "setMarketplaceFee sender v st = Inr (st', es) \<Longrightarrow> marketplaceFeePercentage st' \<le> 1000"
  by (auto simp: setMarketplaceFee_def MAX_FEE_PERCENTAGE_def split: if_splits)

lemma reachable_fee_bounded:
  "marketplace_reachable kl ko st \<Longrightarrow> marketplaceFeePercentage st \<le> 1000"
proof (induction rule: marketplace_reachable.induct)
  case (deployed self deployer fr re)
  show ?case by (simp add: marketplace_constructor_def)
next
  case (called st w c opn st' es)
  then show ?case
    by (cases opn)
      (auto simp: nonpayable_Inr
        dest: fee_kept listItem_fee createOffer_fee buyItem_Inr(9) acceptOffer_Inr(5)
          setMarketplaceFee_bounded)
next
  case (credited st v)
  then show ?case by simp
qed

text \<open>
  Claim C10. The marketplace fee is at most 1000 basis points in every reachable state
  (the constructor sets 250, and \<open>setMarketplaceFee\<close> is the only function writing
  it). With a royalty engine whose answers are at most a tenth of the price, the checked
  subtractions of \<open>sellerAmount = price - marketplaceFee - royaltyAmount\<close> then never
  underflow: neither \<open>buyItem\<close> nor \<open>acceptOffer\<close> ever aborts with an arithmetic
  underflow, and the split returns \<open>price * bps / 10000\<close> and
  \<open>price - fee - royalty\<close> whenever the product \<open>price * bps\<close> fits into 256 bits.
\<close>

theorem sale_split_never_underflows:
  assumes "marketplace_reachable kl ko st"
    and "\<forall>nft tid pr rr ra.
        getRoyalty w (engine_at w (royaltyEngine st)) nft tid pr = Inr (rr, ra)
        \<longrightarrow> ra \<le> pr div 10"
  shows "marketplaceFeePercentage st \<le> 1000
       \<and> buyItem w c lid st \<noteq> Inl Panic_underflow
       \<and> acceptOffer w sender now oid st \<noteq> Inl Panic_underflow
       \<and> (\<forall>pr ra. ra \<le> pr div 10 \<longrightarrow>
            sale_split pr (marketplaceFeePercentage st) ra =
              (if pr * marketplaceFeePercentage st \<le> MAX_UINT256
               then Inr (pr * marketplaceFeePercentage st div 10000,
                         pr - pr * marketplaceFeePercentage st div 10000 - ra)
               else Inl Panic_overflow))"
proof (intro conjI allI impI)
  show fee: "marketplaceFeePercentage st \<le> 1000"
    using assms(1) by (rule reachable_fee_bounded)
  show "buyItem w c lid st \<noteq> Inl Panic_underflow"
    by (rule buyItem_no_underflow) (rule sale_amounts_no_underflow [OF fee assms(2)])
  show "acceptOffer w sender now oid st \<noteq> Inl Panic_underflow"
    by (rule acceptOffer_no_underflow) (rule sale_amounts_no_underflow [OF fee assms(2)])
  fix pr ra :: nat
  assume "ra \<le> pr div 10"
  with fee show "sale_split pr (marketplaceFeePercentage st) ra =
              (if pr * marketplaceFeePercentage st \<le> MAX_UINT256
               then Inr (pr * marketplaceFeePercentage st div 10000,
                         pr - pr * marketplaceFeePercentage st div 10000 - ra)
               else Inl Panic_overflow)"
    by (rule sale_split_bounded)
qed

theorem sale_split_never_underflows_witness:
  "marketplace_reachable sample_keccak_listing sample_keccak_offer sample_market
   \<and> getRoyalty plain_world (engine_at plain_world (royaltyEngine sample_market)) 5 1 1000000
       = Inr (77, 50000)
   \<and> marketplaceFeePercentage sample_market \<le> 1000
   \<and> buyItem plain_world buyer_call 107 sample_market \<noteq> Inl Panic_underflow
   \<and> acceptOffer plain_world 11 500 129 sample_market \<noteq> Inl Panic_underflow
   \<and> sale_split 1000000 (marketplaceFeePercentage sample_market) 50000 = Inr (25000, 925000)"
proof -
  note reach = sample_market_reachable
  have eng: "engine_at plain_world (royaltyEngine sample_market) = layered_engine"
    by (simp add: plain_world_def)
  have bound: "\<forall>nft tid pr rr ra.
      getRoyalty plain_world (engine_at plain_world (royaltyEngine sample_market)) nft tid pr
        = Inr (rr, ra) \<longrightarrow> ra \<le> pr div 10"
    unfolding eng using royalty_bound_from_records [OF layered_engine_ok] by blast
  have r: "(50000::nat) \<le> 1000000 div 10" by simp
  have figures: "marketplaceFeePercentage sample_market = 250"
    by (simp add: sample_defs)
  from sale_split_never_underflows [OF reach bound, of buyer_call 107 11 500 129] r
    reach layered_engine_answer
  show ?thesis
    unfolding eng by (simp add: figures MAX_UINT256_def)
qed

end
